theory Spec2Isabelle
  imports Complex_Main "HOL-Library.AList" "HOL-Library.Sublist"
begin

section \<open>Data model (src/types/index.ts)\<close>

text \<open>
  JavaScript numbers are modelled as reals; the stability tracker computes with them as
  IEEE doubles, every operation rounding to the nearest double (see the section on
  numbers).  The decision engine compares numbers and hands them on; its confidence
  values are kept as the decimal values written in the code, and the confidence of
  \<open>continue\<close> as the exact difference.  Counters that the code only ever increments by
  one are integers.  Strings are
  lists of 8-bit code units (Isabelle's \<open>char\<close>), so the model covers the strings
  whose UTF-16 code units all lie below 256.
\<close>

datatype RoundPhase = ARCHITECT | REFINER

datatype VsPrevious = better | same_previous | worse

datatype VsGoal = closer | same_goal | farther

record BlindEvaluation =
  vs_previous :: VsPrevious
  vs_goal :: VsGoal
  contradictions :: "string list"
  missing :: "string list"
  risks :: "string list"

record StabilityMetrics =
  contradiction_ratio :: real
  decision_reuse_rate :: real
  plan_similarity :: real
  goal_convergence :: real
  overall_stability :: real

datatype TerminationReason =
  stability_achieved | max_rounds_reached | contradiction_trend_up
  | goal_diverging | task_complete | continue

record TerminationDecision =
  should_terminate :: bool
  reason :: TerminationReason
  confidence :: real

datatype Priority = high | medium | low

datatype TaskStatus = pending | in_progress | completed

text \<open>The fields \<open>id\<close> of a task and of a plan are named \<open>task_id\<close> and \<open>plan_id\<close>
  (\<open>id\<close> is the identity function of HOL).  A \<open>Date\<close> is its time value, the milliseconds
  since the epoch.\<close>

record PlanTask =
  task_id :: string
  description :: string
  priority :: Priority
  status :: TaskStatus
  dependencies :: "string list"

record Plan =
  plan_id :: string
  goals :: "string list"
  tasks :: "PlanTask list"
  constraints :: "string list"
  created_at :: nat

record LockedStructure =
  goals :: "string list"
  core_decisions :: "string list"
  locked_at_round :: int

record RoundState =
  number :: int
  phase :: RoundPhase
  plan :: "Plan option"
  evaluation :: "BlindEvaluation option"
  stability :: "StabilityMetrics option"
  locked_structure :: "LockedStructure option"


section \<open>Strings and collections of the JavaScript runtime\<close>

text \<open>\<open>String.prototype.toLowerCase\<close> on code units below 256: the letters A to Z and the
  Latin-1 capitals U+00C0 to U+00DE (but not the multiplication sign U+00D7) become the
  small letters 32 places up; every other code unit stays.\<close>

definition asciiLower :: string where
  "asciiLower = ''abcdefghijklmnopqrstuvwxyz''"

definition latin1Lower :: string where
  "latin1Lower =
     [CHR 0xE0, CHR 0xE1, CHR 0xE2, CHR 0xE3, CHR 0xE4, CHR 0xE5, CHR 0xE6, CHR 0xE7,
      CHR 0xE8, CHR 0xE9, CHR 0xEA, CHR 0xEB, CHR 0xEC, CHR 0xED, CHR 0xEE, CHR 0xEF,
      CHR 0xF0, CHR 0xF1, CHR 0xF2, CHR 0xF3, CHR 0xF4, CHR 0xF5, CHR 0xF6, CHR 0xD7,
      CHR 0xF8, CHR 0xF9, CHR 0xFA, CHR 0xFB, CHR 0xFC, CHR 0xFD, CHR 0xFE]"

definition lowerChar :: "char \<Rightarrow> char" where
  "lowerChar c =
     (let n = (of_char c :: nat)
      in if 65 \<le> n \<and> n \<le> 90 then asciiLower ! (n - 65)
         else if 192 \<le> n \<and> n \<le> 222 then latin1Lower ! (n - 192)
         else c)"

definition toLowerCase :: "string \<Rightarrow> string" where
  "toLowerCase s = map lowerChar s"

text \<open>A \<open>Set\<close> is the list of its distinct elements in insertion order; \<open>new Set(xs)\<close> adds
  the elements of \<open>xs\<close> one by one.\<close>

fun setAddAll :: "'a list \<Rightarrow> 'a list \<Rightarrow> 'a list" where
  "setAddAll acc [] = acc"
| "setAddAll acc (x # xs) = setAddAll (if x \<in> set acc then acc else acc @ [x]) xs"

definition newSet :: "'a list \<Rightarrow> 'a list" where
  "newSet xs = setAddAll [] xs"


text \<open>Values that the code throws.  \<open>Error m\<close> is \<open>new Error(m)\<close>; the messages of the
  runtime's own \<open>SyntaxError\<close> (from \<open>JSON.parse\<close>) and \<open>TypeError\<close> (a property read on
  \<open>null\<close>) are engine-defined and left out; \<open>Rejected s\<close> is any other value a host function
  rejects with, given by the text \<open>s\<close> that a template literal renders it to.\<close>

datatype js_error = Error string | SyntaxError | TypeError | Rejected string

fun errorToString :: "js_error \<Rightarrow> string" where
  "errorToString (Error m) = ''Error: '' @ m"
| "errorToString SyntaxError = ''SyntaxError''"
| "errorToString TypeError = ''TypeError''"
| "errorToString (Rejected s) = s"

text \<open>Decimal digits of a natural number (a template literal's rendering of a non-negative
  integer counter or clock reading).\<close>

definition digitChar :: "nat \<Rightarrow> char" where
  "digitChar d = ''0123456789'' ! d"

fun showNat :: "nat \<Rightarrow> string" where
  "showNat n =
     (if n < 10 then [digitChar n]
      else showNat (n div 10) @ [digitChar (n mod 10)])"

declare showNat.simps [simp del]

subsection \<open>JSON values and \<open>JSON.parse\<close>\<close>

text \<open>What \<open>JSON.parse\<close> returns.  A number is kept as the exact value of its literal
  (the double it denotes is the nearest one); an object is the list of its properties,
  one entry per key.\<close>

datatype json =
  JNull | JBool bool | JNum rat | JStr string | JArr "json list"
  | JObj "(string \<times> json) list"

datatype token =
  LBrace | RBrace | LBracket | RBracket | Colon | Comma
  | TStr string | TNum rat | TTrue | TFalse | TNull

definition isDigit :: "char \<Rightarrow> bool" where
  "isDigit c \<longleftrightarrow> 48 \<le> (of_char c :: nat) \<and> (of_char c :: nat) \<le> 57"

definition digitVal :: "char \<Rightarrow> nat" where
  "digitVal c = of_char c - 48"

definition hexVal :: "char \<Rightarrow> nat option" where
  "hexVal c =
     (let n = (of_char c :: nat)
      in if 48 \<le> n \<and> n \<le> 57 then Some (n - 48)
         else if 65 \<le> n \<and> n \<le> 70 then Some (n - 55)
         else if 97 \<le> n \<and> n \<le> 102 then Some (n - 87)
         else None)"

definition hex4 :: "char \<Rightarrow> char \<Rightarrow> char \<Rightarrow> char \<Rightarrow> nat option" where
  "hex4 a b c d =
     (case (hexVal a, hexVal b, hexVal c, hexVal d) of
        (Some w, Some x, Some y, Some z) \<Rightarrow> Some (((w * 16 + x) * 16 + y) * 16 + z)
      | _ \<Rightarrow> None)"

text \<open>The single-character escapes of a JSON string.\<close>

definition unescape :: "char \<Rightarrow> char option" where
  "unescape e =
     (if e = CHR 0x22 then Some (CHR 0x22)
      else if e = CHR 0x5C then Some (CHR 0x5C)
      else if e = CHR ''/'' then Some (CHR ''/'')
      else if e = CHR ''b'' then Some (CHR 0x08)
      else if e = CHR ''f'' then Some (CHR 0x0C)
      else if e = CHR ''n'' then Some (CHR 0x0A)
      else if e = CHR ''r'' then Some (CHR 0x0D)
      else if e = CHR ''t'' then Some (CHR 0x09)
      else None)"

text \<open>The body of a string literal, from after the opening quote: the decoded text and
  the input after the closing quote.  A raw control character ends the parse, as does an
  unknown escape.  A \<open>\u\<close> escape above 00FF denotes a code unit outside the modelled
  alphabet; the model rejects it.\<close>

fun lexString :: "string \<Rightarrow> string \<Rightarrow> (string \<times> string) option" where
  "lexString [] acc = None"
| "lexString (c # cs) acc =
     (if c = CHR 0x22 then Some (rev acc, cs)
      else if c = CHR 0x5C then
        (case cs of
           [] \<Rightarrow> None
         | e # cs' \<Rightarrow>
             if e = CHR ''u'' then
               (case cs' of
                  h1 # h2 # h3 # h4 # cs'' \<Rightarrow>
                    (case hex4 h1 h2 h3 h4 of
                       Some n \<Rightarrow> if n < 256 then lexString cs'' (char_of n # acc) else None
                     | None \<Rightarrow> None)
                | _ \<Rightarrow> None)
             else
               (case unescape e of
                  Some ch \<Rightarrow> lexString cs' (ch # acc)
                | None \<Rightarrow> None))
      else if (of_char c :: nat) < 32 then None
      else lexString cs (c # acc))"

definition digitsVal :: "string \<Rightarrow> nat" where
  "digitsVal ds = foldl (\<lambda>n d. 10 * n + digitVal d) 0 ds"

text \<open>A number literal: \<open>-? (0 | [1-9][0-9]*) (. [0-9]+)? ([eE] [+-]? [0-9]+)?\<close>.  Each
  part returns what it read and the rest of the input.\<close>

definition lexInt :: "string \<Rightarrow> (nat \<times> string) option" where
  "lexInt cs =
     (let ds = takeWhile isDigit cs; rest = dropWhile isDigit cs
      in if ds = [] then None
         else if hd ds = CHR ''0'' \<and> length ds > 1 then None
         else Some (digitsVal ds, rest))"

definition lexFrac :: "string \<Rightarrow> (rat \<times> string) option" where
  "lexFrac cs =
     (case cs of
        c # cs' \<Rightarrow>
          if c = CHR ''.'' then
            (let ds = takeWhile isDigit cs'; rest = dropWhile isDigit cs'
             in if ds = [] then None
                else Some (of_nat (digitsVal ds) / 10 ^ length ds, rest))
          else Some (0, cs)
      | [] \<Rightarrow> Some (0, cs))"

definition lexExp :: "string \<Rightarrow> (int \<times> string) option" where
  "lexExp cs =
     (case cs of
        c # cs' \<Rightarrow>
          if c = CHR ''e'' \<or> c = CHR ''E'' then
            (let (neg, cs'') =
                   (case cs' of
                      s # t \<Rightarrow> if s = CHR ''-'' then (True, t)
                               else if s = CHR ''+'' then (False, t) else (False, cs')
                    | [] \<Rightarrow> (False, cs'));
                 ds = takeWhile isDigit cs''; rest = dropWhile isDigit cs''
             in if ds = [] then None
                else Some (if neg then - int (digitsVal ds) else int (digitsVal ds), rest))
          else Some (0, cs)
      | [] \<Rightarrow> Some (0, cs))"

definition lexNumber :: "string \<Rightarrow> (rat \<times> string) option" where
  "lexNumber cs =
     (let (neg, cs1) = (case cs of c # t \<Rightarrow> if c = CHR ''-'' then (True, t) else (False, cs)
                        | [] \<Rightarrow> (False, cs))
      in case lexInt cs1 of
           None \<Rightarrow> None
         | Some (i, cs2) \<Rightarrow>
             (case lexFrac cs2 of
                None \<Rightarrow> None
              | Some (f, cs3) \<Rightarrow>
                  (case lexExp cs3 of
                     None \<Rightarrow> None
                   | Some (e, cs4) \<Rightarrow>
                       Some ((if neg then - 1 else 1) * (of_nat i + f) * 10 powi e, cs4))))"

definition isJsonSpace :: "char \<Rightarrow> bool" where
  "isJsonSpace c \<longleftrightarrow> c = CHR '' '' \<or> c = CHR 0x09 \<or> c = CHR 0x0A \<or> c = CHR 0x0D"

definition punctuation :: "char \<Rightarrow> token option" where
  "punctuation c =
     (if c = CHR ''{'' then Some LBrace else if c = CHR ''}'' then Some RBrace
      else if c = CHR ''['' then Some LBracket else if c = CHR '']'' then Some RBracket
      else if c = CHR '':'' then Some Colon else if c = CHR '','' then Some Comma
      else None)"

text \<open>One token and the rest of the input; \<open>None\<close> at a character that starts no token.\<close>

definition lexToken :: "string \<Rightarrow> (token \<times> string) option" where
  "lexToken cs =
     (case cs of
        [] \<Rightarrow> None
      | c # cs' \<Rightarrow>
          (case punctuation c of
             Some t \<Rightarrow> Some (t, cs')
           | None \<Rightarrow>
               if c = CHR 0x22 then
                 (case lexString cs' [] of
                    Some (s, rest) \<Rightarrow> Some (TStr s, rest)
                  | None \<Rightarrow> None)
               else if c = CHR ''-'' \<or> isDigit c then
                 (case lexNumber cs of
                    Some (q, rest) \<Rightarrow> Some (TNum q, rest)
                  | None \<Rightarrow> None)
               else if prefix ''true'' cs then Some (TTrue, drop 4 cs)
               else if prefix ''false'' cs then Some (TFalse, drop 5 cs)
               else if prefix ''null'' cs then Some (TNull, drop 4 cs)
               else None))"


lemma lexString_length:
  "lexString cs acc = Some (s, rest) \<Longrightarrow> length rest < length cs"
proof (induction cs acc rule: lexString.induct)
  case (1 acc)
  then show ?case by simp
next
  case (2 c cs acc)
  show ?case
  proof (cases "c = CHR 0x22")
    case True
    with "2.prems" show ?thesis by simp
  next
    case nq: False
    show ?thesis
    proof (cases "c = CHR 0x5C")
      case False
      with nq "2.prems" "2.IH"(3) show ?thesis
        by (auto split: if_splits)
    next
      case bs: True
      show ?thesis
      proof (cases cs)
        case Nil
        with nq bs "2.prems" show ?thesis by simp
      next
        case (Cons e cs')
        show ?thesis
        proof (cases "e = CHR ''u''")
          case False
          from nq bs Cons False "2.prems" obtain ch where
            ch: "unescape e = Some ch" "lexString cs' (ch # acc) = Some (s, rest)"
            by (auto split: option.splits)
          from "2.IH"(2) [OF nq bs Cons False ch(1) ch(2)]
          show ?thesis using Cons by simp
        next
          case True
          from nq bs Cons True "2.prems" obtain h1 h2 h3 h4 cs'' n where
            h: "cs' = h1 # h2 # h3 # h4 # cs''" "hex4 h1 h2 h3 h4 = Some n" "n < 256"
               "lexString cs'' (char_of n # acc) = Some (s, rest)"
            by (auto split: option.splits list.splits if_splits)
          from "2.IH"(1) [OF nq bs Cons True h(1) refl refl refl h(2) h(3) h(4)]
          show ?thesis using Cons h(1) by simp
        qed
      qed
    qed
  qed
qed

lemma take_drop_While_length:
  "length (takeWhile P cs) + length (dropWhile P cs) = length cs"
  by (metis length_append takeWhile_dropWhile_id)

lemma lexInt_length: "lexInt cs = Some (n, rest) \<Longrightarrow> length rest < length cs"
proof -
  assume a: "lexInt cs = Some (n, rest)"
  then have ne: "takeWhile isDigit cs \<noteq> []" and r: "rest = dropWhile isDigit cs"
    by (auto simp add: lexInt_def Let_def split: if_splits)
  show ?thesis
  proof (cases "takeWhile isDigit cs")
    case Nil
    with ne show ?thesis by simp
  next
    case (Cons x xs)
    with take_drop_While_length [of isDigit cs] r show ?thesis by simp
  qed
qed

lemma lexFrac_length: "lexFrac cs = Some (f, rest) \<Longrightarrow> length rest \<le> length cs"
proof (cases cs)
  case Nil
  assume "lexFrac cs = Some (f, rest)"
  with Nil show ?thesis by (simp add: lexFrac_def)
next
  case (Cons c cs')
  assume a: "lexFrac cs = Some (f, rest)"
  have "length (dropWhile isDigit cs') \<le> length cs'" by (rule length_dropWhile_le)
  with a Cons show ?thesis
    by (auto simp add: lexFrac_def Let_def split: if_splits)
qed

lemma lexExp_length: "lexExp cs = Some (e, rest) \<Longrightarrow> length rest \<le> length cs"
proof (cases cs)
  case Nil
  assume "lexExp cs = Some (e, rest)"
  with Nil show ?thesis by (simp add: lexExp_def)
next
  case (Cons c cs')
  assume a: "lexExp cs = Some (e, rest)"
  show ?thesis
  proof (cases "c = CHR ''e'' \<or> c = CHR ''E''")
    case False
    with a Cons show ?thesis by (auto simp add: lexExp_def)
  next
    case True
    obtain neg cs'' where s: "(case cs' of
                      s # t \<Rightarrow> if s = CHR ''-'' then (True, t)
                               else if s = CHR ''+'' then (False, t) else (False, cs')
                    | [] \<Rightarrow> (False, cs')) = (neg, cs'')" by fastforce
    then have l: "length cs'' \<le> length cs'" by (auto split: list.splits if_splits)
    from a Cons True s have "rest = dropWhile isDigit cs''"
      by (auto simp add: lexExp_def Let_def split: if_splits)
    then have "length rest \<le> length cs''" by (simp add: length_dropWhile_le)
    with l Cons show ?thesis by simp
  qed
qed

lemma lexNumber_length: "lexNumber cs = Some (q, rest) \<Longrightarrow> length rest < length cs"
proof -
  assume a: "lexNumber cs = Some (q, rest)"
  obtain neg cs1 where s: "(case cs of c # t \<Rightarrow> if c = CHR ''-'' then (True, t) else (False, cs)
                        | [] \<Rightarrow> (False, cs)) = (neg, cs1)" by fastforce
  then have l1: "length cs1 \<le> length cs" by (auto split: list.splits if_splits)
  from a s obtain i cs2 f cs3 e where
    p: "lexInt cs1 = Some (i, cs2)" "lexFrac cs2 = Some (f, cs3)" "lexExp cs3 = Some (e, rest)"
    by (auto simp add: lexNumber_def split: option.splits)
  from lexInt_length [OF p(1)] lexFrac_length [OF p(2)] lexExp_length [OF p(3)] l1
  show ?thesis by linarith
qed

lemma lexToken_length: "lexToken cs = Some (t, rest) \<Longrightarrow> length rest < length cs"
proof (cases cs)
  case Nil
  assume "lexToken cs = Some (t, rest)"
  with Nil show ?thesis by (simp add: lexToken_def)
next
  case (Cons c cs')
  assume a: "lexToken cs = Some (t, rest)"
  have p4: "length (drop 4 cs) < length cs" if "prefix w cs" "length w = 4" for w
    using that by (auto simp add: prefix_def)
  have p5: "length (drop 5 cs) < length cs" if "prefix w cs" "length w = 5" for w
    using that by (auto simp add: prefix_def)
  show ?thesis
  proof (cases "punctuation c")
    case (Some p)
    with a Cons show ?thesis by (simp add: lexToken_def)
  next
    case None
    show ?thesis
    proof (cases "c = CHR 0x22")
      case True
      with a Cons None obtain s where "lexString cs' [] = Some (s, rest)"
        by (auto simp add: lexToken_def split: option.splits)
      from lexString_length [OF this] Cons show ?thesis by simp
    next
      case nq: False
      show ?thesis
      proof (cases "c = CHR ''-'' \<or> isDigit c")
        case True
        with a Cons None nq obtain q where "lexNumber cs = Some (q, rest)"
          by (auto simp add: lexToken_def split: option.splits)
        from lexNumber_length [OF this] show ?thesis .
      next
        case False
        with a Cons None nq have
          "(prefix ''true'' cs \<and> rest = drop 4 cs) \<or> (prefix ''false'' cs \<and> rest = drop 5 cs)
            \<or> (prefix ''null'' cs \<and> rest = drop 4 cs)"
          by (auto simp add: lexToken_def split: if_splits)
        then show ?thesis
          using p4 [of "''true''"] p4 [of "''null''"] p5 [of "''false''"] by auto
      qed
    qed
  qed
qed

text \<open>The whole input as tokens, white space skipped between them.\<close>

function lexAll :: "string \<Rightarrow> token list option" where
  "lexAll cs =
     (let cs' = dropWhile isJsonSpace cs
      in if cs' = [] then Some []
         else (case lexToken cs' of
                 None \<Rightarrow> None
               | Some (t, rest) \<Rightarrow> map_option ((#) t) (lexAll rest)))"
  by pat_completeness auto
termination
proof (relation "measure length")
  fix cs cs' :: string and x t rest
  assume "cs' = dropWhile isJsonSpace cs" "lexToken cs' = Some x" "(t, rest) = x"
  then have "length rest < length cs'" "length cs' \<le> length cs"
    using lexToken_length [of cs' t rest] by (simp_all add: length_dropWhile_le)
  then show "(rest, cs) \<in> measure length" by simp
qed simp

declare lexAll.simps [simp del]
text \<open>The parser is a pushdown automaton over the tokens: a stack of the containers that
  are open (an array with the elements read so far, an object with the properties read so
  far and the key whose value is being read) and what may come next.  A repeated key
  keeps its first position and takes the last value.\<close>

datatype frame = ArrayFrame "json list" | ObjectFrame "(string \<times> json) list" "string option"

datatype mode =
  ValueNext | ValueOrClose | KeyNext | KeyOrClose | ColonNext | AfterValue | Done json

fun deliver :: "json \<Rightarrow> frame list \<Rightarrow> (frame list \<times> mode) option" where
  "deliver v [] = Some ([], Done v)"
| "deliver v (ArrayFrame es # st) = Some (ArrayFrame (es @ [v]) # st, AfterValue)"
| "deliver v (ObjectFrame ms (Some k) # st) =
     Some (ObjectFrame (AList.update k v ms) None # st, AfterValue)"
| "deliver v (ObjectFrame ms None # st) = None"

fun scalar :: "token \<Rightarrow> json option" where
  "scalar (TStr s) = Some (JStr s)"
| "scalar (TNum q) = Some (JNum q)"
| "scalar TTrue = Some (JBool True)"
| "scalar TFalse = Some (JBool False)"
| "scalar TNull = Some JNull"
| "scalar _ = None"

definition valueStep :: "bool \<Rightarrow> frame list \<Rightarrow> token \<Rightarrow> (frame list \<times> mode) option" where
  "valueStep mayClose st tok =
     (if tok = LBracket then Some (ArrayFrame [] # st, ValueOrClose)
      else if tok = LBrace then Some (ObjectFrame [] None # st, KeyOrClose)
      else if tok = RBracket then
        (case st of
           ArrayFrame es # st' \<Rightarrow> if mayClose then deliver (JArr es) st' else None
         | _ \<Rightarrow> None)
      else (case scalar tok of Some v \<Rightarrow> deliver v st | None \<Rightarrow> None))"

definition keyStep :: "bool \<Rightarrow> frame list \<Rightarrow> token \<Rightarrow> (frame list \<times> mode) option" where
  "keyStep mayClose st tok =
     (case st of
        ObjectFrame ms None # st' \<Rightarrow>
          (case tok of
             TStr k \<Rightarrow> Some (ObjectFrame ms (Some k) # st', ColonNext)
           | RBrace \<Rightarrow> if mayClose then deliver (JObj ms) st' else None
           | _ \<Rightarrow> None)
      | _ \<Rightarrow> None)"

definition afterStep :: "frame list \<Rightarrow> token \<Rightarrow> (frame list \<times> mode) option" where
  "afterStep st tok =
     (case st of
        ArrayFrame es # st' \<Rightarrow>
          if tok = Comma then Some (st, ValueNext)
          else if tok = RBracket then deliver (JArr es) st' else None
      | ObjectFrame ms None # st' \<Rightarrow>
          if tok = Comma then Some (st, KeyNext)
          else if tok = RBrace then deliver (JObj ms) st' else None
      | _ \<Rightarrow> None)"

fun parseStep :: "frame list \<times> mode \<Rightarrow> token \<Rightarrow> (frame list \<times> mode) option" where
  "parseStep (st, ValueNext) tok = valueStep False st tok"
| "parseStep (st, ValueOrClose) tok = valueStep True st tok"
| "parseStep (st, KeyNext) tok = keyStep False st tok"
| "parseStep (st, KeyOrClose) tok = keyStep True st tok"
| "parseStep (st, ColonNext) tok = (if tok = Colon then Some (st, ValueNext) else None)"
| "parseStep (st, AfterValue) tok = afterStep st tok"
| "parseStep (st, Done v) tok = None"

fun parseTokens :: "frame list \<times> mode \<Rightarrow> token list \<Rightarrow> json option" where
  "parseTokens (st, m) [] = (case m of Done v \<Rightarrow> Some v | _ \<Rightarrow> None)"
| "parseTokens s (t # ts) =
     (case parseStep s t of None \<Rightarrow> None | Some s' \<Rightarrow> parseTokens s' ts)"

text \<open>\<open>JSON.parse\<close>: \<open>None\<close> stands for the \<open>SyntaxError\<close> it throws.\<close>

definition JSON_parse :: "string \<Rightarrow> json option" where
  "JSON_parse text =
     (case lexAll text of None \<Rightarrow> None | Some ts \<Rightarrow> parseTokens ([], ValueNext) ts)"

text \<open>A property read \<open>v.k\<close> for a key \<open>k\<close> that no prototype defines (every key the
  modelled code reads is one): \<open>None\<close> is \<open>undefined\<close>, and reading a property of
  \<open>null\<close> throws a \<open>TypeError\<close>.\<close>

definition getProp :: "json \<Rightarrow> string \<Rightarrow> js_error + json option" where
  "getProp v k =
     (case v of
        JNull \<Rightarrow> Inl TypeError
      | JObj ms \<Rightarrow> Inr (map_of ms k)
      | _ \<Rightarrow> Inr None)"


subsection \<open>Truthiness, \<open>String(v)\<close> and \<open>JSON.stringify\<close>\<close>

text \<open>Truthiness of a property that was read: \<open>undefined\<close>, \<open>null\<close>, \<open>false\<close>, the empty
  string and a number whose double is zero (a literal of magnitude at most \<open>2\<^sup>-\<^sup>1\<^sup>0\<^sup>7\<^sup>5\<close>) are
  falsy.\<close>

fun truthy :: "json option \<Rightarrow> bool" where
  "truthy None = False"
| "truthy (Some JNull) = False"
| "truthy (Some (JBool b)) = b"
| "truthy (Some (JNum q)) = (\<bar>q\<bar> > 1 / 2 ^ 1075)"
| "truthy (Some (JStr s)) = (s \<noteq> [])"
| "truthy (Some (JArr xs)) = True"
| "truthy (Some (JObj ms)) = True"

fun joinWith :: "string \<Rightarrow> string list \<Rightarrow> string" where
  "joinWith sep [] = []"
| "joinWith sep [x] = x"
| "joinWith sep (x # y # zs) = x @ sep @ joinWith sep (y # zs)"

text \<open>\<open>String(v)\<close>.  The text of a number is given by the parameter \<open>numstr\<close>, which stands
  for \<open>Number.prototype.toString\<close> applied to the double nearest to the exact value; its
  algorithm is not modelled, and nothing below depends on it.  An object is converted by
  its \<open>toString\<close> method: the inherited one gives \<open>[object Object]\<close>, but a property
  \<open>toString\<close> of the object's own hides it, and since no value that \<open>JSON.parse\<close> returns
  is callable, the conversion then finds no method that yields a primitive (the
  \<open>valueOf\<close> it tries next is not callable either or returns the object) and throws a
  \<open>TypeError\<close>.  An array is its elements joined by commas, \<open>null\<close> elements as the empty
  string; the elements are converted in index order and the first throw ends the
  conversion.\<close>

fun js_String :: "(rat \<Rightarrow> string) \<Rightarrow> json \<Rightarrow> js_error + string"
  and elementStrings :: "(rat \<Rightarrow> string) \<Rightarrow> json list \<Rightarrow> js_error + string list" where
  "js_String numstr (JStr s) = Inr s"
| "js_String numstr (JBool b) = Inr (if b then ''true'' else ''false'')"
| "js_String numstr JNull = Inr ''null''"
| "js_String numstr (JNum q) = Inr (numstr q)"
| "js_String numstr (JObj ms) =
     (if map_of ms ''toString'' = None then Inr ''[object Object]'' else Inl TypeError)"
| "js_String numstr (JArr xs) =
     (case elementStrings numstr xs of
        Inl e \<Rightarrow> Inl e
      | Inr ss \<Rightarrow> Inr (joinWith '','' ss))"
| "elementStrings numstr [] = Inr []"
| "elementStrings numstr (x # xs) =
     (case (if x = JNull then Inr [] else js_String numstr x) of
        Inl e \<Rightarrow> Inl e
      | Inr s \<Rightarrow>
          (case elementStrings numstr xs of
             Inl e \<Rightarrow> Inl e
           | Inr ss \<Rightarrow> Inr (s # ss)))"

definition hexDigit :: "nat \<Rightarrow> char" where
  "hexDigit d = ''0123456789abcdef'' ! d"

text \<open>\<open>JSON.stringify\<close> of a string: quotes, with the quote, the backslash and the control
  characters escaped.\<close>

definition quoteChar :: "char \<Rightarrow> string" where
  "quoteChar c =
     (let n = (of_char c :: nat)
      in if c = CHR 0x22 then [CHR 0x5C, CHR 0x22]
         else if c = CHR 0x5C then [CHR 0x5C, CHR 0x5C]
         else if c = CHR 0x08 then [CHR 0x5C, CHR ''b'']
         else if c = CHR 0x0C then [CHR 0x5C, CHR ''f'']
         else if c = CHR 0x0A then [CHR 0x5C, CHR ''n'']
         else if c = CHR 0x0D then [CHR 0x5C, CHR ''r'']
         else if c = CHR 0x09 then [CHR 0x5C, CHR ''t'']
         else if n < 32 then [CHR 0x5C, CHR ''u'', CHR ''0'', CHR ''0'',
                              hexDigit (n div 16), hexDigit (n mod 16)]
         else [c])"

definition JSON_quote :: "string \<Rightarrow> string" where
  "JSON_quote s = [CHR 0x22] @ concat (map quoteChar s) @ [CHR 0x22]"

definition stringifyArray :: "string list \<Rightarrow> string" where
  "stringifyArray items = ''['' @ joinWith '','' items @ '']''"

function padLeft :: "nat \<Rightarrow> string \<Rightarrow> string" where
  "padLeft n s = (if length s < n then padLeft n (CHR ''0'' # s) else s)"
  by pat_completeness auto
termination
  by (relation "measure (\<lambda>(n, s). n - length s)") auto

declare padLeft.simps [simp del]

text \<open>\<open>Date.prototype.toISOString\<close> of a time value at or after the epoch: the civil date
  of the day number (days since 1970-01-01, counted in 400-year eras that start on
  1 March), then the time of day.  Years above 9999 are written with a sign and six
  digits.\<close>

definition eraOf :: "nat \<Rightarrow> nat" where
  "eraOf days = (days + 719468) div 146097"

definition dayOfEra :: "nat \<Rightarrow> nat" where
  "dayOfEra days = (days + 719468) mod 146097"

definition yearOfEra :: "nat \<Rightarrow> nat" where
  "yearOfEra doe = (doe - doe div 1460 + doe div 36524 - doe div 146096) div 365"

definition dayOfYear :: "nat \<Rightarrow> nat" where
  "dayOfYear doe =
     doe - (365 * yearOfEra doe + yearOfEra doe div 4 - yearOfEra doe div 100)"

definition monthIndex :: "nat \<Rightarrow> nat" where
  "monthIndex doe = (5 * dayOfYear doe + 2) div 153"

definition dayOfMonth :: "nat \<Rightarrow> nat" where
  "dayOfMonth doe = dayOfYear doe - (153 * monthIndex doe + 2) div 5 + 1"

definition monthOf :: "nat \<Rightarrow> nat" where
  "monthOf doe = (if monthIndex doe < 10 then monthIndex doe + 3 else monthIndex doe - 9)"

definition yearOf :: "nat \<Rightarrow> nat" where
  "yearOf days =
     yearOfEra (dayOfEra days) + eraOf days * 400
       + (if monthOf (dayOfEra days) \<le> 2 then 1 else 0)"

definition isoYear :: "nat \<Rightarrow> string" where
  "isoYear y = (if y \<le> 9999 then padLeft 4 (showNat y) else ''+'' @ padLeft 6 (showNat y))"

definition toISOString :: "nat \<Rightarrow> string" where
  "toISOString ms =
     isoYear (yearOf (ms div 86400000))
     @ ''-'' @ padLeft 2 (showNat (monthOf (dayOfEra (ms div 86400000))))
     @ ''-'' @ padLeft 2 (showNat (dayOfMonth (dayOfEra (ms div 86400000))))
     @ ''T'' @ padLeft 2 (showNat (ms mod 86400000 div 3600000))
     @ '':'' @ padLeft 2 (showNat (ms mod 86400000 div 60000 mod 60))
     @ '':'' @ padLeft 2 (showNat (ms mod 86400000 div 1000 mod 60))
     @ ''.'' @ padLeft 3 (showNat (ms mod 86400000 mod 1000)) @ ''Z''"

subsection \<open>\<open>String.prototype.split\<close>, \<open>includes\<close> and the regular expression\<close>

text \<open>\<open>s.split(sep)\<close> for a one-character separator: the pieces between the occurrences
  of the separator, empty pieces kept.\<close>

fun splitOn :: "char \<Rightarrow> string \<Rightarrow> string list" where
  "splitOn sep [] = [[]]"
| "splitOn sep (c # cs) =
     (if c = sep then [] # splitOn sep cs
      else (case splitOn sep cs of w # ws \<Rightarrow> (c # w) # ws | [] \<Rightarrow> [[c]]))"

text \<open>\<open>s.includes(sub)\<close>: \<open>sub\<close> occurs in \<open>s\<close> as a contiguous run.\<close>

fun js_includes :: "string \<Rightarrow> string \<Rightarrow> bool" where
  "js_includes [] sub = (sub = [])"
| "js_includes (c # cs) sub = (prefix sub (c # cs) \<or> js_includes cs sub)"

text \<open>\<open>response.match(/\{[\s\S]*\}/)\<close>: the match starts at the first opening brace and,
  the star being greedy, runs to the last closing brace of the response; there is no
  match (\<open>None\<close>) when no closing brace follows the first opening brace.\<close>

definition matchBraces :: "string \<Rightarrow> string option" where
  "matchBraces response =
     (let fromOpen = dropWhile (\<lambda>c. c \<noteq> CHR ''{'') response
      in if fromOpen = [] then None
         else
           let inner = rev (dropWhile (\<lambda>c. c \<noteq> CHR ''}'') (rev (tl fromOpen)))
           in if inner = [] then None else Some (CHR ''{'' # inner))"


section \<open>Numbers of the JavaScript runtime\<close>

text \<open>
  A number of the language is an IEEE 754 double.  The finite doubles are the reals
  \<open>m * 2\<^sup>k\<close> with \<open>|m| < 2\<^sup>5\<^sup>3\<close> and \<open>k \<ge> -1074\<close>; an arithmetic operation returns the double
  nearest to the exact result, a tie going to the even significand, and a decimal literal
  denotes the double nearest to its value.  The exponent has no upper limit here: the
  numbers that the modelled code computes are lengths of arrays and strings, quotients of
  such lengths with a divisor that is not zero, and sums and products of such quotients
  that stay below 101, so that no operation overflows or yields \<open>NaN\<close>.  Lengths are below
  \<open>2\<^sup>5\<^sup>3\<close>, where every integer is a double and sums and differences of integers are
  exact.

  \<open>binade x\<close> is the exponent of the binade of \<open>x\<close> (at least that of the smallest normal
  number), \<open>ulp x\<close> the distance between neighbouring doubles there, \<open>roundEven\<close> the
  nearest integer with ties to even.  The lemmas \<open>nearestDouble_below_one\<close> and
  \<open>nearestDouble_above_one\<close> compute the rounding of a given number.
\<close>

definition binade :: "real \<Rightarrow> int" where
  "binade x = max \<lfloor>log 2 \<bar>x\<bar>\<rfloor> (- 1022)"

definition ulp :: "real \<Rightarrow> real" where
  "ulp x = 2 powr of_int (binade x - 52)"

definition roundEven :: "real \<Rightarrow> int" where
  "roundEven y =
     (if y - of_int \<lfloor>y\<rfloor> < 1 / 2 then \<lfloor>y\<rfloor>
      else if 1 / 2 < y - of_int \<lfloor>y\<rfloor> then \<lfloor>y\<rfloor> + 1
      else if even \<lfloor>y\<rfloor> then \<lfloor>y\<rfloor> else \<lfloor>y\<rfloor> + 1)"

definition nearestDouble :: "real \<Rightarrow> real" where
  "nearestDouble x = (if x = 0 then 0 else of_int (roundEven (x / ulp x)) * ulp x)"

definition isDouble :: "real \<Rightarrow> bool" where
  "isDouble d \<longleftrightarrow> (\<exists>m k. \<bar>m\<bar> < 2 ^ 53 \<and> - 1074 \<le> k \<and> d = of_int m * 2 powr of_int k)"

text \<open>The operators \<open>+\<close>, \<open>-\<close>, \<open>*\<close> and \<open>/\<close> on numbers.\<close>

definition js_add :: "real \<Rightarrow> real \<Rightarrow> real" where
  "js_add x y = nearestDouble (x + y)"

definition js_sub :: "real \<Rightarrow> real \<Rightarrow> real" where
  "js_sub x y = nearestDouble (x - y)"

definition js_mul :: "real \<Rightarrow> real \<Rightarrow> real" where
  "js_mul x y = nearestDouble (x * y)"

definition js_div :: "real \<Rightarrow> real \<Rightarrow> real" where
  "js_div x y = nearestDouble (x / y)"

text \<open>\<open>Math.round\<close>: the nearest integer, a tie going up.\<close>

definition Math_round :: "real \<Rightarrow> real" where
  "Math_round x = of_int \<lfloor>x + 1 / 2\<rfloor>"


section \<open>Stability tracker (stabilityTracker.ts)\<close>

record StabilityWeights =
  contradictionRatio :: real
  decisionReuseRate :: real
  planSimilarity :: real
  goalConvergence :: real

record StabilityConfig =
  autoTerminateThreshold :: real
  warningThreshold :: real
  weights :: StabilityWeights

definition defaultStabilityConfig :: StabilityConfig where
  "defaultStabilityConfig =
     \<lparr> autoTerminateThreshold = nearestDouble (85 / 100),
       warningThreshold = nearestDouble (70 / 100),
       weights = \<lparr> contradictionRatio = nearestDouble (30 / 100),
                   decisionReuseRate = nearestDouble (25 / 100),
                   planSimilarity = nearestDouble (25 / 100),
                   goalConvergence = nearestDouble (20 / 100) \<rparr> \<rparr>"

text \<open>\<open>getBigrams\<close>: a \<open>Map\<close> from each two-character slice to its number of occurrences,
  kept as an association list in insertion order (\<open>AList.update\<close> replaces the value of a
  key that is present and appends a new key at the end, as \<open>Map.prototype.set\<close> does).\<close>

fun bigramSlices :: "string \<Rightarrow> string list" where
  "bigramSlices (a # b # cs) = [a, b] # bigramSlices (b # cs)"
| "bigramSlices cs = []"

definition countBigram :: "(string \<times> nat) list \<Rightarrow> string \<Rightarrow> (string \<times> nat) list" where
  "countBigram bigrams bigram =
     AList.update bigram
       ((case map_of bigrams bigram of None \<Rightarrow> 0 | Some n \<Rightarrow> n) + 1) bigrams"

definition getBigrams :: "string \<Rightarrow> (string \<times> nat) list" where
  "getBigrams str = foldl countBigram [] (bigramSlices str)"

fun intersectionSize :: "(string \<times> nat) list \<Rightarrow> (string \<times> nat) list \<Rightarrow> nat" where
  "intersectionSize [] bigrams2 = 0"
| "intersectionSize ((bigram, count) # rest) bigrams2 =
     min count (case map_of bigrams2 bigram of None \<Rightarrow> 0 | Some n \<Rightarrow> n)
       + intersectionSize rest bigrams2"

definition calculateStringSimilarity :: "string \<Rightarrow> string \<Rightarrow> real" where
  "calculateStringSimilarity str1 str2 =
     (let s1 = toLowerCase str1; s2 = toLowerCase str2
      in if s1 = s2 then 1
         else if length s1 < 2 \<or> length s2 < 2 then 0
         else js_div (2 * real (intersectionSize (getBigrams s1) (getBigrams s2)))
                (real (length s1) + real (length s2) - 2))"

text \<open>The two nested loops of \<open>calculateDecisionReuseRate\<close>: the inner one leaves at the
  first previous decision that is similar enough.\<close>

fun hasSimilar :: "string \<Rightarrow> string list \<Rightarrow> bool" where
  "hasSimilar decision [] = False"
| "hasSimilar decision (prevDecision # rest) =
     (if calculateStringSimilarity decision prevDecision > nearestDouble (7 / 10) then True
      else hasSimilar decision rest)"

fun countReused :: "string list \<Rightarrow> string list \<Rightarrow> nat" where
  "countReused [] previousDecisions = 0"
| "countReused (decision # rest) previousDecisions =
     (if hasSimilar decision previousDecisions then 1 else 0)
       + countReused rest previousDecisions"

definition decisionsOf :: "Plan \<Rightarrow> string list" where
  "decisionsOf p =
     Plan.goals p @ constraints p @ map (\<lambda>t. toLowerCase (description t)) (tasks p)"

definition calculateDecisionReuseRate :: "Plan option \<Rightarrow> Plan option \<Rightarrow> real" where
  "calculateDecisionReuseRate currentPlan previousPlan =
     (case (currentPlan, previousPlan) of
        (Some cur, Some prev) \<Rightarrow>
          (let previousDecisions = newSet (decisionsOf prev);
               currentDecisions = decisionsOf cur
           in if length currentDecisions = 0 then 0
              else js_div (real (countReused currentDecisions previousDecisions))
                     (real (length currentDecisions)))
      | _ \<Rightarrow> 1 / 2)"

definition calculateSetSimilarity :: "string list \<Rightarrow> string list \<Rightarrow> real" where
  "calculateSetSimilarity setA setB =
     (if length setA = 0 \<and> length setB = 0 then 1
      else if length setA = 0 \<or> length setB = 0 then 0
      else
        let intersection = newSet (filter (\<lambda>x. x \<in> set setB) setA);
            union = newSet (setA @ setB)
        in js_div (real (length intersection)) (real (length union)))"

definition calculatePlanSimilarity :: "Plan option \<Rightarrow> Plan option \<Rightarrow> real" where
  "calculatePlanSimilarity currentPlan previousPlan =
     (case (currentPlan, previousPlan) of
        (Some cur, Some prev) \<Rightarrow>
          (let goalSimilarity =
                 calculateSetSimilarity (newSet (Plan.goals cur)) (newSet (Plan.goals prev));
               taskCountSimilarity =
                 js_sub 1
                   (js_div \<bar>real (length (tasks cur)) - real (length (tasks prev))\<bar>
                      (max (max (real (length (tasks cur))) (real (length (tasks prev)))) 1));
               constraintSimilarity =
                 calculateSetSimilarity (newSet (constraints cur)) (newSet (constraints prev));
               similarities = [goalSimilarity, taskCountSimilarity, constraintSimilarity]
           in js_div (foldl js_add 0 similarities) (real (length similarities)))
      | _ \<Rightarrow> 1 / 2)"

definition vsGoalMap :: "VsGoal \<Rightarrow> real" where
  "vsGoalMap g = (case g of closer \<Rightarrow> 1 | same_goal \<Rightarrow> 1 / 2 | farther \<Rightarrow> 0)"

definition vsPreviousMap :: "VsPrevious \<Rightarrow> real" where
  "vsPreviousMap p = (case p of better \<Rightarrow> 1 | same_previous \<Rightarrow> 1 / 2 | worse \<Rightarrow> 0)"

definition calculateGoalConvergence :: "BlindEvaluation \<Rightarrow> real" where
  "calculateGoalConvergence e =
     js_add (js_mul (vsGoalMap (vs_goal e)) (nearestDouble (7 / 10)))
       (js_mul (vsPreviousMap (vs_previous e)) (nearestDouble (3 / 10)))"

text \<open>The expression for \<open>overallStability\<close>: four products added from left to right.\<close>

definition combinedStability :: "StabilityWeights \<Rightarrow> real \<Rightarrow> real \<Rightarrow> real \<Rightarrow> real \<Rightarrow> real" where
  "combinedStability w cr dr ps gc =
     js_add
       (js_add
          (js_add (js_mul (js_sub 1 cr) (contradictionRatio w))
             (js_mul dr (decisionReuseRate w)))
          (js_mul ps (planSimilarity w)))
       (js_mul gc (goalConvergence w))"

definition calculateStability ::
  "RoundState \<Rightarrow> RoundState option \<Rightarrow> BlindEvaluation \<Rightarrow> StabilityConfig \<Rightarrow> StabilityMetrics"
  where
  "calculateStability current previousRound e config =
     (let maxExpectedContradictions = 5;
          contradictionRatio' =
            min (js_div (real (length (contradictions e))) maxExpectedContradictions) 1;
          previousPlan = (case previousRound of None \<Rightarrow> None | Some r \<Rightarrow> plan r);
          decisionReuseRate' = calculateDecisionReuseRate (plan current) previousPlan;
          planSimilarity' = calculatePlanSimilarity (plan current) previousPlan;
          goalConvergence' = calculateGoalConvergence e;
          overallStability =
            combinedStability (weights config) contradictionRatio' decisionReuseRate'
              planSimilarity' goalConvergence'
      in \<lparr> contradiction_ratio = contradictionRatio',
           decision_reuse_rate = decisionReuseRate',
           plan_similarity = planSimilarity',
           goal_convergence = goalConvergence',
           overall_stability = js_div (Math_round (js_mul overallStability 100)) 100 \<rparr>)"


section \<open>Decision engine (decisionEngine.ts)\<close>

record DecisionEngineConfig =
  maxRounds :: real
  stabilityThreshold :: real
  goalDivergenceLimit :: real

definition defaultDecisionConfig :: DecisionEngineConfig where
  "defaultDecisionConfig =
     \<lparr> maxRounds = 3, stabilityThreshold = nearestDouble (85 / 100),
       goalDivergenceLimit = 2 \<rparr>"

record DecisionContext =
  currentRound :: RoundState
  roundHistory :: "RoundState list"
  latestEvaluation :: BlindEvaluation
  latestStability :: StabilityMetrics

text \<open>\<open>countConsecutiveGoalDivergence\<close>: the loop walks the evaluations from the last one
  towards the first and stops at the first one whose \<open>vs_goal\<close> is not \<open>farther\<close>.\<close>

fun countFarther :: "BlindEvaluation list \<Rightarrow> nat \<Rightarrow> nat" where
  "countFarther [] count = count"
| "countFarther (e # es) count =
     (if vs_goal e = farther then countFarther es (count + 1) else count)"

definition countConsecutiveGoalDivergence :: "BlindEvaluation list \<Rightarrow> nat" where
  "countConsecutiveGoalDivergence evaluations = countFarther (rev evaluations) 0"

text \<open>\<open>round.evaluation?.contradictions.length ?? 0\<close>\<close>

definition contradictionCount :: "RoundState \<Rightarrow> nat" where
  "contradictionCount r =
     (case evaluation r of None \<Rightarrow> 0 | Some e \<Rightarrow> length (contradictions e))"

text \<open>The loop of \<open>isContradictionTrendUp\<close> over \<open>recentHistory\<close>, with its two variables
  \<open>increasing\<close> and \<open>prevCount\<close>; the \<open>break\<close> leaves \<open>prevCount\<close> as it is.\<close>

fun trendLoop :: "RoundState list \<Rightarrow> nat \<Rightarrow> bool \<times> nat" where
  "trendLoop [] prevCount = (True, prevCount)"
| "trendLoop (r # rs) prevCount =
     (let count = contradictionCount r
      in if count < prevCount then (False, prevCount) else trendLoop rs count)"

definition isContradictionTrendUp :: "RoundState list \<Rightarrow> RoundState \<Rightarrow> bool" where
  "isContradictionTrendUp history current =
     (if length history < 2 then False
      else
        let recentHistory = drop (length history - 2) history;
            currentContradictions = contradictionCount current;
            (increasing, prevCount) = trendLoop recentHistory 0
        in increasing \<and> currentContradictions > prevCount)"

text \<open>\<open>[...roundHistory, currentRound].map(r => r.evaluation).filter(Boolean)\<close>\<close>

definition evaluationsOf :: "RoundState list \<Rightarrow> BlindEvaluation list" where
  "evaluationsOf rs = List.map_filter evaluation rs"

definition makeTerminationDecision ::
  "DecisionContext \<Rightarrow> DecisionEngineConfig \<Rightarrow> TerminationDecision" where
  "makeTerminationDecision ctx config =
     (if length (missing (latestEvaluation ctx)) = 0 \<and>
         length (contradictions (latestEvaluation ctx)) = 0
      then \<lparr> should_terminate = True, reason = task_complete, confidence = 95 / 100 \<rparr>
      else if overall_stability (latestStability ctx) \<ge> stabilityThreshold config
      then \<lparr> should_terminate = True, reason = stability_achieved,
             confidence = overall_stability (latestStability ctx) \<rparr>
      else if of_int (number (currentRound ctx)) \<ge> maxRounds config
      then \<lparr> should_terminate = True, reason = max_rounds_reached, confidence = 1 \<rparr>
      else if of_nat (countConsecutiveGoalDivergence
                 (evaluationsOf (roundHistory ctx @ [currentRound ctx])))
              \<ge> goalDivergenceLimit config
      then \<lparr> should_terminate = True, reason = goal_diverging, confidence = 85 / 100 \<rparr>
      else if isContradictionTrendUp (roundHistory ctx) (currentRound ctx)
      then \<lparr> should_terminate = True, reason = contradiction_trend_up,
             confidence = 75 / 100 \<rparr>
      else \<lparr> should_terminate = False, reason = continue,
             confidence = 1 - overall_stability (latestStability ctx) \<rparr>)"









text \<open>Sample decision contexts for the concrete instances below: round 3 with two archived
  rounds; \<open>a\<close>, \<open>b\<close>, \<open>c\<close> are the contradiction counts of rounds 1, 2 and 3, \<open>m\<close> the number
  of missing items of the latest evaluation, \<open>g\<close> the \<open>vs_goal\<close> of rounds 2 and 3.\<close>

definition sampleEvaluation :: "VsGoal \<Rightarrow> nat \<Rightarrow> nat \<Rightarrow> BlindEvaluation" where
  "sampleEvaluation g n m =
     \<lparr> vs_previous = same_previous, vs_goal = g,
       contradictions = replicate n ''c'', missing = replicate m ''m'', risks = [] \<rparr>"

definition sampleRound :: "int \<Rightarrow> VsGoal \<Rightarrow> nat \<Rightarrow> RoundState" where
  "sampleRound k g n =
     \<lparr> number = k, phase = (if k = 1 then ARCHITECT else REFINER), plan = None,
       evaluation = Some (sampleEvaluation g n 1), stability = None,
       locked_structure = None \<rparr>"

definition sampleStability :: "real \<Rightarrow> StabilityMetrics" where
  "sampleStability s =
     \<lparr> contradiction_ratio = 0, decision_reuse_rate = 1 / 2, plan_similarity = 1 / 2,
       goal_convergence = 1 / 2, overall_stability = s \<rparr>"

definition sampleContext ::
  "VsGoal \<Rightarrow> nat \<Rightarrow> nat \<Rightarrow> nat \<Rightarrow> nat \<Rightarrow> real \<Rightarrow> DecisionContext" where
  "sampleContext g a b c m s =
     \<lparr> currentRound = sampleRound 3 g c,
       roundHistory = [sampleRound 1 same_goal a, sampleRound 2 g b],
       latestEvaluation = sampleEvaluation g c m, latestStability = sampleStability s \<rparr>"

definition sampleConfig :: "real \<Rightarrow> DecisionEngineConfig" where
  "sampleConfig n =
     \<lparr> maxRounds = n, stabilityThreshold = 85 / 100, goalDivergenceLimit = 2 \<rparr>"


section \<open>Properties of the decision engine\<close>

lemma trendLoop_two:
  "trendLoop [a, b] 0 =
     (if contradictionCount b < contradictionCount a then (False, contradictionCount a)
      else (True, contradictionCount b))"
  by (simp add: Let_def)

lemma drop_last_two:
  assumes "2 \<le> length xs"
  shows "drop (length xs - 2) xs = [xs ! (length xs - 2), xs ! (length xs - 1)]"
proof -
  obtain ys a b where xs: "xs = ys @ [a, b]"
  proof -
    from assms obtain zs b where 1: "xs = zs @ [b]"
      by (metis length_0_conv not_numeral_le_zero rev_exhaust)
    with assms have "zs \<noteq> []" by auto
    then obtain ys a where "zs = ys @ [a]" by (metis rev_exhaust)
    with 1 that show ?thesis by simp
  qed
  show ?thesis by (simp add: xs nth_append)
qed

lemma isContradictionTrendUp_iff:
  "isContradictionTrendUp history current \<longleftrightarrow>
     2 \<le> length history \<and>
     contradictionCount (history ! (length history - 2))
       \<le> contradictionCount (history ! (length history - 1)) \<and>
     contradictionCount (history ! (length history - 1)) < contradictionCount current"
proof (cases "2 \<le> length history")
  case True
  have d: "drop (length history - 2) history
     = [history ! (length history - 2), history ! (length history - 1)]"
    using True by (rule drop_last_two)
  show ?thesis
    unfolding isContradictionTrendUp_def d trendLoop_two Let_def
    using True by auto
next
  case False
  then show ?thesis by (simp add: isContradictionTrendUp_def)
qed

lemmas sample_defs =
  sampleEvaluation_def sampleRound_def sampleStability_def sampleContext_def sampleConfig_def






text \<open>
  Claim C9.  \<open>makeTerminationDecision\<close> returns contradiction_trend_up only when at least
  two archived rounds exist and, over the two most recent archived rounds and the current
  round, the contradiction counts do not decrease from the earlier archived round to the
  later one and the current round's count is strictly greater than the later one's (a
  round without evaluation counts 0).  With fewer than two archived rounds the rule never
  fires, and the rule's test \<open>isContradictionTrendUp\<close> is exactly this condition.
\<close>

theorem contradiction_trend_up_only_when:
  "(reason (makeTerminationDecision ctx config) = contradiction_trend_up \<longrightarrow>
      2 \<le> length (roundHistory ctx) \<and>
      contradictionCount (roundHistory ctx ! (length (roundHistory ctx) - 2))
        \<le> contradictionCount (roundHistory ctx ! (length (roundHistory ctx) - 1)) \<and>
      contradictionCount (roundHistory ctx ! (length (roundHistory ctx) - 1))
        < contradictionCount (currentRound ctx))
   \<and> (length (roundHistory ctx) < 2 \<longrightarrow>
        \<not> isContradictionTrendUp (roundHistory ctx) (currentRound ctx) \<and>
        reason (makeTerminationDecision ctx config) \<noteq> contradiction_trend_up)
   \<and> (isContradictionTrendUp (roundHistory ctx) (currentRound ctx) \<longleftrightarrow>
        2 \<le> length (roundHistory ctx) \<and>
        contradictionCount (roundHistory ctx ! (length (roundHistory ctx) - 2))
          \<le> contradictionCount (roundHistory ctx ! (length (roundHistory ctx) - 1)) \<and>
        contradictionCount (roundHistory ctx ! (length (roundHistory ctx) - 1))
          < contradictionCount (currentRound ctx))"
proof -
  have fires: "isContradictionTrendUp (roundHistory ctx) (currentRound ctx)"
    if "reason (makeTerminationDecision ctx config) = contradiction_trend_up"
    using that by (simp add: makeTerminationDecision_def split: if_splits)
  show ?thesis
    using fires isContradictionTrendUp_iff [of "roundHistory ctx" "currentRound ctx"]
    by auto
qed

text \<open>Instances of C9: the rule fires on the counts 1, 2, 3, and a context with a single
  archived round and a growing count does not fire it.\<close>

theorem contradiction_trend_up_only_when_witness:
  "reason (makeTerminationDecision (sampleContext closer 1 2 3 1 (1 / 2)) (sampleConfig 5))
     = contradiction_trend_up
   \<and> 2 \<le> length (roundHistory (sampleContext closer 1 2 3 1 (1 / 2)))
   \<and> contradictionCount (roundHistory (sampleContext closer 1 2 3 1 (1 / 2)) ! 0) = 1
   \<and> contradictionCount (roundHistory (sampleContext closer 1 2 3 1 (1 / 2)) ! 1) = 2
   \<and> contradictionCount (currentRound (sampleContext closer 1 2 3 1 (1 / 2))) = 3
   \<and> length (roundHistory
        ((sampleContext closer 1 2 3 1 (1 / 2))\<lparr> roundHistory := [sampleRound 1 closer 2] \<rparr>)) < 2
   \<and> reason (makeTerminationDecision
        ((sampleContext closer 1 2 3 1 (1 / 2))\<lparr> roundHistory := [sampleRound 1 closer 2] \<rparr>)
        (sampleConfig 5)) = continue"
  using contradiction_trend_up_only_when [of "sampleContext closer 1 2 3 1 (1 / 2)" "sampleConfig 5"]
    contradiction_trend_up_only_when
      [of "(sampleContext closer 1 2 3 1 (1 / 2))\<lparr> roundHistory := [sampleRound 1 closer 2] \<rparr>"
          "sampleConfig 5"]
  by (simp add: makeTerminationDecision_def sample_defs contradictionCount_def
      countConsecutiveGoalDivergence_def evaluationsOf_def List.map_filter_simps)


section \<open>Planner (planner.ts)\<close>

fun stringItems :: "json list \<Rightarrow> string list" where
  "stringItems [] = []"
| "stringItems (JStr s # rest) = s # stringItems rest"
| "stringItems (v # rest) = stringItems rest"

text \<open>\<open>validateStringArray\<close> of the planner: the string entries of an array, and the empty
  list for anything else.\<close>

definition planner_validateStringArray :: "json option \<Rightarrow> string list" where
  "planner_validateStringArray v = (case v of Some (JArr xs) \<Rightarrow> stringItems xs | _ \<Rightarrow> [])"

definition validatePriority :: "json option \<Rightarrow> Priority" where
  "validatePriority v =
     (if v = Some (JStr ''high'') then high
      else if v = Some (JStr ''medium'') then medium
      else if v = Some (JStr ''low'') then low
      else medium)"

text \<open>One callback of \<open>tasks.map\<close>, the properties in the order in which the object literal
  evaluates them.  \<open>now\<close> is the reading of \<open>Date.now()\<close> for this task's id; the
  property reads throw on a \<open>null\<close> entry, and \<open>String\<close> throws on a description that is an
  object with a \<open>toString\<close> property of its own.\<close>

definition parseTask :: "(rat \<Rightarrow> string) \<Rightarrow> nat \<Rightarrow> nat \<Rightarrow> json \<Rightarrow> js_error + PlanTask" where
  "parseTask numstr now index task =
     (case getProp task ''description'' of
        Inl e \<Rightarrow> Inl e
      | Inr d \<Rightarrow>
          (case js_String numstr (if truthy d then the d else JStr ''Unknown task'') of
             Inl e \<Rightarrow> Inl e
           | Inr descr \<Rightarrow>
               (case getProp task ''priority'' of
                  Inl e \<Rightarrow> Inl e
                | Inr p \<Rightarrow>
                    (case getProp task ''dependencies'' of
                       Inl e \<Rightarrow> Inl e
                     | Inr deps \<Rightarrow>
                         Inr \<lparr> task_id = ''task_'' @ showNat index @ ''_'' @ showNat now,
                               description = descr,
                               priority = validatePriority p,
                               status = pending,
                               dependencies = planner_validateStringArray deps \<rparr>))))"

text \<open>\<open>tasks.map(...)\<close>: the callbacks run in index order and the first one that throws
  ends the call.  \<open>clock k\<close> is the \<open>k\<close>-th reading of \<open>Date.now()\<close> during the enclosing
  \<open>parsePlanResponse\<close> (reading 0 is the plan's id, reading \<open>1 + index\<close> a task's).\<close>

fun mapTasks ::
  "(rat \<Rightarrow> string) \<Rightarrow> (nat \<Rightarrow> nat) \<Rightarrow> nat \<Rightarrow> json list \<Rightarrow> js_error + PlanTask list" where
  "mapTasks numstr clock index [] = Inr []"
| "mapTasks numstr clock index (task # rest) =
     (case parseTask numstr (clock (1 + index)) index task of
        Inl e \<Rightarrow> Inl e
      | Inr t \<Rightarrow>
          (case mapTasks numstr clock (index + 1) rest of
             Inl e \<Rightarrow> Inl e
           | Inr ts \<Rightarrow> Inr (t # ts)))"

definition parseTasks ::
  "(rat \<Rightarrow> string) \<Rightarrow> (nat \<Rightarrow> nat) \<Rightarrow> json option \<Rightarrow> js_error + PlanTask list" where
  "parseTasks numstr clock v =
     (case v of Some (JArr xs) \<Rightarrow> mapTasks numstr clock 0 xs | _ \<Rightarrow> Inr [])"

text \<open>The \<open>try\<close> block of \<open>parsePlanResponse\<close>.\<close>

definition parsePlanResponse_try ::
  "(rat \<Rightarrow> string) \<Rightarrow> (nat \<Rightarrow> nat) \<Rightarrow> string \<Rightarrow> js_error + Plan" where
  "parsePlanResponse_try numstr clock response =
     (case matchBraces response of
        None \<Rightarrow> Inl (Error ''No JSON found in response'')
      | Some jsonMatch \<Rightarrow>
          (case JSON_parse jsonMatch of
             None \<Rightarrow> Inl SyntaxError
           | Some parsed \<Rightarrow>
               (case getProp parsed ''goals'' of
                  Inl e \<Rightarrow> Inl e
                | Inr g \<Rightarrow>
                    (case getProp parsed ''tasks'' of
                       Inl e \<Rightarrow> Inl e
                     | Inr ts \<Rightarrow>
                         (case parseTasks numstr clock ts of
                            Inl e \<Rightarrow> Inl e
                          | Inr tasks' \<Rightarrow>
                              (case getProp parsed ''constraints'' of
                                 Inl e \<Rightarrow> Inl e
                               | Inr c \<Rightarrow>
                                   Inr \<lparr> plan_id = ''plan_'' @ showNat (clock 0),
                                         goals = planner_validateStringArray g,
                                         tasks = tasks',
                                         constraints = planner_validateStringArray c,
                                         created_at = clock (1 + length tasks') \<rparr>))))))"

text \<open>\<open>parsePlanResponse\<close>: whatever the \<open>try\<close> block throws is thrown again as
  \<open>new Error(`Plan parsing failed: ${error}`)\<close>.\<close>

definition parsePlanResponse ::
  "(rat \<Rightarrow> string) \<Rightarrow> (nat \<Rightarrow> nat) \<Rightarrow> string \<Rightarrow> js_error + Plan" where
  "parsePlanResponse numstr clock response =
     (case parsePlanResponse_try numstr clock response of
        Inl e \<Rightarrow> Inl (Error (''Plan parsing failed: '' @ errorToString e))
      | Inr p \<Rightarrow> Inr p)"

text \<open>\<open>JSON.stringify(plan)\<close>: the properties in the order in which \<open>parsePlanResponse\<close> and
  \<open>parseTasks\<close> create them, the date as its ISO string.\<close>

definition priorityName :: "Priority \<Rightarrow> string" where
  "priorityName p = (case p of high \<Rightarrow> ''high'' | medium \<Rightarrow> ''medium'' | low \<Rightarrow> ''low'')"

definition statusName :: "TaskStatus \<Rightarrow> string" where
  "statusName s =
     (case s of pending \<Rightarrow> ''pending'' | in_progress \<Rightarrow> ''in_progress''
      | completed \<Rightarrow> ''completed'')"

definition stringifyTask :: "PlanTask \<Rightarrow> string" where
  \<open>stringifyTask t =
     ''{"id":'' @ JSON_quote (task_id t)
     @ '',"description":'' @ JSON_quote (description t)
     @ '',"priority":'' @ JSON_quote (priorityName (priority t))
     @ '',"status":'' @ JSON_quote (statusName (status t))
     @ '',"dependencies":'' @ stringifyArray (map JSON_quote (dependencies t)) @ ''}''\<close>

definition stringifyPlan :: "Plan \<Rightarrow> string" where
  \<open>stringifyPlan p =
     ''{"id":'' @ JSON_quote (plan_id p)
     @ '',"goals":'' @ stringifyArray (map JSON_quote (Plan.goals p))
     @ '',"tasks":'' @ stringifyArray (map stringifyTask (tasks p))
     @ '',"constraints":'' @ stringifyArray (map JSON_quote (constraints p))
     @ '',"created_at":'' @ JSON_quote (toISOString (created_at p)) @ ''}''\<close>

text \<open>The first loop of \<open>validateAgainstLockedStructure\<close>, pushing onto \<open>violations\<close>.\<close>

fun checkLockedGoals :: "string list \<Rightarrow> string list \<Rightarrow> string list \<Rightarrow> string list" where
  "checkLockedGoals planGoalsSet [] violations = violations"
| "checkLockedGoals planGoalsSet (lockedGoal # rest) violations =
     checkLockedGoals planGoalsSet rest
       (if toLowerCase lockedGoal \<in> set planGoalsSet then violations
        else violations @ [''Locked goal removed: '' @ [CHR 0x22] @ lockedGoal @ [CHR 0x22]])"

definition decisionKeywords :: "string \<Rightarrow> string list" where
  "decisionKeywords decision =
     filter (\<lambda>w. length w > 4) (splitOn (CHR '' '') (toLowerCase decision))"

definition decisionViolated :: "string \<Rightarrow> string \<Rightarrow> bool" where
  "decisionViolated planText decision =
     (let keywords = decisionKeywords decision;
          matchCount = length (filter (\<lambda>kw. js_includes planText kw) keywords)
      in real matchCount < real (length keywords) * (5 / 10))"

text \<open>The second loop.\<close>

fun checkCoreDecisions :: "string \<Rightarrow> string list \<Rightarrow> string list \<Rightarrow> string list" where
  "checkCoreDecisions planText [] violations = violations"
| "checkCoreDecisions planText (decision # rest) violations =
     checkCoreDecisions planText rest
       (if decisionViolated planText decision
        then violations @ [''Core decision may be violated: '' @ [CHR 0x22] @ decision
                            @ [CHR 0x22]]
        else violations)"

record ValidationResult =
  valid :: bool
  violations :: "string list"

definition validateAgainstLockedStructure :: "Plan \<Rightarrow> LockedStructure \<Rightarrow> ValidationResult" where
  "validateAgainstLockedStructure p lockedStructure =
     (let planGoalsSet = newSet (map toLowerCase (Plan.goals p));
          violations1 = checkLockedGoals planGoalsSet (LockedStructure.goals lockedStructure) [];
          planText = toLowerCase (stringifyPlan p);
          violations2 = checkCoreDecisions planText (core_decisions lockedStructure) violations1
      in \<lparr> valid = (length violations2 = 0), violations = violations2 \<rparr>)"

definition createLockedStructure :: "Plan \<Rightarrow> int \<Rightarrow> LockedStructure" where
  "createLockedStructure p n =
     \<lparr> goals = Plan.goals p, core_decisions = constraints p, locked_at_round = n \<rparr>"
section \<open>Blind judge (blindJudge.ts)\<close>

text \<open>\<open>validateComparison\<close>: the permitted strings are listed with the values they stand
  for; anything else gives the middle entry (\<open>valid[1]\<close>).\<close>

definition validateComparison :: "json option \<Rightarrow> (string \<times> 'a) list \<Rightarrow> 'a" where
  "validateComparison v allowed =
     (case v of
        Some (JStr s) \<Rightarrow> (case map_of allowed s of Some x \<Rightarrow> x | None \<Rightarrow> snd (allowed ! 1))
      | _ \<Rightarrow> snd (allowed ! 1))"

text \<open>\<open>validateStringArray\<close> of the judge: the string entries of an array, at most the first
  ten of them.\<close>

definition judge_validateStringArray :: "json option \<Rightarrow> string list" where
  "judge_validateStringArray v =
     (case v of Some (JArr xs) \<Rightarrow> take 10 (stringItems xs) | _ \<Rightarrow> [])"

definition conservativeDefault :: BlindEvaluation where
  "conservativeDefault =
     \<lparr> vs_previous = same_previous, vs_goal = same_goal,
       contradictions = [''Evaluation parsing failed''], missing = [],
       risks = [''Unable to properly evaluate plan''] \<rparr>"

text \<open>The \<open>try\<close> block of \<open>parseBlindEvaluation\<close>.\<close>

definition parseBlindEvaluation_try :: "string \<Rightarrow> js_error + BlindEvaluation" where
  "parseBlindEvaluation_try response =
     (case matchBraces response of
        None \<Rightarrow> Inl (Error ''No JSON found in response'')
      | Some jsonMatch \<Rightarrow>
          (case JSON_parse jsonMatch of
             None \<Rightarrow> Inl SyntaxError
           | Some parsed \<Rightarrow>
               (case getProp parsed ''vs_previous'' of
                  Inl e \<Rightarrow> Inl e
                | Inr vp \<Rightarrow>
                    (case getProp parsed ''vs_goal'' of
                       Inl e \<Rightarrow> Inl e
                     | Inr vg \<Rightarrow>
                         (case getProp parsed ''contradictions'' of
                            Inl e \<Rightarrow> Inl e
                          | Inr c \<Rightarrow>
                              (case getProp parsed ''missing'' of
                                 Inl e \<Rightarrow> Inl e
                               | Inr m \<Rightarrow>
                                   (case getProp parsed ''risks'' of
                                      Inl e \<Rightarrow> Inl e
                                    | Inr r \<Rightarrow>
                                        Inr \<lparr> vs_previous =
                                                validateComparison vp
                                                  [(''better'', better),
                                                   (''same'', same_previous),
                                                   (''worse'', worse)],
                                              vs_goal =
                                                validateComparison vg
                                                  [(''closer'', closer),
                                                   (''same'', same_goal),
                                                   (''farther'', farther)],
                                              contradictions = judge_validateStringArray c,
                                              missing = judge_validateStringArray m,
                                              risks = judge_validateStringArray r \<rparr>)))))))"

text \<open>\<open>parseBlindEvaluation\<close>: the \<open>catch\<close> clause returns the conservative default.  The
  result is a sum so that "does not throw" is a statement about the function.\<close>

definition parseBlindEvaluation :: "string \<Rightarrow> js_error + BlindEvaluation" where
  "parseBlindEvaluation response =
     (case parseBlindEvaluation_try response of
        Inl e \<Rightarrow> Inr conservativeDefault
      | Inr ev \<Rightarrow> Inr ev)"


section \<open>Definitions that follow the specification's words\<close>

text \<open>"The first balanced brace block" of a response: from the first opening brace to the
  closing brace that brings the nesting depth back to zero.  \<open>scanBalanced\<close> is started
  after the first opening brace with depth 1 and collects the block's text.\<close>

fun scanBalanced :: "string \<Rightarrow> nat \<Rightarrow> string \<Rightarrow> string option" where
  "scanBalanced [] depth acc = None"
| "scanBalanced (c # cs) depth acc =
     (if c = CHR ''{'' then scanBalanced cs (depth + 1) (acc @ [c])
      else if c = CHR ''}'' then
        (if depth = 1 then Some (acc @ [c]) else scanBalanced cs (depth - 1) (acc @ [c]))
      else scanBalanced cs depth (acc @ [c]))"

definition firstBalancedBlock :: "string \<Rightarrow> string option" where
  "firstBalancedBlock response =
     (case dropWhile (\<lambda>c. c \<noteq> CHR ''{'') response of
        [] \<Rightarrow> None
      | c # cs \<Rightarrow> scanBalanced cs 1 [c])"

text \<open>"Split the decision on whitespace, keep tokens of length > 4, count how many appear
  (case-insensitive) anywhere in the serialized plan; if fewer than half appear, report":
  the white space of the modelled alphabet is tab, line feed, vertical tab, form feed,
  carriage return, space and no-break space.\<close>

definition isWhitespace :: "char \<Rightarrow> bool" where
  "isWhitespace c \<longleftrightarrow> (of_char c :: nat) \<in> {9, 10, 11, 12, 13, 32, 160}"

fun whitespaceTokens :: "string \<Rightarrow> string \<Rightarrow> string list" where
  "whitespaceTokens [] cur = (if cur = [] then [] else [cur])"
| "whitespaceTokens (c # cs) cur =
     (if isWhitespace c
      then (if cur = [] then whitespaceTokens cs [] else cur # whitespaceTokens cs [])
      else whitespaceTokens cs (cur @ [c]))"

definition claimedDecisionViolated :: "string \<Rightarrow> string \<Rightarrow> bool" where
  "claimedDecisionViolated serialized decision =
     (let tokens = filter (\<lambda>w. length w > 4) (whitespaceTokens decision []);
          found = length (filter (\<lambda>w. js_includes (toLowerCase serialized) (toLowerCase w))
                            tokens)
      in 2 * found < length tokens)"

definition goalViolation :: "string \<Rightarrow> string" where
  "goalViolation g = ''Locked goal removed: '' @ [CHR 0x22] @ g @ [CHR 0x22]"

definition decisionViolation :: "string \<Rightarrow> string" where
  "decisionViolation d = ''Core decision may be violated: '' @ [CHR 0x22] @ d @ [CHR 0x22]"

definition goalMissing :: "Plan \<Rightarrow> string \<Rightarrow> bool" where
  "goalMissing p g \<longleftrightarrow> toLowerCase g \<notin> set (map toLowerCase (Plan.goals p))"

definition claimedViolations :: "Plan \<Rightarrow> LockedStructure \<Rightarrow> string list" where
  "claimedViolations p ls =
     map goalViolation (filter (goalMissing p) (LockedStructure.goals ls))
     @ map decisionViolation
         (filter (claimedDecisionViolated (stringifyPlan p)) (core_decisions ls))"


text \<open>Sample inputs of the parsers and the validator.\<close>

definition sampleClock :: "nat \<Rightarrow> nat" where
  "sampleClock k = k"

text \<open>A stand-in for the number-to-string conversion in the concrete instances; their inputs
  hold no number.\<close>

definition sampleNumstr :: "rat \<Rightarrow> string" where
  "sampleNumstr q = ''0''"

definition twoBlockResponse :: string where
  \<open>twoBlockResponse = ''{"goals":["a"],"vs_goal":"closer"} {}''\<close>

definition firstBlock :: string where
  \<open>firstBlock = ''{"goals":["a"],"vs_goal":"closer"}''\<close>

definition fencedResponse :: string where
  \<open>fencedResponse = ''Here is the plan: {"goals":["a"],"vs_goal":"closer"} Done.''\<close>

definition nullTaskResponse :: string where
  \<open>nullTaskResponse = ''{"tasks":[null]}''\<close>


definition tabDecision :: string where
  "tabDecision = ''alpha'' @ [CHR 0x09] @ ''bravo''"

definition samplePlanAB :: Plan where
  "samplePlanAB =
     \<lparr> plan_id = ''plan_0'', goals = [''alpha'', ''bravo''], tasks = [],
       constraints = [], created_at = 1 \<rparr>"

definition sampleLockedTab :: LockedStructure where
  "sampleLockedTab =
     \<lparr> goals = [''Alpha''], core_decisions = [tabDecision], locked_at_round = 1 \<rparr>"


text \<open>A second round whose exact combination of metrics is 0.575, a tie between 0.57 and
  0.58: the previous plan has one task and the constraints \<open>c\<close> and \<open>d\<close>, the current plan
  has no task and the constraint \<open>c\<close>, and the evaluation, closer to the goal and better
  than before, lists five contradictions.\<close>

definition tiePrevious :: Plan where
  "tiePrevious =
     \<lparr> plan_id = ''plan_1'', goals = [],
       tasks = [\<lparr> task_id = ''task_0_1'', description = ''t'', priority = medium,
                  status = pending, dependencies = [] \<rparr>],
       constraints = [''c'', ''d''], created_at = 1 \<rparr>"

definition tieCurrent :: Plan where
  "tieCurrent =
     \<lparr> plan_id = ''plan_2'', goals = [], tasks = [], constraints = [''c''],
       created_at = 2 \<rparr>"

definition tieEvaluation :: BlindEvaluation where
  "tieEvaluation =
     \<lparr> vs_previous = better, vs_goal = closer,
       contradictions = [''c1'', ''c2'', ''c3'', ''c4'', ''c5''], missing = [], risks = [] \<rparr>"

definition roundWith :: "int \<Rightarrow> Plan \<Rightarrow> BlindEvaluation option \<Rightarrow> RoundState" where
  "roundWith k p ev =
     \<lparr> number = k, phase = (if k = 1 then ARCHITECT else REFINER), plan = Some p,
       evaluation = ev, stability = None, locked_structure = None \<rparr>"

definition tieMetrics :: StabilityMetrics where
  "tieMetrics =
     calculateStability (roundWith 2 tieCurrent (Some tieEvaluation))
       (Some (roundWith 1 tiePrevious None)) tieEvaluation defaultStabilityConfig"

text \<open>A second round in which the quotients 1/3 and 1/6, which no double equals, enter the
  combination: one of the three decisions of the current plan is reused, the goals overlap
  by half, the task counts are 1 and 0, and only the current plan has a constraint.\<close>

definition thirdsPrevious :: Plan where
  "thirdsPrevious =
     \<lparr> plan_id = ''plan_1'', goals = [''a'', ''b''], tasks = [], constraints = [],
       created_at = 1 \<rparr>"

definition thirdsCurrent :: Plan where
  "thirdsCurrent =
     \<lparr> plan_id = ''plan_2'', goals = [''a''],
       tasks = [\<lparr> task_id = ''task_0_3'', description = ''t'', priority = medium,
                  status = pending, dependencies = [] \<rparr>],
       constraints = [''c''], created_at = 4 \<rparr>"

definition thirdsEvaluation :: BlindEvaluation where
  "thirdsEvaluation =
     \<lparr> vs_previous = worse, vs_goal = closer, contradictions = [], missing = [''m''],
       risks = [] \<rparr>"

definition thirdsMetrics :: StabilityMetrics where
  "thirdsMetrics =
     calculateStability (roundWith 2 thirdsCurrent (Some thirdsEvaluation))
       (Some (roundWith 1 thirdsPrevious None)) thirdsEvaluation defaultStabilityConfig"


section \<open>Properties of the rounding\<close>

text \<open>The rounding returns a double nearest to its argument: no double is nearer.\<close>

lemma roundEven_nearest: "\<bar>of_int (roundEven y) - y\<bar> \<le> \<bar>of_int j - y\<bar>"
proof -
  have f: "of_int \<lfloor>y\<rfloor> \<le> y" "y < of_int \<lfloor>y\<rfloor> + 1" by linarith+
  consider "j \<le> \<lfloor>y\<rfloor>" | "\<lfloor>y\<rfloor> + 1 \<le> j" by linarith
  then show ?thesis
  proof cases
    case 1
    then have "(of_int j :: real) \<le> of_int \<lfloor>y\<rfloor>" by simp
    with f show ?thesis by (auto simp add: roundEven_def)
  next
    case 2
    then have "(of_int \<lfloor>y\<rfloor> :: real) + 1 \<le> of_int j"
      by (metis of_int_1 of_int_add of_int_le_iff)
    with f show ?thesis by (auto simp add: roundEven_def)
  qed
qed

lemma binade_lower: "x \<noteq> 0 \<Longrightarrow> 2 powr of_int \<lfloor>log 2 \<bar>x\<bar>\<rfloor> \<le> \<bar>x\<bar>"
proof -
  assume "x \<noteq> 0"
  then have p: "0 < \<bar>x\<bar>" by simp
  have "of_int \<lfloor>log 2 \<bar>x\<bar>\<rfloor> \<le> log 2 \<bar>x\<bar>" by simp
  then have "2 powr of_int \<lfloor>log 2 \<bar>x\<bar>\<rfloor> \<le> 2 powr log 2 \<bar>x\<bar>" by simp
  with p show ?thesis by simp
qed

lemma nearestDouble_nearest:
  assumes "isDouble d"
  shows "\<bar>nearestDouble x - x\<bar> \<le> \<bar>d - x\<bar>"
proof (cases "x = 0")
  case True
  then show ?thesis by (simp add: nearestDouble_def)
next
  case False
  define E where "E = \<lfloor>log 2 \<bar>x\<bar>\<rfloor>"
  define e where "e = binade x - 52"
  define u where "u = (2::real) powr of_int e"
  define y where "y = x / u"
  define n where "n = roundEven y"
  have u: "0 < u" by (simp add: u_def)
  have fl: "nearestDouble x = of_int n * u"
    using False by (simp add: nearestDouble_def ulp_def n_def y_def u_def e_def)
  have xy: "x = y * u" using u by (simp add: y_def)
  from assms obtain m k where mk: "\<bar>m\<bar> < 2 ^ 53" "- 1074 \<le> k" "d = of_int m * 2 powr of_int k"
    by (auto simp add: isDouble_def)
  have lower: "2 powr of_int E \<le> \<bar>x\<bar>"
    unfolding E_def using False by (rule binade_lower)
  have near: "\<bar>of_int n - y\<bar> \<le> \<bar>of_int j - y\<bar>" for j
    unfolding n_def by (rule roundEven_nearest)
  have scale: "\<bar>of_int j * u - x\<bar> = u * \<bar>of_int j - y\<bar>" for j
  proof -
    have "of_int j * u - x = u * (of_int j - y)" by (simp add: xy algebra_simps)
    then show ?thesis using u by (simp add: abs_mult)
  qed
  show ?thesis
  proof (cases "e \<le> k")
    case True
    define j where "j = m * 2 ^ nat (k - e)"
    have "(2::real) powr of_int k = 2 powr of_int (k - e) * 2 powr of_int e"
      by (simp add: powr_add [symmetric])
    moreover have "(2::real) powr of_int (k - e) = 2 ^ nat (k - e)"
    proof -
      have "(of_int (k - e) :: real) = real (nat (k - e))" using True by simp
      then show ?thesis by (simp only: powr_realpow zero_less_numeral)
    qed
    ultimately have "d = of_int j * u"
      by (simp add: mk(3) j_def u_def)
    with scale [of j] scale [of n] near [of j] u fl show ?thesis
      by (simp add: mult_le_cancel_left_pos)
  next
    case False
    then have ke: "k + 1 \<le> e" by simp
    with mk(2) have "- 1074 < e" by simp
    then have eE: "e = E - 52" by (simp add: e_def binade_def E_def max_def split: if_splits)
    have "\<bar>d\<bar> = \<bar>of_int m\<bar> * 2 powr of_int k" by (simp add: mk(3) abs_mult)
    also have "\<dots> \<le> 2 ^ 53 * 2 powr of_int k"
    proof -
      have "\<bar>m\<bar> \<le> 2 ^ 53" using mk(1) by simp
      then have "(of_int \<bar>m\<bar> :: real) \<le> of_int (2 ^ 53)" by (simp only: of_int_le_iff)
      then have "\<bar>of_int m :: real\<bar> \<le> 2 ^ 53" by simp
      then show ?thesis by (simp add: mult_right_mono)
    qed
    also have "\<dots> = 2 powr of_int (53 + k)"
      by (simp add: powr_add powr_realpow [symmetric])
    also have "\<dots> \<le> 2 powr of_int E"
      using ke eE by simp
    finally have dE: "\<bar>d\<bar> \<le> 2 powr of_int E" .
    have uE: "2 powr of_int E = u * 2 ^ 52"
      by (simp add: u_def eE powr_diff powr_realpow [symmetric])
    define s :: int where "s = (if 0 < x then 2 ^ 52 else - (2 ^ 52))"
    have ya: "\<bar>x\<bar> = u * \<bar>y\<bar>" using u by (simp add: xy abs_mult)
    have y52: "2 ^ 52 \<le> \<bar>y\<bar>"
      using lower uE ya u by (simp add: mult_le_cancel_left_pos)
    have sy: "\<bar>of_int s - y\<bar> = \<bar>y\<bar> - 2 ^ 52"
    proof (cases "0 < x")
      case True
      then have "0 < y" using u by (simp add: y_def)
      with y52 True show ?thesis by (simp add: s_def)
    next
      case f: False
      with \<open>x \<noteq> 0\<close> have "x < 0" by simp
      then have "y < 0" using u by (simp add: y_def divide_neg_pos)
      with y52 f show ?thesis by (simp add: s_def)
    qed
    have "\<bar>nearestDouble x - x\<bar> = u * \<bar>of_int n - y\<bar>" using fl scale [of n] by simp
    also have "\<dots> \<le> u * \<bar>of_int s - y\<bar>"
      using near [of s] u by (simp add: mult_le_cancel_left_pos)
    also have "\<dots> = \<bar>x\<bar> - 2 powr of_int E" by (simp add: sy ya uE algebra_simps)
    also have "\<dots> \<le> \<bar>x\<bar> - \<bar>d\<bar>" using dE by simp
    also have "\<dots> \<le> \<bar>d - x\<bar>" by simp
    finally show ?thesis .
  qed
qed

lemma nearestDouble_le: "isDouble d \<Longrightarrow> x \<le> d \<Longrightarrow> nearestDouble x \<le> d"
  using nearestDouble_nearest [of d x] by linarith

lemma nearestDouble_ge: "isDouble d \<Longrightarrow> d \<le> x \<Longrightarrow> d \<le> nearestDouble x"
  using nearestDouble_nearest [of d x] by linarith

lemma nearestDouble_id: "isDouble d \<Longrightarrow> nearestDouble d = d"
  using nearestDouble_nearest [of d d] by simp

lemma isDouble_dyadic: "\<bar>m\<bar> < 2 ^ 53 \<Longrightarrow> k \<le> 1074 \<Longrightarrow> isDouble (of_int m / 2 ^ k)"
  unfolding isDouble_def
  by (rule exI [of _ m], rule exI [of _ "- int k"])
     (simp add: powr_minus powr_realpow divide_inverse)

lemma isDouble_int: "\<bar>m\<bar> < 2 ^ 53 \<Longrightarrow> isDouble (of_int m)"
  using isDouble_dyadic [of m 0] by simp

text \<open>The value of the rounding in a given binade: below 1, for
  \<open>2\<^sup>-\<^sup>k \<le> |x| < 2\<^sup>1\<^sup>-\<^sup>k\<close>, and from 1 on, for \<open>2\<^sup>k \<le> |x| < 2\<^sup>k\<^sup>+\<^sup>1\<close>.\<close>

lemma binade_eq:
  assumes "2 powr of_int E \<le> \<bar>x\<bar>" "\<bar>x\<bar> < 2 powr of_int (E + 1)" "- 1022 \<le> E"
  shows "binade x = E"
proof -
  have p: "0 < \<bar>x\<bar>" using assms(1) by (smt (verit) powr_gt_zero)
  have "of_int E \<le> log 2 \<bar>x\<bar>" using assms(1) p by (simp add: le_log_iff)
  moreover have "log 2 \<bar>x\<bar> < of_int E + 1" using assms(2) p by (simp add: log_less_iff)
  ultimately have "\<lfloor>log 2 \<bar>x\<bar>\<rfloor> = E" by linarith
  with assms(3) show ?thesis by (simp add: binade_def)
qed

lemma nearestDouble_below_one:
  assumes "1 / 2 ^ k \<le> \<bar>x\<bar>" "\<bar>x\<bar> < 2 / 2 ^ k" "k \<le> 1022"
  shows "nearestDouble x = of_int (roundEven (x * 2 ^ (52 + k))) / 2 ^ (52 + k)"
proof -
  have 1: "(2::real) powr of_int (- int k) = 1 / 2 ^ k"
    by (simp add: powr_minus powr_realpow divide_inverse)
  have "(2::real) powr of_int (- int k + 1) = 2 powr (of_int (- int k) + 1)" by simp
  also have "\<dots> = 2 powr of_int (- int k) * 2 powr 1" by (rule powr_add)
  also have "\<dots> = 2 / 2 ^ k" by (simp only: 1) simp
  finally have 2: "(2::real) powr of_int (- int k + 1) = 2 / 2 ^ k" .
  have l: "2 powr of_int (- int k) \<le> \<bar>x\<bar>" using assms(1) by (simp only: 1)
  have h: "\<bar>x\<bar> < 2 powr of_int (- int k + 1)" using assms(2) by (simp only: 2)
  have r: "- 1022 \<le> - int k" using assms(3) by simp
  have b: "binade x = - int k" by (rule binade_eq [OF l h r])
  have e: "- int k - 52 = - int (52 + k)" by simp
  have "(2::real) powr of_int (- int k - 52) = 2 powr of_int (- int (52 + k))"
    by (simp only: e)
  also have "\<dots> = 1 / 2 ^ (52 + k)"
    by (simp only: of_int_minus of_int_of_nat_eq powr_minus powr_realpow zero_less_numeral)
       (simp add: divide_inverse)
  finally have u: "ulp x = 1 / 2 ^ (52 + k)" by (simp add: ulp_def b)
  have "(0::real) < 1 / 2 ^ k" by simp
  then have "0 < \<bar>x\<bar>" using assms(1) by linarith
  then have "x \<noteq> 0" by simp
  then show ?thesis by (simp add: nearestDouble_def u)
qed

lemma nearestDouble_above_one:
  assumes "2 ^ k \<le> \<bar>x\<bar>" "\<bar>x\<bar> < 2 * 2 ^ k" "k \<le> 52"
  shows "nearestDouble x = of_int (roundEven (x * 2 ^ (52 - k))) / 2 ^ (52 - k)"
proof -
  have 1: "(2::real) powr of_int (int k) = 2 ^ k"
    by (simp add: powr_realpow)
  have "(2::real) powr of_int (int k + 1) = 2 powr (of_int (int k) + 1)" by simp
  also have "\<dots> = 2 powr of_int (int k) * 2 powr 1" by (rule powr_add)
  also have "\<dots> = 2 * 2 ^ k" by (simp only: 1) simp
  finally have 2: "(2::real) powr of_int (int k + 1) = 2 * 2 ^ k" .
  have l: "2 powr of_int (int k) \<le> \<bar>x\<bar>" using assms(1) by (simp only: 1)
  have h: "\<bar>x\<bar> < 2 powr of_int (int k + 1)" using assms(2) by (simp only: 2)
  have r: "- 1022 \<le> int k" by simp
  have b: "binade x = int k" by (rule binade_eq [OF l h r])
  have e: "int k - 52 = - int (52 - k)" using assms(3) by simp
  have "(2::real) powr of_int (int k - 52) = 2 powr of_int (- int (52 - k))"
    by (simp only: e)
  also have "\<dots> = 1 / 2 ^ (52 - k)"
    by (simp only: of_int_minus of_int_of_nat_eq powr_minus powr_realpow zero_less_numeral)
       (simp add: divide_inverse)
  finally have u: "ulp x = 1 / 2 ^ (52 - k)" by (simp add: ulp_def b)
  have "(0::real) < 2 ^ k" by simp
  then have "0 < \<bar>x\<bar>" using assms(1) by linarith
  then have "x \<noteq> 0" by simp
  then show ?thesis by (simp add: nearestDouble_def u)
qed


section \<open>Properties of the stability tracker\<close>

lemma setAddAll_props:
  "distinct acc \<Longrightarrow> distinct (setAddAll acc xs) \<and> set (setAddAll acc xs) = set acc \<union> set xs"
  by (induction xs arbitrary: acc) auto

lemma newSet_props: "distinct (newSet xs)" "set (newSet xs) = set xs"
  using setAddAll_props [of "[]" xs] by (simp_all add: newSet_def)

lemma length_newSet: "length (newSet xs) = card (set xs)"
  using newSet_props [of xs] by (metis distinct_card)

subsection \<open>Doubles that the bounds rest on\<close>

lemma nearestDouble_between:
  "isDouble a \<Longrightarrow> isDouble b \<Longrightarrow> a \<le> x \<Longrightarrow> x \<le> b \<Longrightarrow>
     a \<le> nearestDouble x \<and> nearestDouble x \<le> b"
  by (simp add: nearestDouble_ge nearestDouble_le)

lemma small_doubles:
  "isDouble 0" "isDouble 1" "isDouble 2" "isDouble 3" "isDouble 100"
  "isDouble (1 / 2)" "isDouble (1 / 4)" "isDouble (1 / 8)" "isDouble (3 / 8)" "isDouble (3 / 2)"
  "isDouble (3 / 4)" "isDouble (13 / 16)" "isDouble (73 / 128)"
  "isDouble (77 / 256)" "isDouble (13 / 64)" "isDouble (141 / 256)" "isDouble (205 / 256)"
  "isDouble (257 / 256)" "isDouble (6425 / 64)"
  using isDouble_int [of 0] isDouble_int [of 1] isDouble_int [of 2] isDouble_int [of 3]
    isDouble_int [of 100]
    isDouble_dyadic [of 1 1] isDouble_dyadic [of 1 2] isDouble_dyadic [of 1 3]
    isDouble_dyadic [of 3 3] isDouble_dyadic [of 3 1] isDouble_dyadic [of 3 2]
    isDouble_dyadic [of 13 4] isDouble_dyadic [of 73 7]
    isDouble_dyadic [of 77 8] isDouble_dyadic [of 13 6] isDouble_dyadic [of 141 8]
    isDouble_dyadic [of 205 8] isDouble_dyadic [of 257 8] isDouble_dyadic [of 6425 6]
  by simp_all

lemma unit_interval:
  "0 \<le> x \<Longrightarrow> x \<le> 1 \<Longrightarrow> 0 \<le> nearestDouble x \<and> nearestDouble x \<le> 1"
  using nearestDouble_between [of 0 1 x] small_doubles by simp

text \<open>The literals \<open>0.7\<close>, \<open>0.3\<close>, \<open>0.2\<close> and \<open>0.25\<close>.\<close>

lemma seven_tenths: "nearestDouble (7 / 10) = 6305039478318694 / 2 ^ 53"
  using nearestDouble_below_one [of 1 "7 / 10"] by (simp add: roundEven_def)

lemma three_tenths: "nearestDouble (3 / 10) = 5404319552844595 / 2 ^ 54"
  using nearestDouble_below_one [of 2 "3 / 10"] by (simp add: roundEven_def)

lemma one_fifth: "nearestDouble (1 / 5) = 7205759403792794 / 2 ^ 55"
  using nearestDouble_below_one [of 3 "1 / 5"] by (simp add: roundEven_def)

lemma one_quarter: "nearestDouble (1 / 4) = 1 / 4"
  using nearestDouble_id [of "1 / 4"] small_doubles by simp

lemma literal_doubles:
  "isDouble (6305039478318694 / 2 ^ 53)" "isDouble (5404319552844595 / 2 ^ 54)"
  "isDouble (7205759403792794 / 2 ^ 55)"
  using isDouble_dyadic [of 6305039478318694 53] isDouble_dyadic [of 5404319552844595 54]
    isDouble_dyadic [of 7205759403792794 55]
  by simp_all

lemma default_weights:
  "weights defaultStabilityConfig =
     \<lparr> contradictionRatio = 5404319552844595 / 2 ^ 54, decisionReuseRate = 1 / 4,
       planSimilarity = 1 / 4, goalConvergence = 7205759403792794 / 2 ^ 55 \<rparr>"
  by (simp add: defaultStabilityConfig_def three_tenths one_fifth one_quarter)

subsection \<open>Bounds of the metrics\<close>

lemma quotient_bounds:
  assumes "k \<le> l" "0 < l"
  shows "0 \<le> js_div (real k) (real l) \<and> js_div (real k) (real l) \<le> 1"
proof -
  have "0 \<le> real k / real l" by simp
  moreover have "real k / real l \<le> 1" using assms by (simp add: divide_le_eq_1)
  ultimately show ?thesis unfolding js_div_def by (rule unit_interval)
qed

lemma calculateSetSimilarity_bounds:
  "0 \<le> calculateSetSimilarity a b \<and> calculateSetSimilarity a b \<le> 1"
proof (cases "length a = 0 \<or> length b = 0")
  case True
  then show ?thesis by (auto simp add: calculateSetSimilarity_def)
next
  case False
  have "card (set (filter (\<lambda>x. x \<in> set b) a)) \<le> card (set (a @ b))"
    by (rule card_mono) auto
  then have le: "length (newSet (filter (\<lambda>x. x \<in> set b) a)) \<le> length (newSet (a @ b))"
    by (simp add: length_newSet)
  have "set (a @ b) \<noteq> {}" using False by auto
  then have "0 < card (set (a @ b))" by (simp add: card_gt_0_iff)
  then have pos: "0 < length (newSet (a @ b))" by (simp add: length_newSet)
  from quotient_bounds [OF le pos] False show ?thesis
    by (simp add: calculateSetSimilarity_def Let_def)
qed

lemma countReused_le: "countReused ds prev \<le> length ds"
  by (induction ds) auto

lemma calculateDecisionReuseRate_bounds:
  "0 \<le> calculateDecisionReuseRate c p \<and> calculateDecisionReuseRate c p \<le> 1"
proof -
  have "0 \<le> js_div (real (countReused ds prev)) (real (length ds)) \<and>
        js_div (real (countReused ds prev)) (real (length ds)) \<le> 1" if "length ds \<noteq> 0"
    for ds prev
    using quotient_bounds [OF countReused_le [of ds prev]] that by simp
  then show ?thesis
    by (auto simp add: calculateDecisionReuseRate_def Let_def split: option.splits)
qed

lemma taskCount_bounds:
  "0 \<le> js_sub 1 (js_div \<bar>real a - real b\<bar> (max (max (real a) (real b)) 1)) \<and>
   js_sub 1 (js_div \<bar>real a - real b\<bar> (max (max (real a) (real b)) 1)) \<le> 1"
proof -
  define q where "q = \<bar>real a - real b\<bar> / max (max (real a) (real b)) 1"
  have "\<bar>real a - real b\<bar> \<le> max (max (real a) (real b)) 1" by auto
  moreover have "0 < max (max (real a) (real b)) 1" by auto
  ultimately have "q \<le> 1" by (simp add: q_def divide_le_eq_1)
  moreover have "0 \<le> q" unfolding q_def by (intro divide_nonneg_nonneg) auto
  ultimately have "0 \<le> nearestDouble q \<and> nearestDouble q \<le> 1" by (rule unit_interval [rotated])
  then have "0 \<le> 1 - nearestDouble q \<and> 1 - nearestDouble q \<le> 1" by simp
  then have "0 \<le> nearestDouble (1 - nearestDouble q) \<and> nearestDouble (1 - nearestDouble q) \<le> 1"
    using unit_interval by blast
  then show ?thesis by (simp add: js_sub_def js_div_def q_def)
qed

lemma calculatePlanSimilarity_bounds:
  "0 \<le> calculatePlanSimilarity c p \<and> calculatePlanSimilarity c p \<le> 1"
proof (cases "\<exists>cur prev. c = Some cur \<and> p = Some prev")
  case True
  then obtain cur prev where cp: "c = Some cur" "p = Some prev" by blast
  define G where "G = calculateSetSimilarity (newSet (Plan.goals cur)) (newSet (Plan.goals prev))"
  define K where "K = calculateSetSimilarity (newSet (constraints cur)) (newSet (constraints prev))"
  define T where "T = js_sub 1
     (js_div \<bar>real (length (tasks cur)) - real (length (tasks prev))\<bar>
        (max (max (real (length (tasks cur))) (real (length (tasks prev)))) 1))"
  have g: "0 \<le> G \<and> G \<le> 1" unfolding G_def by (rule calculateSetSimilarity_bounds)
  have k: "0 \<le> K \<and> K \<le> 1" unfolding K_def by (rule calculateSetSimilarity_bounds)
  have t: "0 \<le> T \<and> T \<le> 1" unfolding T_def by (rule taskCount_bounds)
  have 1: "0 \<le> js_add 0 G \<and> js_add 0 G \<le> 1"
    using g unit_interval [of "0 + G"] by (simp add: js_add_def)
  have 2: "0 \<le> js_add (js_add 0 G) T \<and> js_add (js_add 0 G) T \<le> 2"
    using 1 t nearestDouble_between [of 0 2 "js_add 0 G + T"] small_doubles
    by (simp add: js_add_def [of "js_add 0 G" T])
  have 3: "0 \<le> js_add (js_add (js_add 0 G) T) K \<and> js_add (js_add (js_add 0 G) T) K \<le> 3"
    using 2 k nearestDouble_between [of 0 3 "js_add (js_add 0 G) T + K"] small_doubles
    by (simp add: js_add_def [of "js_add (js_add 0 G) T" K])
  have "0 \<le> js_div (js_add (js_add (js_add 0 G) T) K) 3 \<and>
        js_div (js_add (js_add (js_add 0 G) T) K) 3 \<le> 1"
    using 3 unit_interval [of "js_add (js_add (js_add 0 G) T) K / 3"] by (simp add: js_div_def)
  moreover have "calculatePlanSimilarity c p = js_div (js_add (js_add (js_add 0 G) T) K) 3"
    unfolding calculatePlanSimilarity_def cp Let_def G_def K_def T_def by simp
  ultimately show ?thesis by simp
next
  case False
  then show ?thesis by (auto simp add: calculatePlanSimilarity_def split: option.splits)
qed

lemma product_bounds:
  assumes "0 \<le> x \<and> x \<le> 1" "isDouble w" "0 \<le> w"
  shows "0 \<le> js_mul x w \<and> js_mul x w \<le> w"
proof -
  have "0 \<le> x * w" using assms by simp
  moreover have "x * w \<le> w" using assms by (simp add: mult_left_le_one_le)
  ultimately show ?thesis
    unfolding js_mul_def using nearestDouble_between [of 0 w "x * w"] assms(2) small_doubles(1)
    by blast
qed

lemma calculateGoalConvergence_bounds:
  "0 \<le> calculateGoalConvergence e \<and> calculateGoalConvergence e \<le> 1"
proof -
  define a where "a = js_mul (vsGoalMap (vs_goal e)) (6305039478318694 / 2 ^ 53)"
  define b where "b = js_mul (vsPreviousMap (vs_previous e)) (5404319552844595 / 2 ^ 54)"
  have vg: "0 \<le> vsGoalMap (vs_goal e) \<and> vsGoalMap (vs_goal e) \<le> 1"
    by (cases "vs_goal e") (simp_all add: vsGoalMap_def)
  have vp: "0 \<le> vsPreviousMap (vs_previous e) \<and> vsPreviousMap (vs_previous e) \<le> 1"
    by (cases "vs_previous e") (simp_all add: vsPreviousMap_def)
  have a: "0 \<le> a \<and> a \<le> 6305039478318694 / 2 ^ 53"
    unfolding a_def using product_bounds [OF vg literal_doubles(1)] by simp
  have b: "0 \<le> b \<and> b \<le> 5404319552844595 / 2 ^ 54"
    unfolding b_def using product_bounds [OF vp literal_doubles(2)] by simp
  have "0 \<le> a + b \<and> a + b \<le> 1" using a b by simp
  then have "0 \<le> nearestDouble (a + b) \<and> nearestDouble (a + b) \<le> 1"
    using unit_interval by blast
  then show ?thesis
    by (simp add: calculateGoalConvergence_def seven_tenths three_tenths js_add_def a_def b_def)
qed
lemma sum_bounds:
  assumes "0 \<le> x \<and> x \<le> a" "0 \<le> y \<and> y \<le> b" "isDouble (a + b)"
  shows "0 \<le> js_add x y \<and> js_add x y \<le> a + b"
proof -
  have "0 \<le> x + y" "x + y \<le> a + b" using assms by simp_all
  then show ?thesis
    unfolding js_add_def using nearestDouble_between [of 0 "a + b" "x + y"] assms(3)
      small_doubles(1)
    by blast
qed

lemma combinedStability_default_bounds:
  assumes "0 \<le> cr \<and> cr \<le> 1" "0 \<le> dr \<and> dr \<le> 1" "0 \<le> ps \<and> ps \<le> 1" "0 \<le> gc \<and> gc \<le> 1"
  shows "0 \<le> combinedStability (weights defaultStabilityConfig) cr dr ps gc \<and>
         combinedStability (weights defaultStabilityConfig) cr dr ps gc \<le> 257 / 256"
proof -
  define a1 where "a1 = js_mul (js_sub 1 cr) (5404319552844595 / 2 ^ 54)"
  define a2 where "a2 = js_mul dr (1 / 4)"
  define a3 where "a3 = js_mul ps (1 / 4)"
  define a4 where "a4 = js_mul gc (7205759403792794 / 2 ^ 55)"
  have c: "0 \<le> js_sub 1 cr \<and> js_sub 1 cr \<le> 1"
    unfolding js_sub_def using assms(1) unit_interval [of "1 - cr"] by simp
  have 1: "0 \<le> a1 \<and> a1 \<le> 77 / 256"
    unfolding a1_def using product_bounds [OF c literal_doubles(2)] by simp
  have 2: "0 \<le> a2 \<and> a2 \<le> 1 / 4"
    unfolding a2_def using product_bounds [OF assms(2) small_doubles(7)] by simp
  have 3: "0 \<le> a3 \<and> a3 \<le> 1 / 4"
    unfolding a3_def using product_bounds [OF assms(3) small_doubles(7)] by simp
  have 4: "0 \<le> a4 \<and> a4 \<le> 13 / 64"
    unfolding a4_def using product_bounds [OF assms(4) literal_doubles(3)] by simp
  have s1: "0 \<le> js_add a1 a2 \<and> js_add a1 a2 \<le> 141 / 256"
    using sum_bounds [OF 1 2] small_doubles by simp
  have s2: "0 \<le> js_add (js_add a1 a2) a3 \<and> js_add (js_add a1 a2) a3 \<le> 205 / 256"
    using sum_bounds [OF s1 3] small_doubles by simp
  have s3: "0 \<le> js_add (js_add (js_add a1 a2) a3) a4
            \<and> js_add (js_add (js_add a1 a2) a3) a4 \<le> 257 / 256"
    using sum_bounds [OF s2 4] small_doubles by simp
  have "combinedStability (weights defaultStabilityConfig) cr dr ps gc
      = js_add (js_add (js_add a1 a2) a3) a4"
    by (simp add: combinedStability_def default_weights a1_def a2_def a3_def a4_def)
  with s3 show ?thesis by simp
qed

lemma round_hundredths_bounds:
  assumes "0 \<le> x" "x \<le> 257 / 256"
  shows "0 \<le> js_div (Math_round (js_mul x 100)) 100 \<and>
         js_div (Math_round (js_mul x 100)) 100 \<le> 1"
proof -
  define p where "p = js_mul x 100"
  have "0 \<le> x * 100" "x * 100 \<le> 6425 / 64" using assms by simp_all
  then have p: "0 \<le> p \<and> p \<le> 6425 / 64"
    unfolding p_def js_mul_def
    using nearestDouble_between [of 0 "6425 / 64" "x * 100"] small_doubles by blast
  have "0 \<le> \<lfloor>p + 1 / 2\<rfloor>" using p by simp
  moreover have "\<lfloor>p + 1 / 2\<rfloor> \<le> 100"
  proof -
    have "p + 1 / 2 < 101" using p by simp
    then have "\<lfloor>p + 1 / 2\<rfloor> < 101" by (simp add: floor_less_iff)
    then show ?thesis by simp
  qed
  ultimately have "0 \<le> Math_round p / 100 \<and> Math_round p / 100 \<le> 1"
    by (simp add: Math_round_def)
  then have "0 \<le> nearestDouble (Math_round p / 100) \<and> nearestDouble (Math_round p / 100) \<le> 1"
    using unit_interval by blast
  then show ?thesis by (simp add: js_div_def p_def)
qed

lemma weights_sum:
  "js_add (js_add (js_add (5404319552844595 / 2 ^ 54) (1 / 4)) (1 / 4))
     (7205759403792794 / 2 ^ 55) = 1"
proof -
  have 1: "js_add (5404319552844595 / 2 ^ 54) (1 / 4) = 4953959590107546 / 2 ^ 53"
    unfolding js_add_def
    using nearestDouble_below_one [of 1 "5404319552844595 / 2 ^ 54 + 1 / 4"]
    by (simp add: roundEven_def)
  have 2: "js_add (4953959590107546 / 2 ^ 53) (1 / 4) = 7205759403792794 / 2 ^ 53"
    unfolding js_add_def
    using nearestDouble_below_one [of 1 "4953959590107546 / 2 ^ 53 + 1 / 4"]
    by (simp add: roundEven_def)
  have 3: "js_add (7205759403792794 / 2 ^ 53) (7205759403792794 / 2 ^ 55) = 1"
    unfolding js_add_def
    using nearestDouble_above_one [of 0 "7205759403792794 / 2 ^ 53 + 7205759403792794 / 2 ^ 55"]
    by (simp add: roundEven_def)
  show ?thesis by (simp only: 1 2 3)
qed

text \<open>
  Claim C5, as amended.  For every \<open>StabilityMetrics\<close> that \<open>calculateStability\<close> produces
  (with the default weights), each of contradiction_ratio, decision_reuse_rate,
  plan_similarity, goal_convergence and overall_stability lies in [0, 1], and
  overall_stability is \<open>Math.round(c * 100) / 100\<close> for the combination \<open>c\<close> =
  (1 - contradiction_ratio) * 0.30 + decision_reuse_rate * 0.25 + plan_similarity * 0.25 +
  goal_convergence * 0.20 as the code computes it, in double arithmetic from left to
  right, every operation rounded to the nearest double; the weights are the doubles nearest
  to 0.30, 0.25, 0.25 and 0.20, and their sum, so computed, is 1.
\<close>

theorem calculateStability_bounds:
  "(let m = calculateStability current previousRound e defaultStabilityConfig;
        w = weights defaultStabilityConfig
    in 0 \<le> contradiction_ratio m \<and> contradiction_ratio m \<le> 1
     \<and> 0 \<le> decision_reuse_rate m \<and> decision_reuse_rate m \<le> 1
     \<and> 0 \<le> plan_similarity m \<and> plan_similarity m \<le> 1
     \<and> 0 \<le> goal_convergence m \<and> goal_convergence m \<le> 1
     \<and> 0 \<le> overall_stability m \<and> overall_stability m \<le> 1
     \<and> overall_stability m =
         js_div
           (Math_round
              (js_mul
                 (js_add
                    (js_add
                       (js_add (js_mul (js_sub 1 (contradiction_ratio m)) (contradictionRatio w))
                          (js_mul (decision_reuse_rate m) (decisionReuseRate w)))
                       (js_mul (plan_similarity m) (planSimilarity w)))
                    (js_mul (goal_convergence m) (goalConvergence w)))
                 100))
           100
     \<and> contradictionRatio w = nearestDouble (30 / 100)
     \<and> decisionReuseRate w = nearestDouble (25 / 100)
     \<and> planSimilarity w = nearestDouble (25 / 100)
     \<and> goalConvergence w = nearestDouble (20 / 100)
     \<and> js_add (js_add (js_add (contradictionRatio w) (decisionReuseRate w)) (planSimilarity w))
          (goalConvergence w) = 1)"
proof -
  define pp where "pp = (case previousRound of None \<Rightarrow> None | Some r \<Rightarrow> plan r)"
  define cr where "cr = min (js_div (real (length (contradictions e))) 5) 1"
  define dr where "dr = calculateDecisionReuseRate (plan current) pp"
  define ps where "ps = calculatePlanSimilarity (plan current) pp"
  define gc where "gc = calculateGoalConvergence e"
  define ov where "ov = combinedStability (weights defaultStabilityConfig) cr dr ps gc"
  have m: "calculateStability current previousRound e defaultStabilityConfig =
      \<lparr> contradiction_ratio = cr, decision_reuse_rate = dr, plan_similarity = ps,
        goal_convergence = gc,
        overall_stability = js_div (Math_round (js_mul ov 100)) 100 \<rparr>"
    unfolding calculateStability_def Let_def pp_def cr_def dr_def ps_def gc_def ov_def by simp
  have "0 \<le> real (length (contradictions e)) / 5" by simp
  then have "0 \<le> js_div (real (length (contradictions e))) 5"
    unfolding js_div_def using nearestDouble_ge [of 0] small_doubles(1) by blast
  then have b1: "0 \<le> cr \<and> cr \<le> 1" by (simp add: cr_def)
  have b2: "0 \<le> dr \<and> dr \<le> 1" unfolding dr_def by (rule calculateDecisionReuseRate_bounds)
  have b3: "0 \<le> ps \<and> ps \<le> 1" unfolding ps_def by (rule calculatePlanSimilarity_bounds)
  have b4: "0 \<le> gc \<and> gc \<le> 1" unfolding gc_def by (rule calculateGoalConvergence_bounds)
  have b5: "0 \<le> ov \<and> ov \<le> 257 / 256"
    unfolding ov_def by (rule combinedStability_default_bounds [OF b1 b2 b3 b4])
  have b6: "0 \<le> js_div (Math_round (js_mul ov 100)) 100 \<and>
            js_div (Math_round (js_mul ov 100)) 100 \<le> 1"
    using b5 round_hundredths_bounds [of ov] by blast
  have ov': "ov = js_add
                    (js_add
                       (js_add (js_mul (js_sub 1 cr) (contradictionRatio (weights defaultStabilityConfig)))
                          (js_mul dr (decisionReuseRate (weights defaultStabilityConfig))))
                       (js_mul ps (planSimilarity (weights defaultStabilityConfig))))
                    (js_mul gc (goalConvergence (weights defaultStabilityConfig)))"
    by (simp add: ov_def combinedStability_def)
  have w: "contradictionRatio (weights defaultStabilityConfig) = nearestDouble (30 / 100)"
    "decisionReuseRate (weights defaultStabilityConfig) = nearestDouble (25 / 100)"
    "planSimilarity (weights defaultStabilityConfig) = nearestDouble (25 / 100)"
    "goalConvergence (weights defaultStabilityConfig) = nearestDouble (20 / 100)"
    by (simp_all add: defaultStabilityConfig_def)
  have ws: "js_add (js_add (js_add (contradictionRatio (weights defaultStabilityConfig))
              (decisionReuseRate (weights defaultStabilityConfig)))
              (planSimilarity (weights defaultStabilityConfig)))
            (goalConvergence (weights defaultStabilityConfig)) = 1"
    using weights_sum by (simp add: default_weights)
  have "overall_stability (calculateStability current previousRound e defaultStabilityConfig)
      = js_div (Math_round (js_mul ov 100)) 100"
    by (simp add: m)
  with b1 b2 b3 b4 b6 ov' w ws show ?thesis
    unfolding Let_def by (simp add: m)
qed
subsection \<open>A rounding tie\<close>

lemma calculateStability_fields:
  "contradiction_ratio (calculateStability cur prev e cfg)
     = min (js_div (real (length (contradictions e))) 5) 1"
  "decision_reuse_rate (calculateStability cur prev e cfg)
     = calculateDecisionReuseRate (plan cur) (case prev of None \<Rightarrow> None | Some r \<Rightarrow> plan r)"
  "plan_similarity (calculateStability cur prev e cfg)
     = calculatePlanSimilarity (plan cur) (case prev of None \<Rightarrow> None | Some r \<Rightarrow> plan r)"
  "goal_convergence (calculateStability cur prev e cfg) = calculateGoalConvergence e"
  "overall_stability (calculateStability cur prev e cfg)
     = js_div
         (Math_round
            (js_mul
               (combinedStability (weights cfg)
                  (min (js_div (real (length (contradictions e))) 5) 1)
                  (calculateDecisionReuseRate (plan cur)
                     (case prev of None \<Rightarrow> None | Some r \<Rightarrow> plan r))
                  (calculatePlanSimilarity (plan cur)
                     (case prev of None \<Rightarrow> None | Some r \<Rightarrow> plan r))
                  (calculateGoalConvergence e))
               100))
         100"
  by (simp_all add: calculateStability_def Let_def)

lemma exact_doubles:
  "nearestDouble 0 = 0" "nearestDouble 1 = 1" "nearestDouble (1 / 2) = 1 / 2"
  "nearestDouble (1 / 4) = 1 / 4" "nearestDouble (1 / 8) = 1 / 8" "nearestDouble (3 / 8) = 3 / 8"
  "nearestDouble (3 / 2) = 3 / 2"
  using nearestDouble_id [of 1] nearestDouble_id [of "1 / 2"] nearestDouble_id [of "1 / 4"]
    nearestDouble_id [of "1 / 8"] nearestDouble_id [of "3 / 8"] nearestDouble_id [of "3 / 2"]
    small_doubles
  by (simp_all add: nearestDouble_def)

lemma calculateStringSimilarity_same: "calculateStringSimilarity s s = 1"
  by (simp add: calculateStringSimilarity_def)

lemma tie_contradiction_ratio: "min (js_div (real (length (contradictions tieEvaluation))) 5) 1 = 1"
  by (simp add: tieEvaluation_def js_div_def exact_doubles)

lemma tie_decision_reuse_rate:
  "calculateDecisionReuseRate (Some tieCurrent) (Some tiePrevious) = 1"
proof -
  have s: "nearestDouble (7 / 10) < calculateStringSimilarity ''c'' ''c''"
    by (simp add: calculateStringSimilarity_same seven_tenths)
  have d: "decisionsOf tieCurrent = [''c'']" by (simp add: decisionsOf_def tieCurrent_def)
  have n: "newSet (decisionsOf tiePrevious) = [''c'', ''d'', ''t'']"
    by (simp add: decisionsOf_def tiePrevious_def newSet_def toLowerCase_def lowerChar_def
        asciiLower_def latin1Lower_def)
  have "hasSimilar ''c'' [''c'', ''d'', ''t'']" using s by simp
  then have c: "countReused [''c''] [''c'', ''d'', ''t''] = 1"
    by (simp only: countReused.simps if_True)
  show ?thesis
    by (simp add: calculateDecisionReuseRate_def Let_def d n c js_div_def exact_doubles
        del: countReused.simps hasSimilar.simps)
qed

lemma tie_plan_similarity:
  "calculatePlanSimilarity (Some tieCurrent) (Some tiePrevious) = 1 / 2"
proof -
  have g: "calculateSetSimilarity (newSet (Plan.goals tieCurrent)) (newSet (Plan.goals tiePrevious)) = 1"
    by (simp add: calculateSetSimilarity_def tieCurrent_def tiePrevious_def newSet_def)
  have t: "js_sub 1
     (js_div \<bar>real (length (tasks tieCurrent)) - real (length (tasks tiePrevious))\<bar>
        (max (max (real (length (tasks tieCurrent))) (real (length (tasks tiePrevious)))) 1)) = 0"
    by (simp add: tieCurrent_def tiePrevious_def js_sub_def js_div_def exact_doubles)
  have k: "calculateSetSimilarity (newSet (constraints tieCurrent)) (newSet (constraints tiePrevious))
      = 1 / 2"
    by (simp add: calculateSetSimilarity_def tieCurrent_def tiePrevious_def newSet_def Let_def
        js_div_def exact_doubles)
  have "js_div (js_add (js_add (js_add 0 1) 0) (1 / 2)) 3 = 1 / 2"
    by (simp add: js_add_def js_div_def exact_doubles)
  then show ?thesis
    by (simp add: calculatePlanSimilarity_def Let_def g t k)
qed

lemma tie_goal_convergence: "calculateGoalConvergence tieEvaluation = 1"
proof -
  have 1: "js_mul 1 (3152519739159347 / 4503599627370496) = 3152519739159347 / 4503599627370496"
    unfolding js_mul_def
    using nearestDouble_below_one [of 1 "3152519739159347 / 4503599627370496"]
    by (simp add: roundEven_def)
  have 2: "js_mul 1 (5404319552844595 / 18014398509481984) = 5404319552844595 / 18014398509481984"
    unfolding js_mul_def
    using nearestDouble_below_one [of 2 "5404319552844595 / 18014398509481984"]
    by (simp add: roundEven_def)
  have 3: "js_add (3152519739159347 / 4503599627370496) (5404319552844595 / 18014398509481984) = 1"
    unfolding js_add_def
    using nearestDouble_below_one
      [of 1 "3152519739159347 / 4503599627370496 + 5404319552844595 / 18014398509481984"]
    by (simp add: roundEven_def)
  have "calculateGoalConvergence tieEvaluation
      = js_add (js_mul 1 (3152519739159347 / 4503599627370496))
          (js_mul 1 (5404319552844595 / 18014398509481984))"
    by (simp add: calculateGoalConvergence_def tieEvaluation_def vsGoalMap_def vsPreviousMap_def
        seven_tenths three_tenths)
  then show ?thesis by (simp only: 1 2 3)
qed

lemma tie_combined:
  "combinedStability (weights defaultStabilityConfig) 1 1 (1 / 2) 1
     = 2589569785738035 / 4503599627370496"
proof -
  have 1: "js_mul (js_sub 1 1) (5404319552844595 / 18014398509481984) = 0"
    by (simp add: js_mul_def js_sub_def exact_doubles)
  have 2: "js_mul 1 (1 / 4) = 1 / 4" by (simp add: js_mul_def exact_doubles)
  have 3: "js_mul (1 / 2) (1 / 4) = 1 / 8" by (simp add: js_mul_def exact_doubles)
  have 4: "js_mul 1 (3602879701896397 / 18014398509481984)
      = 3602879701896397 / 18014398509481984"
    unfolding js_mul_def
    using nearestDouble_below_one [of 3 "3602879701896397 / 18014398509481984"]
    by (simp add: roundEven_def)
  have 5: "js_add 0 (1 / 4) = 1 / 4" by (simp add: js_add_def exact_doubles)
  have 6: "js_add (1 / 4) (1 / 8) = 3 / 8" by (simp add: js_add_def exact_doubles)
  have 7: "js_add (3 / 8) (3602879701896397 / 18014398509481984)
      = 2589569785738035 / 4503599627370496"
    unfolding js_add_def
    using nearestDouble_below_one [of 1 "3 / 8 + 3602879701896397 / 18014398509481984"]
    by (simp add: roundEven_def)
  have "combinedStability (weights defaultStabilityConfig) 1 1 (1 / 2) 1
      = js_add
          (js_add
             (js_add (js_mul (js_sub 1 1) (5404319552844595 / 18014398509481984))
                (js_mul 1 (1 / 4)))
             (js_mul (1 / 2) (1 / 4)))
          (js_mul 1 (3602879701896397 / 18014398509481984))"
    by (simp add: combinedStability_def default_weights)
  then show ?thesis by (simp only: 1 2 3 4 5 6 7)
qed

lemma tie_overall: "overall_stability tieMetrics = nearestDouble (57 / 100)"
proof -
  have p: "js_mul (2589569785738035 / 4503599627370496) 100
      = 8092405580431359 / 140737488355328"
    unfolding js_mul_def
    using nearestDouble_above_one [of 5 "2589569785738035 / 4503599627370496 * 100"]
    by (simp add: roundEven_def)
  have r: "Math_round (8092405580431359 / 140737488355328) = 57"
    by (simp add: Math_round_def)
  have "overall_stability tieMetrics
      = js_div (Math_round (js_mul (combinedStability (weights defaultStabilityConfig)
                                      1 1 (1 / 2) 1) 100)) 100"
    unfolding tieMetrics_def calculateStability_fields
    by (simp add: roundWith_def tie_contradiction_ratio tie_decision_reuse_rate
        tie_plan_similarity tie_goal_convergence)
  then show ?thesis by (simp add: tie_combined p r js_div_def)
qed

text \<open>
  C5 as stated fails.  At a second round whose metrics are 1, 1, 0.5 and 1, all of them
  doubles, the convex combination is 0.575 and rounds to 0.58, but the code computes
  \<open>57.49999999999999\<close> for the product with 100 and returns 0.57.
\<close>

theorem rounded_combination_counterexample:
  "contradiction_ratio tieMetrics = 1 \<and> decision_reuse_rate tieMetrics = 1
   \<and> plan_similarity tieMetrics = 1 / 2 \<and> goal_convergence tieMetrics = 1
   \<and> ((1 - contradiction_ratio tieMetrics) * (30 / 100)
        + decision_reuse_rate tieMetrics * (25 / 100)
        + plan_similarity tieMetrics * (25 / 100)
        + goal_convergence tieMetrics * (20 / 100)) * 100 = 115 / 2
   \<and> Math_round (115 / 2) / 100 = 58 / 100
   \<and> overall_stability tieMetrics = nearestDouble (57 / 100)
   \<and> overall_stability tieMetrics < 575 / 1000
   \<and> overall_stability tieMetrics
       \<noteq> Math_round
           (((1 - contradiction_ratio tieMetrics) * (30 / 100)
              + decision_reuse_rate tieMetrics * (25 / 100)
              + plan_similarity tieMetrics * (25 / 100)
              + goal_convergence tieMetrics * (20 / 100)) * 100) / 100"
proof -
  have c: "contradiction_ratio tieMetrics = 1"
    unfolding tieMetrics_def calculateStability_fields by (rule tie_contradiction_ratio)
  have d: "decision_reuse_rate tieMetrics = 1"
    unfolding tieMetrics_def calculateStability_fields
    by (simp add: roundWith_def tie_decision_reuse_rate)
  have p: "plan_similarity tieMetrics = 1 / 2"
    unfolding tieMetrics_def calculateStability_fields
    by (simp add: roundWith_def tie_plan_similarity)
  have g: "goal_convergence tieMetrics = 1"
    unfolding tieMetrics_def calculateStability_fields by (rule tie_goal_convergence)
  have x: "((1 - contradiction_ratio tieMetrics) * (30 / 100)
        + decision_reuse_rate tieMetrics * (25 / 100)
        + plan_similarity tieMetrics * (25 / 100)
        + goal_convergence tieMetrics * (20 / 100)) * 100 = 115 / 2"
    by (simp add: c d p g)
  have r: "Math_round (115 / 2) / 100 = 58 / 100" by (simp add: Math_round_def)
  have "nearestDouble (57 / 100) \<le> 73 / 128"
    using nearestDouble_le [of "73 / 128" "57 / 100"] small_doubles by simp
  then have l: "overall_stability tieMetrics < 575 / 1000" by (simp add: tie_overall)
  from l have n: "overall_stability tieMetrics \<noteq> 58 / 100" by simp
  from c d p g x r tie_overall l n show ?thesis by (simp only: x r) simp
qed
subsection \<open>Quotients that are not doubles\<close>

lemma third: "nearestDouble (1 / 3) = 6004799503160661 / 18014398509481984"
  using nearestDouble_below_one [of 2 "1 / 3"] by (simp add: roundEven_def)

lemma thirds_decision_reuse_rate:
  "calculateDecisionReuseRate (Some thirdsCurrent) (Some thirdsPrevious) = nearestDouble (1 / 3)"
proof -
  have s: "nearestDouble (7 / 10) < calculateStringSimilarity ''a'' ''a''"
    by (simp add: calculateStringSimilarity_same seven_tenths)
  have z: "calculateStringSimilarity x y = 0" if "x \<noteq> y" "x \<in> {''c'', ''t''}" "y \<in> {''a'', ''b''}"
    for x y
    using that
    by (auto simp add: calculateStringSimilarity_def toLowerCase_def lowerChar_def asciiLower_def
        latin1Lower_def)
  have d: "decisionsOf thirdsCurrent = [''a'', ''c'', ''t'']"
    by (simp add: decisionsOf_def thirdsCurrent_def toLowerCase_def lowerChar_def
        asciiLower_def latin1Lower_def)
  have n: "newSet (decisionsOf thirdsPrevious) = [''a'', ''b'']"
    by (simp add: decisionsOf_def thirdsPrevious_def newSet_def)
  have 1: "hasSimilar ''a'' [''a'', ''b'']" using s by simp
  have 2: "\<not> hasSimilar ''c'' [''a'', ''b'']" by (simp add: z seven_tenths)
  have 3: "\<not> hasSimilar ''t'' [''a'', ''b'']" by (simp add: z seven_tenths)
  have c: "countReused [''a'', ''c'', ''t''] [''a'', ''b''] = 1"
    by (simp only: countReused.simps 1 2 3 if_True if_False)
  show ?thesis
    by (simp add: calculateDecisionReuseRate_def Let_def d n c js_div_def
        del: countReused.simps hasSimilar.simps)
qed

lemma thirds_plan_similarity:
  "calculatePlanSimilarity (Some thirdsCurrent) (Some thirdsPrevious) = 6004799503160661 / 36028797018963968"
proof -
  have g: "calculateSetSimilarity (newSet (Plan.goals thirdsCurrent))
      (newSet (Plan.goals thirdsPrevious)) = 1 / 2"
    by (simp add: calculateSetSimilarity_def thirdsCurrent_def thirdsPrevious_def newSet_def
        Let_def js_div_def exact_doubles)
  have t: "js_sub 1
     (js_div \<bar>real (length (tasks thirdsCurrent)) - real (length (tasks thirdsPrevious))\<bar>
        (max (max (real (length (tasks thirdsCurrent))) (real (length (tasks thirdsPrevious)))) 1))
      = 0"
    by (simp add: thirdsCurrent_def thirdsPrevious_def js_sub_def js_div_def exact_doubles)
  have k: "calculateSetSimilarity (newSet (constraints thirdsCurrent))
      (newSet (constraints thirdsPrevious)) = 0"
    by (simp add: calculateSetSimilarity_def thirdsCurrent_def thirdsPrevious_def newSet_def)
  have a: "js_add (js_add (js_add 0 (1 / 2)) 0) 0 = 1 / 2"
    by (simp add: js_add_def exact_doubles)
  have q: "js_div (1 / 2) 3 = 6004799503160661 / 36028797018963968"
    unfolding js_div_def
    using nearestDouble_below_one [of 3 "(1 / 2) / 3"]
    by (simp add: roundEven_def)
  show ?thesis
    by (simp add: calculatePlanSimilarity_def Let_def g t k a q)
qed

lemma thirds_goal_convergence:
  "calculateGoalConvergence thirdsEvaluation = 3152519739159347 / 4503599627370496"
proof -
  have c1: "js_mul 1 (3152519739159347 / 4503599627370496) = 3152519739159347 / 4503599627370496"
    unfolding js_mul_def
    using nearestDouble_below_one [of 1 "1 * (3152519739159347 / 4503599627370496)"]
    by (simp add: roundEven_def)
  have c2: "js_mul 0 (5404319552844595 / 18014398509481984) = 0"
    by (simp add: js_mul_def exact_doubles)
  have c3: "js_add (3152519739159347 / 4503599627370496) 0 = 3152519739159347 / 4503599627370496"
    unfolding js_add_def
    using nearestDouble_below_one [of 1 "(3152519739159347 / 4503599627370496) + 0"]
    by (simp add: roundEven_def)
  have "calculateGoalConvergence thirdsEvaluation
      = js_add (js_mul 1 (3152519739159347 / 4503599627370496)) (js_mul 0 (5404319552844595 / 18014398509481984))"
    by (simp add: calculateGoalConvergence_def thirdsEvaluation_def vsGoalMap_def
        vsPreviousMap_def seven_tenths three_tenths)
  then show ?thesis by (simp only: c1 c2 c3)
qed

lemma thirds_combined:
  "combinedStability (weights defaultStabilityConfig) 0 (6004799503160661 / 18014398509481984)
     (6004799503160661 / 36028797018963968) (3152519739159347 / 4503599627370496)
     = 1272266894732165 / 2251799813685248"
proof -
  have k1: "js_sub 1 0 = 1"
    unfolding js_sub_def
    using nearestDouble_above_one [of 0 "1 - 0"]
    by (simp add: roundEven_def)
  have k2: "js_mul 1 (5404319552844595 / 18014398509481984) = 5404319552844595 / 18014398509481984"
    unfolding js_mul_def
    using nearestDouble_below_one [of 2 "1 * (5404319552844595 / 18014398509481984)"]
    by (simp add: roundEven_def)
  have k3: "js_mul (6004799503160661 / 18014398509481984) (1 / 4) = 6004799503160661 / 72057594037927936"
    unfolding js_mul_def
    using nearestDouble_below_one [of 4 "(6004799503160661 / 18014398509481984) * (1 / 4)"]
    by (simp add: roundEven_def)
  have k4: "js_mul (6004799503160661 / 36028797018963968) (1 / 4) = 6004799503160661 / 144115188075855872"
    unfolding js_mul_def
    using nearestDouble_below_one [of 5 "(6004799503160661 / 36028797018963968) * (1 / 4)"]
    by (simp add: roundEven_def)
  have k5: "js_mul (3152519739159347 / 4503599627370496) (3602879701896397 / 18014398509481984) = 5044031582654955 / 36028797018963968"
    unfolding js_mul_def
    using nearestDouble_below_one [of 3 "(3152519739159347 / 4503599627370496) * (3602879701896397 / 18014398509481984)"]
    by (simp add: roundEven_def)
  have k6: "js_add (5404319552844595 / 18014398509481984) (6004799503160661 / 72057594037927936) = 863189928579345 / 2251799813685248"
    unfolding js_add_def
    using nearestDouble_below_one [of 2 "(5404319552844595 / 18014398509481984) + (6004799503160661 / 72057594037927936)"]
    by (simp add: roundEven_def)
  have k7: "js_add (863189928579345 / 2251799813685248) (6004799503160661 / 144115188075855872) = 7656119366529843 / 18014398509481984"
    unfolding js_add_def
    using nearestDouble_below_one [of 2 "(863189928579345 / 2251799813685248) + (6004799503160661 / 144115188075855872)"]
    by (simp add: roundEven_def)
  have k8: "js_add (7656119366529843 / 18014398509481984) (5044031582654955 / 36028797018963968) = 1272266894732165 / 2251799813685248"
    unfolding js_add_def
    using nearestDouble_below_one [of 1 "(7656119366529843 / 18014398509481984) + (5044031582654955 / 36028797018963968)"]
    by (simp add: roundEven_def)
  have "combinedStability (weights defaultStabilityConfig) 0 (6004799503160661 / 18014398509481984)
     (6004799503160661 / 36028797018963968) (3152519739159347 / 4503599627370496)
      = js_add
          (js_add
             (js_add (js_mul (js_sub 1 0) (5404319552844595 / 18014398509481984))
                (js_mul (6004799503160661 / 18014398509481984) (1 / 4)))
             (js_mul (6004799503160661 / 36028797018963968) (1 / 4)))
          (js_mul (3152519739159347 / 4503599627370496) (3602879701896397 / 18014398509481984))"
    by (simp add: combinedStability_def default_weights)
  then show ?thesis by (simp only: k1 k2 k3 k4 k5 k6 k7 k8)
qed

text \<open>With the exact quotients the combination is 0.565 and rounds to 0.57; the code
  computes \<open>56.49999999999999\<close> for the product with 100 and returns 0.56.\<close>

lemma thirds_overall:
  "decision_reuse_rate thirdsMetrics = nearestDouble (1 / 3)
   \<and> plan_similarity thirdsMetrics = nearestDouble (1 / 6)
   \<and> goal_convergence thirdsMetrics = nearestDouble (7 / 10)
   \<and> overall_stability thirdsMetrics = nearestDouble (56 / 100)
   \<and> Math_round (((1 - 0) * (30 / 100) + 1 / 3 * (25 / 100) + 1 / 6 * (25 / 100)
                    + 7 / 10 * (20 / 100)) * 100) / 100 = (57 / 100 :: real)"
proof -
  have c: "min (js_div (real (length (contradictions thirdsEvaluation))) 5) 1 = 0"
    by (simp add: thirdsEvaluation_def js_div_def exact_doubles)
  have sixth: "nearestDouble (1 / 6) = 6004799503160661 / 36028797018963968"
    using nearestDouble_below_one [of 3 "1 / 6"] by (simp add: roundEven_def)
  have q1: "js_mul (1272266894732165 / 2251799813685248) 100 = 7951668092076031 / 140737488355328"
    unfolding js_mul_def
    using nearestDouble_above_one [of 5 "(1272266894732165 / 2251799813685248) * 100"]
    by (simp add: roundEven_def)
  have r: "Math_round (7951668092076031 / 140737488355328) = 56"
    by (simp add: Math_round_def)
  have d: "decision_reuse_rate thirdsMetrics = nearestDouble (1 / 3)"
    unfolding thirdsMetrics_def calculateStability_fields
    by (simp add: roundWith_def thirds_decision_reuse_rate)
  have p: "plan_similarity thirdsMetrics = nearestDouble (1 / 6)"
    unfolding thirdsMetrics_def calculateStability_fields
    by (simp add: roundWith_def thirds_plan_similarity sixth)
  have g: "goal_convergence thirdsMetrics = nearestDouble (7 / 10)"
    unfolding thirdsMetrics_def calculateStability_fields
    by (simp add: thirds_goal_convergence seven_tenths)
  have "overall_stability thirdsMetrics
      = js_div (Math_round (js_mul (combinedStability (weights defaultStabilityConfig) 0
                                      (6004799503160661 / 18014398509481984)
                                      (6004799503160661 / 36028797018963968)
                                      (3152519739159347 / 4503599627370496)) 100)) 100"
    unfolding thirdsMetrics_def calculateStability_fields
    by (simp add: roundWith_def c thirds_decision_reuse_rate third thirds_plan_similarity
        thirds_goal_convergence)
  then have o: "overall_stability thirdsMetrics = nearestDouble (56 / 100)"
    by (simp add: thirds_combined q1 r js_div_def)
  have x: "Math_round (((1 - 0) * (30 / 100) + 1 / 3 * (25 / 100) + 1 / 6 * (25 / 100)
                    + 7 / 10 * (20 / 100)) * 100) / 100 = (57 / 100 :: real)"
    by (simp add: Math_round_def)
  from d p g o x show ?thesis by blast
qed


section \<open>Properties of the parsers\<close>

subsection \<open>Concrete parses\<close>

lemma firstBlock_parse:
  \<open>JSON_parse firstBlock
     = Some (JObj [(''goals'', JArr [JStr ''a'']), (''vs_goal'', JStr ''closer'')])\<close>
  by code_simp

lemma firstBlock_evaluation:
  \<open>parseBlindEvaluation firstBlock
     = Inr \<lparr> vs_previous = same_previous, vs_goal = closer, contradictions = [],
             missing = [], risks = [] \<rparr>\<close>
  by code_simp

lemma firstBlock_plan:
  \<open>parsePlanResponse sampleNumstr sampleClock firstBlock
     = Inr \<lparr> plan_id = ''plan_0'', goals = [''a''], tasks = [], constraints = [],
             created_at = 1 \<rparr>\<close>
  by code_simp

lemma twoBlockResponse_match: \<open>matchBraces twoBlockResponse = Some twoBlockResponse\<close>
  by code_simp

lemma twoBlockResponse_evaluation:
  \<open>parseBlindEvaluation twoBlockResponse = Inr conservativeDefault\<close>
  by code_simp

lemma twoBlockResponse_plan:
  \<open>parsePlanResponse sampleNumstr sampleClock twoBlockResponse
     = Inl (Error ''Plan parsing failed: SyntaxError'')\<close>
  by code_simp

lemma twoBlockResponse_first: \<open>firstBalancedBlock twoBlockResponse = Some firstBlock\<close>
  by code_simp






subsection \<open>The evaluation parser\<close>






subsection \<open>What both parsers consume\<close>

lemma matchBraces_surrounded:
  assumes "CHR ''{'' \<notin> set pre" "CHR ''}'' \<notin> set suf"
  shows "matchBraces (pre @ CHR ''{'' # body @ CHR ''}'' # suf) = Some (CHR ''{'' # body @ [CHR ''}''])"
proof -
  have 1: "dropWhile (\<lambda>c. c \<noteq> CHR ''{'') (pre @ CHR ''{'' # body @ CHR ''}'' # suf)
      = CHR ''{'' # body @ CHR ''}'' # suf"
    using assms(1) by (auto simp add: dropWhile_append3)
  have 2: "dropWhile (\<lambda>c. c \<noteq> CHR ''}'') (rev suf @ CHR ''}'' # rev body) = CHR ''}'' # rev body"
    using assms(2) by (auto simp add: dropWhile_append3)
  show ?thesis
    unfolding matchBraces_def 1 Let_def by (simp add: 2)
qed

lemma parse_depends_on_match:
  assumes "matchBraces r = matchBraces r'"
  shows "parsePlanResponse numstr clock r = parsePlanResponse numstr clock r'"
    and "parseBlindEvaluation r = parseBlindEvaluation r'"
  using assms
  by (simp_all add: parsePlanResponse_def parsePlanResponse_try_def parseBlindEvaluation_def
      parseBlindEvaluation_try_def)

text \<open>
  Claim C7, as amended.  Both parsers consume the text from the first opening brace to the
  last closing brace of the response (the greedy match), not the first balanced block:
  for a response made of a prefix without opening brace, a text that starts with an
  opening brace and ends with a closing brace, and a suffix without closing brace, that
  text is what is parsed, and the prefix and the suffix do not change the result of
  \<open>parsePlanResponse\<close> or of \<open>parseBlindEvaluation\<close>.
\<close>

theorem parsers_ignore_text_around_braces:
  "CHR ''{'' \<notin> set pre \<and> CHR ''}'' \<notin> set suf \<longrightarrow>
     matchBraces (pre @ CHR ''{'' # body @ CHR ''}'' # suf) = Some (CHR ''{'' # body @ [CHR ''}''])
   \<and> parsePlanResponse numstr clock (pre @ CHR ''{'' # body @ CHR ''}'' # suf)
       = parsePlanResponse numstr clock (CHR ''{'' # body @ [CHR ''}''])
   \<and> parseBlindEvaluation (pre @ CHR ''{'' # body @ CHR ''}'' # suf)
       = parseBlindEvaluation (CHR ''{'' # body @ [CHR ''}''])"
proof
  assume a: "CHR ''{'' \<notin> set pre \<and> CHR ''}'' \<notin> set suf"
  have m: "matchBraces (pre @ CHR ''{'' # body @ CHR ''}'' # suf) = Some (CHR ''{'' # body @ [CHR ''}''])"
    using a by (simp add: matchBraces_surrounded)
  have m0: "matchBraces (CHR ''{'' # body @ [CHR ''}'']) = Some (CHR ''{'' # body @ [CHR ''}''])"
    using matchBraces_surrounded [of "[]" "[]" body] by simp
  from m m0 have "matchBraces (pre @ CHR ''{'' # body @ CHR ''}'' # suf)
      = matchBraces (CHR ''{'' # body @ [CHR ''}''])" by simp
  from parse_depends_on_match [OF this] m
  show "matchBraces (pre @ CHR ''{'' # body @ CHR ''}'' # suf) = Some (CHR ''{'' # body @ [CHR ''}''])
   \<and> parsePlanResponse numstr clock (pre @ CHR ''{'' # body @ CHR ''}'' # suf)
       = parsePlanResponse numstr clock (CHR ''{'' # body @ [CHR ''}''])
   \<and> parseBlindEvaluation (pre @ CHR ''{'' # body @ CHR ''}'' # suf)
       = parseBlindEvaluation (CHR ''{'' # body @ [CHR ''}''])"
    by simp
qed

text \<open>Instance of C7 as amended: a plan wrapped in a sentence.\<close>

theorem parsers_ignore_text_around_braces_witness:
  \<open>CHR ''{'' \<notin> set ''Here is the plan: '' \<and> CHR ''}'' \<notin> set '' Done.''
   \<and> fencedResponse = ''Here is the plan: '' @ firstBlock @ '' Done.''
   \<and> matchBraces fencedResponse = Some firstBlock
   \<and> parsePlanResponse sampleNumstr sampleClock fencedResponse
       = parsePlanResponse sampleNumstr sampleClock firstBlock
   \<and> parseBlindEvaluation fencedResponse = parseBlindEvaluation firstBlock
   \<and> parseBlindEvaluation firstBlock
       = Inr \<lparr> vs_previous = same_previous, vs_goal = closer, contradictions = [],
               missing = [], risks = [] \<rparr>\<close>
proof -
  have h: \<open>CHR ''{'' \<notin> set ''Here is the plan: '' \<and> CHR ''}'' \<notin> set '' Done.''\<close> by simp
  have f: \<open>fencedResponse = ''Here is the plan: '' @ CHR ''{'' # ''"goals":["a"],"vs_goal":"closer"'' @ CHR ''}'' # '' Done.''\<close>
    by (simp add: fencedResponse_def)
  have b: \<open>firstBlock = CHR ''{'' # ''"goals":["a"],"vs_goal":"closer"'' @ [CHR ''}'']\<close>
    by (simp add: firstBlock_def)
  note e = firstBlock_evaluation
  have fb: \<open>fencedResponse = ''Here is the plan: '' @ firstBlock @ '' Done.''\<close>
    by (simp add: fencedResponse_def firstBlock_def)
  from parsers_ignore_text_around_braces
    [of \<open>''Here is the plan: ''\<close> \<open>'' Done.''\<close> \<open>''"goals":["a"],"vs_goal":"closer"''\<close>
        sampleNumstr sampleClock, folded f b] h e fb
  show ?thesis by blast
qed


text \<open>C7 as stated fails: the first balanced brace block of \<open>twoBlockResponse\<close> is valid
  JSON, and the second brace block after it changes both results, since the text consumed
  runs to the last closing brace and is not JSON.\<close>

theorem first_balanced_block_counterexample:
  \<open>firstBalancedBlock twoBlockResponse = Some firstBlock
   \<and> twoBlockResponse = firstBlock @ '' {}''
   \<and> JSON_parse firstBlock
       = Some (JObj [(''goals'', JArr [JStr ''a'']), (''vs_goal'', JStr ''closer'')])
   \<and> matchBraces twoBlockResponse = Some twoBlockResponse
   \<and> parseBlindEvaluation firstBlock
       = Inr \<lparr> vs_previous = same_previous, vs_goal = closer, contradictions = [],
               missing = [], risks = [] \<rparr>
   \<and> parseBlindEvaluation twoBlockResponse = Inr conservativeDefault
   \<and> parsePlanResponse sampleNumstr sampleClock firstBlock
       = Inr \<lparr> plan_id = ''plan_0'', goals = [''a''], tasks = [], constraints = [],
               created_at = 1 \<rparr>
   \<and> parsePlanResponse sampleNumstr sampleClock twoBlockResponse
       = Inl (Error ''Plan parsing failed: SyntaxError'')\<close>
proof -
  have \<open>twoBlockResponse = firstBlock @ '' {}''\<close>
    by (simp add: twoBlockResponse_def firstBlock_def)
  with twoBlockResponse_first firstBlock_parse twoBlockResponse_match firstBlock_evaluation
    twoBlockResponse_evaluation firstBlock_plan twoBlockResponse_plan
  show ?thesis by blast
qed

subsection \<open>The plan parser on a \<open>null\<close> task\<close>

text \<open>
  Claim C10.  The claim fails on the code at a response whose text is valid JSON and whose
  \<open>tasks\<close> array holds \<open>null\<close>: the property read \<open>task.description\<close> throws a
  \<open>TypeError\<close>, which \<open>parsePlanResponse\<close> throws again as a parse failure.
\<close>

theorem parsePlanResponse_null_task:
  \<open>matchBraces nullTaskResponse = Some nullTaskResponse
   \<and> JSON_parse nullTaskResponse = Some (JObj [(''tasks'', JArr [JNull])])
   \<and> parsePlanResponse sampleNumstr sampleClock nullTaskResponse
       = Inl (Error ''Plan parsing failed: TypeError'')\<close>
proof -
  have 1: \<open>matchBraces nullTaskResponse = Some nullTaskResponse\<close> by code_simp
  have 2: \<open>JSON_parse nullTaskResponse = Some (JObj [(''tasks'', JArr [JNull])])\<close>
    by code_simp
  have 3: \<open>parsePlanResponse sampleNumstr sampleClock nullTaskResponse
       = Inl (Error ''Plan parsing failed: TypeError'')\<close> by code_simp
  from 1 2 3 show ?thesis by blast
qed


section \<open>Properties of the locked-structure validator\<close>

lemma checkLockedGoals_eq:
  "checkLockedGoals planGoalsSet gs acc =
     acc @ map goalViolation (filter (\<lambda>g. toLowerCase g \<notin> set planGoalsSet) gs)"
  by (induction gs arbitrary: acc) (simp_all add: goalViolation_def)

lemma checkCoreDecisions_eq:
  "checkCoreDecisions planText ds acc =
     acc @ map decisionViolation (filter (decisionViolated planText) ds)"
  by (induction ds arbitrary: acc) (simp_all add: decisionViolation_def)

lemma decisionViolated_iff:
  "decisionViolated planText d \<longleftrightarrow>
     2 * length (filter (js_includes planText) (decisionKeywords d)) < length (decisionKeywords d)"
  by (simp add: decisionViolated_def Let_def) linarith

text \<open>
  Claim C8, as amended.  \<open>validateAgainstLockedStructure\<close> returns, in this order, the
  violation \<open>Locked goal removed: "<goal>"\<close> for exactly the locked goals whose lower-case
  form is not the lower-case form of a goal of the plan, and the violation
  \<open>Core decision may be violated: "<decision>"\<close> for exactly the locked core decisions of
  which, once lower-cased, split at every space character (U+0020, not white space in
  general) and reduced to the pieces longer than 4, fewer than half of the pieces occur
  in the lower-cased \<open>JSON.stringify(plan)\<close>; \<open>valid\<close> is true iff there is no violation.
  The function is total: it does not throw.
\<close>

theorem validateAgainstLockedStructure_violations:
  "validateAgainstLockedStructure p ls =
     \<lparr> valid =
         (filter (goalMissing p) (LockedStructure.goals ls) = [] \<and>
          filter (\<lambda>d. 2 * length (filter (js_includes (toLowerCase (stringifyPlan p)))
                                    (filter (\<lambda>w. length w > 4)
                                       (splitOn (CHR '' '') (toLowerCase d))))
                        < length (filter (\<lambda>w. length w > 4)
                                    (splitOn (CHR '' '') (toLowerCase d))))
            (core_decisions ls) = []),
       violations =
         map goalViolation (filter (goalMissing p) (LockedStructure.goals ls))
         @ map decisionViolation
             (filter (\<lambda>d. 2 * length (filter (js_includes (toLowerCase (stringifyPlan p)))
                                        (filter (\<lambda>w. length w > 4)
                                           (splitOn (CHR '' '') (toLowerCase d))))
                            < length (filter (\<lambda>w. length w > 4)
                                        (splitOn (CHR '' '') (toLowerCase d))))
                (core_decisions ls)) \<rparr>"
proof -
  have g: "(\<lambda>g. toLowerCase g \<notin> set (newSet (map toLowerCase (Plan.goals p)))) = goalMissing p"
    by (rule ext) (simp add: goalMissing_def newSet_props)
  have d: "decisionViolated (toLowerCase (stringifyPlan p)) =
      (\<lambda>d. 2 * length (filter (js_includes (toLowerCase (stringifyPlan p)))
                                    (filter (\<lambda>w. length w > 4)
                                       (splitOn (CHR '' '') (toLowerCase d))))
                        < length (filter (\<lambda>w. length w > 4)
                                    (splitOn (CHR '' '') (toLowerCase d))))"
    by (rule ext) (simp add: decisionViolated_iff decisionKeywords_def)
  show ?thesis
    unfolding validateAgainstLockedStructure_def Let_def checkLockedGoals_eq
      checkCoreDecisions_eq g d
    by simp
qed

lemmas iso_defs = toISOString_def isoYear_def yearOf_def monthOf_def dayOfMonth_def monthIndex_def
  dayOfYear_def yearOfEra_def dayOfEra_def eraOf_def padLeft.simps showNat.simps digitChar_def

lemmas lower_defs = toLowerCase_def lowerChar_def asciiLower_def latin1Lower_def

lemmas stringify_defs = stringifyPlan_def stringifyTask_def stringifyArray_def JSON_quote_def
  quoteChar_def hexDigit_def priorityName_def statusName_def

lemma samplePlanAB_text:
  \<open>toLowerCase (stringifyPlan samplePlanAB) =
     ''{"id":"plan_0","goals":["alpha","bravo"],"tasks":[],"constraints":[],"created_at":"1970-01-01t00:00:00.001z"}''\<close>
  by (simp add: samplePlanAB_def stringify_defs iso_defs lower_defs)

lemma tabDecision_keywords: "decisionKeywords tabDecision = [tabDecision]"
  by (simp add: decisionKeywords_def tabDecision_def lower_defs)

lemma tabDecision_absent:
  \<open>\<not> js_includes ''{"id":"plan_0","goals":["alpha","bravo"],"tasks":[],"constraints":[],"created_at":"1970-01-01t00:00:00.001z"}'' tabDecision\<close>
  by (simp add: tabDecision_def)

text \<open>C8 as stated fails on a decision whose two words are separated by a tab: split on
  white space, both words occur in the serialized plan and nothing is reported; the code
  splits at spaces only, looks for the whole decision, and reports it.\<close>

theorem whitespace_split_counterexample:
  "validateAgainstLockedStructure samplePlanAB sampleLockedTab =
     \<lparr> valid = False, violations = [decisionViolation tabDecision] \<rparr>
   \<and> whitespaceTokens tabDecision [] = [''alpha'', ''bravo'']
   \<and> claimedViolations samplePlanAB sampleLockedTab = []"
proof -
  have 1: "decisionViolated (toLowerCase (stringifyPlan samplePlanAB)) tabDecision"
    unfolding samplePlanAB_text
    using tabDecision_absent by (simp add: decisionViolated_def tabDecision_keywords)
  have 2: "toLowerCase ''Alpha'' \<in> set (newSet (map toLowerCase (Plan.goals samplePlanAB)))"
    by (simp add: samplePlanAB_def newSet_def lower_defs)
  have a: "validateAgainstLockedStructure samplePlanAB sampleLockedTab =
     \<lparr> valid = False, violations = [decisionViolation tabDecision] \<rparr>"
    unfolding validateAgainstLockedStructure_def Let_def sampleLockedTab_def
    using 1 by (simp add: 2 decisionViolation_def)
  have b: "whitespaceTokens tabDecision [] = [''alpha'', ''bravo'']"
    by (simp add: tabDecision_def isWhitespace_def)
  have 3: "\<not> claimedDecisionViolated (stringifyPlan samplePlanAB) tabDecision"
    unfolding claimedDecisionViolated_def b samplePlanAB_text Let_def
    by (simp add: lower_defs)
  have 4: "\<not> goalMissing samplePlanAB ''Alpha''"
    by (simp add: goalMissing_def samplePlanAB_def lower_defs)
  have c: "claimedViolations samplePlanAB sampleLockedTab = []"
    using 3 4 by (simp add: claimedViolations_def sampleLockedTab_def)
  from a b c show ?thesis by simp
qed


section \<open>Orchestrator (orchestrator.ts)\<close>

text \<open>
  The text of a prompt is not modelled: a prompt is kept as the input it is rendered from,
  and the model function is an arbitrary function of it.  The field \<open>context\<close> is named
  \<open>contextText\<close>.  The optional \<open>constraints\<close> of a \<open>PlannerInput\<close> are never supplied by
  the orchestrator and are left out.
\<close>

record PlannerInput =
  goal :: string
  contextText :: string
  previousPlan :: "Plan option"
  lockedStructure :: "LockedStructure option"
  phase :: RoundPhase

record BlindJudgeInput =
  currentPlan :: Plan
  previousPlan :: "Plan option"
  goal :: string
  lockedStructure :: "LockedStructure option"

datatype prompt =
  ArchitectPrompt PlannerInput | RefinerPrompt PlannerInput
  | BlindEvaluationPrompt BlindJudgeInput

definition createArchitectPrompt :: "PlannerInput \<Rightarrow> prompt" where
  "createArchitectPrompt input = ArchitectPrompt input"

definition createRefinerPrompt :: "PlannerInput \<Rightarrow> js_error + prompt" where
  "createRefinerPrompt input =
     (if PlannerInput.lockedStructure input = None \<or> PlannerInput.previousPlan input = None
      then Inl (Error ''Refiner phase requires locked structure and previous plan'')
      else Inr (RefinerPrompt input))"

definition createBlindEvaluationPrompt :: "BlindJudgeInput \<Rightarrow> prompt" where
  "createBlindEvaluationPrompt input = BlindEvaluationPrompt input"

text \<open>
  The host of a run: the injected model function, which answers a prompt with a text or
  rejects, and may change the host's state \<open>'w\<close>; the clock (\<open>Date_now w k\<close> is the \<open>k\<close>-th
  reading of \<open>Date.now()\<close> taken while the host is in state \<open>w\<close>); and the text of a
  number.  The observer hooks \<open>onRoundStart\<close>, \<open>onRoundComplete\<close>, \<open>onTerminate\<close> and
  \<open>onLog\<close> are optional and absent from the default configuration; the model is the
  orchestrator without hooks, so \<open>log\<close> does nothing, and the calls whose results only
  feed a log message (\<open>validateAgainstLockedStructure\<close>, \<open>validateTerminationDecision\<close>,
  the summaries) leave no trace.
\<close>

record 'w Host =
  aiProvider :: "prompt \<Rightarrow> 'w \<Rightarrow> (js_error + string) \<times> 'w"
  Date_now :: "'w \<Rightarrow> nat \<Rightarrow> nat"
  Number_toString :: "rat \<Rightarrow> string"

record OrchestratorConfig =
  maxRounds :: real
  stabilityThreshold :: real

definition defaultOrchestratorConfig :: OrchestratorConfig where
  "defaultOrchestratorConfig =
     \<lparr> maxRounds = 3, stabilityThreshold = nearestDouble (85 / 100) \<rparr>"

record RoundResult =
  round :: int
  plan :: Plan
  evaluation :: BlindEvaluation
  stability :: StabilityMetrics
  decision :: TerminationDecision

text \<open>The \<open>output\<close> of a result (the field is named \<open>outputText\<close>): the summary that
  \<open>createFinalOutput\<close> renders from a round result (kept as that round result), or the text
  of a failure.\<close>

datatype Output = FinalOutput RoundResult | OutputText string

record ExecutionResult =
  success :: bool
  outputText :: Output
  round :: int
  stability :: real
  terminated :: bool
  termination_reason :: "TerminationReason option"

record OrchestratorState =
  currentRound :: RoundState
  roundHistory :: "RoundState list"
  goal :: string
  contextText :: string
  isRunning :: bool
  lastResult :: "ExecutionResult option"

definition createInitialState :: OrchestratorState where
  "createInitialState =
     \<lparr> currentRound =
         \<lparr> number = 0, phase = ARCHITECT, RoundState.plan = None,
           RoundState.evaluation = None, RoundState.stability = None,
           locked_structure = None \<rparr>,
       roundHistory = [], goal = [], contextText = [], isRunning = False,
       lastResult = None \<rparr>"

text \<open>\<open>xs[xs.length - 1]\<close>, \<open>undefined\<close> for an empty array.\<close>

definition lastRound :: "RoundState list \<Rightarrow> RoundState option" where
  "lastRound rs = (if rs = [] then None else Some (last rs))"

definition startNewRound :: "OrchestratorState \<Rightarrow> OrchestratorState" where
  "startNewRound st =
     (let cur = OrchestratorState.currentRound st;
          history = (if number cur > 0 then OrchestratorState.roundHistory st @ [cur]
                     else OrchestratorState.roundHistory st);
          newRoundNumber = number cur + 1;
          isFirstRound = (newRoundNumber = 1)
      in st\<lparr> OrchestratorState.roundHistory := history,
              OrchestratorState.currentRound :=
                \<lparr> number = newRoundNumber,
                  phase = (if isFirstRound then ARCHITECT else REFINER),
                  RoundState.plan = None, RoundState.evaluation = None,
                  RoundState.stability = None,
                  locked_structure =
                    (if isFirstRound then None else locked_structure cur) \<rparr> \<rparr>)"

definition previousPlanOf :: "OrchestratorState \<Rightarrow> Plan option" where
  "previousPlanOf st =
     (case lastRound (OrchestratorState.roundHistory st) of
        None \<Rightarrow> None | Some r \<Rightarrow> RoundState.plan r)"

definition generatePlan ::
  "'w Host \<Rightarrow> OrchestratorState \<Rightarrow> 'w \<Rightarrow> (js_error + Plan) \<times> 'w" where
  "generatePlan host st w =
     (let cur = OrchestratorState.currentRound st;
          plannerInput =
            \<lparr> PlannerInput.goal = OrchestratorState.goal st,
              PlannerInput.contextText = OrchestratorState.contextText st,
              PlannerInput.previousPlan = previousPlanOf st,
              PlannerInput.lockedStructure = locked_structure cur,
              phase = RoundState.phase cur \<rparr>
      in case (if RoundState.phase cur = ARCHITECT
               then Inr (createArchitectPrompt plannerInput)
               else createRefinerPrompt plannerInput) of
           Inl e \<Rightarrow> (Inl e, w)
         | Inr p \<Rightarrow>
             (case aiProvider host p w of
                (Inl e, w') \<Rightarrow> (Inl e, w')
              | (Inr response, w') \<Rightarrow>
                  (parsePlanResponse (Number_toString host) (Date_now host w') response, w')))"

definition evaluatePlan ::
  "'w Host \<Rightarrow> OrchestratorState \<Rightarrow> Plan \<Rightarrow> 'w \<Rightarrow> (js_error + BlindEvaluation) \<times> 'w" where
  "evaluatePlan host st p w =
     (let judgeInput =
            \<lparr> currentPlan = p, previousPlan = previousPlanOf st,
              goal = OrchestratorState.goal st,
              lockedStructure = locked_structure (OrchestratorState.currentRound st) \<rparr>
      in case aiProvider host (createBlindEvaluationPrompt judgeInput) w of
           (Inl e, w') \<Rightarrow> (Inl e, w')
         | (Inr response, w') \<Rightarrow> (parseBlindEvaluation response, w'))"

text \<open>Assignments to a field of \<open>this.state.currentRound\<close>.\<close>

definition setPlan :: "Plan \<Rightarrow> OrchestratorState \<Rightarrow> OrchestratorState" where
  "setPlan p st =
     st\<lparr> OrchestratorState.currentRound :=
           (OrchestratorState.currentRound st)\<lparr> RoundState.plan := Some p \<rparr> \<rparr>"

definition setLockedStructure :: "LockedStructure \<Rightarrow> OrchestratorState \<Rightarrow> OrchestratorState" where
  "setLockedStructure l st =
     st\<lparr> OrchestratorState.currentRound :=
           (OrchestratorState.currentRound st)\<lparr> locked_structure := Some l \<rparr> \<rparr>"

definition setEvaluation :: "BlindEvaluation \<Rightarrow> OrchestratorState \<Rightarrow> OrchestratorState" where
  "setEvaluation e st =
     st\<lparr> OrchestratorState.currentRound :=
           (OrchestratorState.currentRound st)\<lparr> RoundState.evaluation := Some e \<rparr> \<rparr>"

definition setStability :: "StabilityMetrics \<Rightarrow> OrchestratorState \<Rightarrow> OrchestratorState" where
  "setStability s st =
     st\<lparr> OrchestratorState.currentRound :=
           (OrchestratorState.currentRound st)\<lparr> RoundState.stability := Some s \<rparr> \<rparr>"

text \<open>Steps 4 and 5 of \<open>executeRound\<close>, after the evaluation is stored: stability, decision
  and the round's result.\<close>

definition decideRound ::
  "OrchestratorConfig \<Rightarrow> OrchestratorState \<Rightarrow> Plan \<Rightarrow> BlindEvaluation
     \<Rightarrow> RoundResult \<times> OrchestratorState" where
  "decideRound config st p e =
     (let previousRound = lastRound (OrchestratorState.roundHistory st);
          stability' =
            calculateStability (OrchestratorState.currentRound st) previousRound e
              defaultStabilityConfig;
          st' = setStability stability' st;
          decision' =
            makeTerminationDecision
              \<lparr> DecisionContext.currentRound = OrchestratorState.currentRound st',
                DecisionContext.roundHistory = OrchestratorState.roundHistory st',
                latestEvaluation = e, latestStability = stability' \<rparr>
              \<lparr> DecisionEngineConfig.maxRounds = OrchestratorConfig.maxRounds config,
                DecisionEngineConfig.stabilityThreshold =
                  OrchestratorConfig.stabilityThreshold config,
                goalDivergenceLimit = 2 \<rparr>
      in (\<lparr> RoundResult.round = number (OrchestratorState.currentRound st'),
             plan = p, evaluation = e, stability = stability', decision = decision' \<rparr>,
          st'))"

text \<open>\<open>executeRound\<close>: the round's result or what was thrown, with the state and the host
  as they are at that point.\<close>

definition executeRound ::
  "'w Host \<Rightarrow> OrchestratorConfig \<Rightarrow> OrchestratorState \<Rightarrow> 'w
     \<Rightarrow> (js_error + RoundResult) \<times> OrchestratorState \<times> 'w" where
  "executeRound host config st w =
     (let st1 = startNewRound st;
          roundNumber = number (OrchestratorState.currentRound st1)
      in case generatePlan host st1 w of
           (Inl e, w1) \<Rightarrow> (Inl e, st1, w1)
         | (Inr p, w1) \<Rightarrow>
             (let st2 = setPlan p st1;
                  st3 = (if roundNumber = 1
                         then setLockedStructure (createLockedStructure p roundNumber) st2
                         else st2)
              in case evaluatePlan host st3 p w1 of
                   (Inl e, w2) \<Rightarrow> (Inl e, st3, w2)
                 | (Inr ev, w2) \<Rightarrow>
                     (case decideRound config (setEvaluation ev st3) p ev of
                        (result, st5) \<Rightarrow> (Inr result, st5, w2))))"

definition terminate :: "OrchestratorState \<Rightarrow> RoundResult \<Rightarrow> ExecutionResult \<times> OrchestratorState"
  where
  "terminate st roundResult =
     (let result =
            \<lparr> success = (reason (decision roundResult) = stability_achieved \<or>
                         reason (decision roundResult) = task_complete),
              outputText = FinalOutput roundResult,
              round = RoundResult.round roundResult,
              stability = overall_stability (RoundResult.stability roundResult),
              terminated = True,
              termination_reason = Some (reason (decision roundResult)) \<rparr>
      in (result, st\<lparr> isRunning := False, lastResult := Some result \<rparr>))"

text \<open>The \<open>catch\<close> clause of \<open>execute\<close>: the result it returns.  It assigns nothing to the
  state.\<close>

definition failureResult :: "js_error \<Rightarrow> OrchestratorState \<Rightarrow> ExecutionResult" where
  "failureResult e st =
     \<lparr> success = False,
       outputText = OutputText (''Orchestration failed: '' @ errorToString e),
       round = number (OrchestratorState.currentRound st),
       stability =
         (case RoundState.stability (OrchestratorState.currentRound st) of
            None \<Rightarrow> 0 | Some s \<Rightarrow> overall_stability s),
       terminated = True,
       termination_reason = Some max_rounds_reached \<rparr>"

text \<open>The code after the loop ("should not reach here"): it terminates with a made-up
  decision; with no plan or no stability in the current round, rendering the output
  throws a \<open>TypeError\<close> after \<open>isRunning\<close> has been cleared, and the \<open>catch\<close> clause
  answers.  (A current round with a plan and a stability has an evaluation.)\<close>

definition afterLoop :: "OrchestratorState \<Rightarrow> ExecutionResult \<times> OrchestratorState" where
  "afterLoop st =
     (let cur = OrchestratorState.currentRound st
      in case (RoundState.plan cur, RoundState.evaluation cur, RoundState.stability cur) of
           (Some p, Some e, Some s) \<Rightarrow>
             terminate st
               \<lparr> RoundResult.round = number cur, plan = p, evaluation = e, stability = s,
                 decision = \<lparr> should_terminate = True, reason = max_rounds_reached,
                              confidence = 1 \<rparr> \<rparr>
         | _ \<Rightarrow> (failureResult TypeError (st\<lparr> isRunning := False \<rparr>),
                 st\<lparr> isRunning := False \<rparr>))"

text \<open>The rounds of a state in order: the archived ones, then the current one.\<close>

definition roundsOf :: "OrchestratorState \<Rightarrow> RoundState list" where
  "roundsOf st = OrchestratorState.roundHistory st @ [OrchestratorState.currentRound st]"

definition atStart :: "OrchestratorState \<Rightarrow> bool" where
  "atStart st \<longleftrightarrow>
     number (OrchestratorState.currentRound st) = 0 \<and> OrchestratorState.roundHistory st = []"

text \<open>A round that is a refiner round and carries the structure locked from the plan \<open>p1\<close>
  in round 1.\<close>

definition lockedFrom :: "Plan \<Rightarrow> RoundState \<Rightarrow> bool" where
  "lockedFrom p1 r \<longleftrightarrow>
     RoundState.phase r = REFINER \<and>
     locked_structure r =
       Some \<lparr> goals = Plan.goals p1, core_decisions = constraints p1, locked_at_round = 1 \<rparr>"

text \<open>The rounds are numbered 1, 2, ... up to the current one, the first round has a plan,
  the current round carries the structure locked from it, and so does every round after
  the first, each of them a refiner round.\<close>

definition roundsLocked :: "OrchestratorState \<Rightarrow> bool" where
  "roundsLocked st \<longleftrightarrow>
     map number (roundsOf st) = [1..number (OrchestratorState.currentRound st)]
     \<and> (\<exists>p1. RoundState.plan (hd (roundsOf st)) = Some p1
             \<and> locked_structure (OrchestratorState.currentRound st)
                 = Some (createLockedStructure p1 1)
             \<and> list_all (lockedFrom p1) (tl (roundsOf st)))"


text \<open>The rounds a run has executed are numbered 1, 2, ... up to the current one.\<close>

definition roundsNumbered :: "OrchestratorState \<Rightarrow> bool" where
  "roundsNumbered st \<longleftrightarrow>
     map number (roundsOf st) = [1..number (OrchestratorState.currentRound st)]"
text \<open>A model function that answers every prompt with the same text, and one that rejects
  every call with \<open>new Error('boom')\<close>; the hosts have no state of their own.\<close>

definition sampleAnswer :: string where
  \<open>sampleAnswer = ''{"goals":["a"],"missing":["m"]}''\<close>

definition constantHost :: "unit Host" where
  "constantHost =
     \<lparr> aiProvider = (\<lambda>p w. (Inr sampleAnswer, w)), Date_now = (\<lambda>w. sampleClock),
       Number_toString = sampleNumstr \<rparr>"

definition rejectingHost :: "unit Host" where
  "rejectingHost =
     \<lparr> aiProvider = (\<lambda>p w. (Inl (Error ''boom''), w)), Date_now = (\<lambda>w. sampleClock),
       Number_toString = sampleNumstr \<rparr>"

definition samplePlanA :: Plan where
  "samplePlanA =
     \<lparr> plan_id = ''plan_0'', goals = [''a''], tasks = [], constraints = [], created_at = 1 \<rparr>"

definition sampleStart :: OrchestratorState where
  "sampleStart = createInitialState\<lparr> goal := ''g'', contextText := [], isRunning := True \<rparr>"

definition sampleMissing :: BlindEvaluation where
  "sampleMissing =
     \<lparr> vs_previous = same_previous, vs_goal = same_goal, contradictions = [],
       missing = [''m''], risks = [] \<rparr>"


text \<open>Facts about one round that the termination of the loop rests on: a round that
  returns a result has decided with the round number it started, one above the previous
  one, and a decision to continue means that the round number is below \<open>maxRounds\<close>.\<close>

lemma startNewRound_number:
  "number (OrchestratorState.currentRound (startNewRound st))
     = number (OrchestratorState.currentRound st) + 1"
  by (simp add: startNewRound_def Let_def)

lemma decideRound_result:
  "decideRound config st p e = (result, st') \<Longrightarrow>
     number (OrchestratorState.currentRound st') = number (OrchestratorState.currentRound st)
     \<and> decision result =
         makeTerminationDecision
           \<lparr> DecisionContext.currentRound = OrchestratorState.currentRound st',
             DecisionContext.roundHistory = OrchestratorState.roundHistory st',
             latestEvaluation = e, latestStability = RoundResult.stability result \<rparr>
           \<lparr> DecisionEngineConfig.maxRounds = OrchestratorConfig.maxRounds config,
             DecisionEngineConfig.stabilityThreshold =
               OrchestratorConfig.stabilityThreshold config,
             goalDivergenceLimit = 2 \<rparr>"
  by (auto simp add: decideRound_def Let_def setStability_def)

lemma executeRound_number:
  "executeRound host config st w = (r, st', w') \<Longrightarrow>
     number (OrchestratorState.currentRound st')
       = number (OrchestratorState.currentRound st) + 1"
proof -
  assume a: "executeRound host config st w = (r, st', w')"
  let ?st1 = "startNewRound st"
  have n1: "number (OrchestratorState.currentRound ?st1)
      = number (OrchestratorState.currentRound st) + 1"
    by (rule startNewRound_number)
  obtain pr w1 where g: "generatePlan host ?st1 w = (pr, w1)" by fastforce
  show ?thesis
  proof (cases pr)
    case (Inl e)
    with a g n1 show ?thesis by (simp add: executeRound_def Let_def)
  next
    case (Inr p)
    define st3 where "st3 = (if number (OrchestratorState.currentRound ?st1) = 1
         then setLockedStructure
                (createLockedStructure p (number (OrchestratorState.currentRound ?st1)))
                (setPlan p ?st1)
         else setPlan p ?st1)"
    have n3: "number (OrchestratorState.currentRound st3)
        = number (OrchestratorState.currentRound st) + 1"
      using n1 by (simp add: st3_def setPlan_def setLockedStructure_def)
    obtain er w2 where ev: "evaluatePlan host st3 p w1 = (er, w2)" by fastforce
    show ?thesis
    proof (cases er)
      case (Inl e)
      with a g Inr ev n3 show ?thesis
        by (simp add: executeRound_def Let_def st3_def [symmetric])
    next
      case ev_ok: (Inr e)
      obtain result st5 where d: "decideRound config (setEvaluation e st3) p e = (result, st5)"
        by fastforce
      from decideRound_result [OF d] have "number (OrchestratorState.currentRound st5)
          = number (OrchestratorState.currentRound st3)"
        by (simp add: setEvaluation_def)
      with a g Inr ev ev_ok d n3 show ?thesis
        by (simp add: executeRound_def Let_def st3_def [symmetric])
    qed
  qed
qed

lemma continue_below_maxRounds:
  "\<not> should_terminate (makeTerminationDecision ctx cfg) \<Longrightarrow>
     of_int (number (DecisionContext.currentRound ctx)) < DecisionEngineConfig.maxRounds cfg"
  by (simp add: makeTerminationDecision_def split: if_splits)

lemma executeRound_continue:
  assumes "executeRound host config st w = (Inr result, st', w')"
    and "\<not> should_terminate (decision result)"
  shows "of_int (number (OrchestratorState.currentRound st'))
           < OrchestratorConfig.maxRounds config"
proof -
  from assms(1) obtain s p e where
    d: "decideRound config s p e = (result, st')"
    by (auto simp add: executeRound_def Let_def split: prod.splits sum.splits)
  from decideRound_result [OF d] assms(2) continue_below_maxRounds
  show ?thesis by fastforce
qed

text \<open>The \<open>try\<close> block and the \<open>catch\<close> clause of \<open>execute\<close>, from the \<open>while\<close> loop on.\<close>

function executeLoop ::
  "'w Host \<Rightarrow> OrchestratorConfig \<Rightarrow> OrchestratorState \<Rightarrow> 'w
     \<Rightarrow> ExecutionResult \<times> OrchestratorState \<times> 'w" where
  "executeLoop host config st w =
     (if isRunning st then
        (case executeRound host config st w of
           (Inl e, st', w') \<Rightarrow> (failureResult e st', st', w')
         | (Inr roundResult, st', w') \<Rightarrow>
             if should_terminate (decision roundResult)
             then (case terminate st' roundResult of (result, st'') \<Rightarrow> (result, st'', w'))
             else executeLoop host config st' w')
      else (case afterLoop st of (result, st') \<Rightarrow> (result, st', w)))"
  by pat_completeness auto
termination
proof (relation "measure (\<lambda>(host, config, st, w).
          nat (\<lceil>OrchestratorConfig.maxRounds config\<rceil>
                 - number (OrchestratorState.currentRound st)))", goal_cases)
  case 1
  show ?case by simp
next
  case (2 host config st w x y roundResult st' w')
  then have e: "executeRound host config st w = (Inr roundResult, st', w')"
    and c: "\<not> should_terminate (decision roundResult)"
    by simp_all
  have n: "number (OrchestratorState.currentRound st')
      = number (OrchestratorState.currentRound st) + 1"
    using executeRound_number [OF e] .
  have "of_int (number (OrchestratorState.currentRound st'))
      < OrchestratorConfig.maxRounds config"
    using executeRound_continue [OF e c] .
  then have "number (OrchestratorState.currentRound st')
      < \<lceil>OrchestratorConfig.maxRounds config\<rceil>"
    by (simp add: less_ceiling_iff)
  with n show ?case by simp
qed

declare executeLoop.simps [simp del]

definition execute ::
  "'w Host \<Rightarrow> OrchestratorConfig \<Rightarrow> string \<Rightarrow> string \<Rightarrow> 'w
     \<Rightarrow> ExecutionResult \<times> OrchestratorState \<times> 'w" where
  "execute host config g c w =
     executeLoop host config
       (createInitialState\<lparr> goal := g, contextText := c, isRunning := True \<rparr>) w"


section \<open>Properties of the orchestrator\<close>

text \<open>What a round leaves in the state, whether it returns or throws: the history is the
  one \<open>startNewRound\<close> made, the phase and (after round 1) the locked structure of the
  current round are the ones \<open>startNewRound\<close> gave it, a round 1 that returns has stored
  its plan and the structure locked from it, and \<open>isRunning\<close> and \<open>lastResult\<close> are
  untouched.\<close>

lemma executeRound_state:
  assumes "executeRound host config st w = (r, st', w')"
  shows "OrchestratorState.roundHistory st' = OrchestratorState.roundHistory (startNewRound st)"
    and "RoundState.phase (OrchestratorState.currentRound st')
           = RoundState.phase (OrchestratorState.currentRound (startNewRound st))"
    and "number (OrchestratorState.currentRound st) + 1 \<noteq> 1 \<Longrightarrow>
           locked_structure (OrchestratorState.currentRound st')
             = locked_structure (OrchestratorState.currentRound (startNewRound st))"
    and "number (OrchestratorState.currentRound st) + 1 = 1 \<Longrightarrow> r = Inr result \<Longrightarrow>
           RoundState.plan (OrchestratorState.currentRound st') = Some (RoundResult.plan result)
           \<and> locked_structure (OrchestratorState.currentRound st')
               = Some (createLockedStructure (RoundResult.plan result) 1)"
    and "r = Inr result \<Longrightarrow>
           RoundResult.round result = number (OrchestratorState.currentRound st')"
    and "isRunning st' = isRunning st"
    and "lastResult st' = lastResult st"
proof -
  let ?st1 = "startNewRound st"
  have n1: "number (OrchestratorState.currentRound ?st1)
      = number (OrchestratorState.currentRound st) + 1"
    by (rule startNewRound_number)
  have s1: "isRunning ?st1 = isRunning st" "lastResult ?st1 = lastResult st"
    by (simp_all add: startNewRound_def Let_def)
  obtain pr w1 where g: "generatePlan host ?st1 w = (pr, w1)" by fastforce
  have "OrchestratorState.roundHistory st' = OrchestratorState.roundHistory ?st1
      \<and> RoundState.phase (OrchestratorState.currentRound st')
           = RoundState.phase (OrchestratorState.currentRound ?st1)
      \<and> (number (OrchestratorState.currentRound st) + 1 \<noteq> 1 \<longrightarrow>
           locked_structure (OrchestratorState.currentRound st')
             = locked_structure (OrchestratorState.currentRound ?st1))
      \<and> (number (OrchestratorState.currentRound st) + 1 = 1 \<longrightarrow> r = Inr result \<longrightarrow>
           RoundState.plan (OrchestratorState.currentRound st') = Some (RoundResult.plan result)
           \<and> locked_structure (OrchestratorState.currentRound st')
               = Some (createLockedStructure (RoundResult.plan result) 1))
      \<and> (r = Inr result \<longrightarrow>
           RoundResult.round result = number (OrchestratorState.currentRound st'))
      \<and> isRunning st' = isRunning st \<and> lastResult st' = lastResult st"
  proof (cases pr)
    case (Inl e)
    with assms g s1 show ?thesis by (auto simp add: executeRound_def Let_def)
  next
    case (Inr p)
    define st3 where "st3 = (if number (OrchestratorState.currentRound ?st1) = 1
         then setLockedStructure
                (createLockedStructure p (number (OrchestratorState.currentRound ?st1)))
                (setPlan p ?st1)
         else setPlan p ?st1)"
    obtain er w2 where ev: "evaluatePlan host st3 p w1 = (er, w2)" by fastforce
    show ?thesis
    proof (cases er)
      case (Inl e)
      with assms g Inr ev have "st' = st3" "r = Inl e"
        by (simp_all add: executeRound_def Let_def st3_def [symmetric])
      then show ?thesis
        using n1 s1 by (auto simp add: st3_def setPlan_def setLockedStructure_def)
    next
      case ev_ok: (Inr e)
      obtain res st5 where d: "decideRound config (setEvaluation e st3) p e = (res, st5)"
        by fastforce
      from assms g Inr ev ev_ok d have r: "r = Inr res" "st' = st5"
        by (simp_all add: executeRound_def Let_def st3_def [symmetric])
      from d have st5: "st5 = setStability (RoundResult.stability res) (setEvaluation e st3)"
        and res: "RoundResult.plan res = p"
          "RoundResult.round res
             = number (OrchestratorState.currentRound (setEvaluation e st3))"
        by (auto simp add: decideRound_def Let_def setStability_def)
      show ?thesis
        using n1 s1 r res
        by (auto simp add: st5 st3_def setPlan_def setLockedStructure_def setEvaluation_def
            setStability_def)
    qed
  qed
  then show
    "OrchestratorState.roundHistory st' = OrchestratorState.roundHistory (startNewRound st)"
    "RoundState.phase (OrchestratorState.currentRound st')
           = RoundState.phase (OrchestratorState.currentRound (startNewRound st))"
    "number (OrchestratorState.currentRound st) + 1 \<noteq> 1 \<Longrightarrow>
           locked_structure (OrchestratorState.currentRound st')
             = locked_structure (OrchestratorState.currentRound (startNewRound st))"
    "number (OrchestratorState.currentRound st) + 1 = 1 \<Longrightarrow> r = Inr result \<Longrightarrow>
           RoundState.plan (OrchestratorState.currentRound st') = Some (RoundResult.plan result)
           \<and> locked_structure (OrchestratorState.currentRound st')
               = Some (createLockedStructure (RoundResult.plan result) 1)"
    "r = Inr result \<Longrightarrow>
           RoundResult.round result = number (OrchestratorState.currentRound st')"
    "isRunning st' = isRunning st"
    "lastResult st' = lastResult st"
    by blast+
qed

subsection \<open>Invariants of the loop\<close>

lemma startNewRound_rounds:
  "roundsOf (startNewRound st) =
     (if number (OrchestratorState.currentRound st) > 0 then roundsOf st
      else OrchestratorState.roundHistory st)
     @ [OrchestratorState.currentRound (startNewRound st)]"
  by (simp add: roundsOf_def startNewRound_def Let_def)

lemma roundsOf_after_round:
  assumes "executeRound host config st w = (r, st', w')"
  shows "roundsOf st' =
     (if number (OrchestratorState.currentRound st) > 0 then roundsOf st
      else OrchestratorState.roundHistory st)
     @ [OrchestratorState.currentRound st']"
  using executeRound_state(1) [OF assms]
  by (simp add: roundsOf_def startNewRound_def Let_def)

lemma first_round_locked:
  assumes "atStart st" "executeRound host config st w = (Inr result, st', w')"
  shows "roundsLocked st'"
proof -
  from assms(1) have n0: "number (OrchestratorState.currentRound st) = 0"
    and h0: "OrchestratorState.roundHistory st = []"
    by (simp_all add: atStart_def)
  have n: "number (OrchestratorState.currentRound st') = 1"
    using executeRound_number [OF assms(2)] n0 by simp
  have r: "roundsOf st' = [OrchestratorState.currentRound st']"
    using roundsOf_after_round [OF assms(2)] n0 h0 by simp
  have p: "RoundState.plan (OrchestratorState.currentRound st') = Some (RoundResult.plan result)
           \<and> locked_structure (OrchestratorState.currentRound st')
               = Some (createLockedStructure (RoundResult.plan result) 1)"
    using executeRound_state(4) [OF assms(2), of result] n0 by simp
  show ?thesis
    unfolding roundsLocked_def r using n p by simp
qed

lemma first_round_number:
  assumes "atStart st" "executeRound host config st w = (r, st', w')"
  shows "number (OrchestratorState.currentRound st') = 1"
  using executeRound_number [OF assms(2)] assms(1) by (simp add: atStart_def)

lemma later_round_locked:
  assumes "roundsLocked st" "executeRound host config st w = (r, st', w')"
  shows "roundsLocked st'"
proof -
  let ?n = "number (OrchestratorState.currentRound st)"
  from assms(1) obtain p1 where
    m: "map number (roundsOf st) = [1..?n]"
    and p: "RoundState.plan (hd (roundsOf st)) = Some p1"
    and l: "locked_structure (OrchestratorState.currentRound st)
              = Some (createLockedStructure p1 1)"
    and a: "list_all (lockedFrom p1) (tl (roundsOf st))"
    by (auto simp add: roundsLocked_def)
  have pos: "1 \<le> ?n"
  proof (rule ccontr)
    assume "\<not> 1 \<le> ?n"
    then have "[1..?n] = []" by simp
    with m show False by (simp add: roundsOf_def)
  qed
  have n': "number (OrchestratorState.currentRound st') = ?n + 1"
    using executeRound_number [OF assms(2)] .
  have r': "roundsOf st' = roundsOf st @ [OrchestratorState.currentRound st']"
    using roundsOf_after_round [OF assms(2)] pos by simp
  have ne: "roundsOf st \<noteq> []" by (simp add: roundsOf_def)
  have ph: "RoundState.phase (OrchestratorState.currentRound st') = REFINER"
    using executeRound_state(2) [OF assms(2)] pos by (simp add: startNewRound_def Let_def)
  have lk: "locked_structure (OrchestratorState.currentRound st')
      = Some (createLockedStructure p1 1)"
    using executeRound_state(3) [OF assms(2)] pos l by (simp add: startNewRound_def Let_def)
  have up: "[1..?n + 1] = [1..?n] @ [?n + 1]"
    using pos by (simp add: upto_rec2)
  have m': "map number (roundsOf st') = [1..number (OrchestratorState.currentRound st')]"
    by (simp add: r' m n' up)
  have a': "list_all (lockedFrom p1) (tl (roundsOf st'))"
    using a ne ph lk by (simp add: r' lockedFrom_def createLockedStructure_def)
  have p': "RoundState.plan (hd (roundsOf st')) = Some p1"
    using p ne by (simp add: r')
  show ?thesis
    unfolding roundsLocked_def using m' p' lk a' by blast
qed

lemma roundsLocked_same_rounds:
  "OrchestratorState.roundHistory st' = OrchestratorState.roundHistory st \<Longrightarrow>
   OrchestratorState.currentRound st' = OrchestratorState.currentRound st \<Longrightarrow>
   roundsLocked st' = roundsLocked st"
  by (simp add: roundsLocked_def roundsOf_def)

lemma terminate_rounds:
  "terminate st roundResult = (result, st') \<Longrightarrow>
     OrchestratorState.roundHistory st' = OrchestratorState.roundHistory st
     \<and> OrchestratorState.currentRound st' = OrchestratorState.currentRound st
     \<and> ExecutionResult.round result = RoundResult.round roundResult
     \<and> lastResult st' = Some result \<and> \<not> isRunning st'"
  by (auto simp add: terminate_def Let_def)

lemma afterLoop_rounds:
  "afterLoop st = (result, st') \<Longrightarrow>
     OrchestratorState.roundHistory st' = OrchestratorState.roundHistory st
     \<and> OrchestratorState.currentRound st' = OrchestratorState.currentRound st
     \<and> ExecutionResult.round result = number (OrchestratorState.currentRound st)"
  by (auto simp add: afterLoop_def Let_def terminate_def failureResult_def
      split: option.splits)

text \<open>What one pass of the loop does, as four cases.\<close>

lemma executeLoop_cases:
  assumes "executeLoop host config st w = (result, st', w')"
  obtains
    (stopped) "\<not> isRunning st" "afterLoop st = (result, st')"
  | (failed) e where "isRunning st" "executeRound host config st w = (Inl e, st', w')"
      "result = failureResult e st'"
  | (decided) roundResult st1 where "isRunning st"
      "executeRound host config st w = (Inr roundResult, st1, w')"
      "should_terminate (decision roundResult)" "terminate st1 roundResult = (result, st')"
  | (continued) roundResult st1 w1 where "isRunning st"
      "executeRound host config st w = (Inr roundResult, st1, w1)"
      "\<not> should_terminate (decision roundResult)"
      "executeLoop host config st1 w1 = (result, st', w')"
proof (cases "isRunning st")
  case False
  with assms stopped show ?thesis
    by (auto simp add: executeLoop.simps [of host config st w] split: prod.splits)
next
  case True
  obtain r st1 w1 where e: "executeRound host config st w = (r, st1, w1)"
    by (cases "executeRound host config st w") auto
  show ?thesis
  proof (cases r)
    case (Inl e')
    with assms True e failed show ?thesis
      by (auto simp add: executeLoop.simps [of host config st w])
  next
    case (Inr roundResult)
    show ?thesis
    proof (cases "should_terminate (decision roundResult)")
      case t: True
      with assms True e Inr decided show ?thesis
        by (auto simp add: executeLoop.simps [of host config st w] split: prod.splits)
    next
      case f: False
      with assms True e Inr continued show ?thesis
        by (auto simp add: executeLoop.simps [of host config st w])
    qed
  qed
qed

lemma executeLoop_locked:
  "executeLoop host config st w = (result, st', w') \<Longrightarrow> atStart st \<or> roundsLocked st \<Longrightarrow>
     2 \<le> number (OrchestratorState.currentRound st') \<longrightarrow> roundsLocked st'"
proof (induction host config st w arbitrary: result st' w' rule: executeLoop.induct)
  case (1 host config st w)
  from "1.prems"(1) show ?case
  proof (cases rule: executeLoop_cases)
    case stopped
    from afterLoop_rounds [OF stopped(2)] have
      same: "OrchestratorState.roundHistory st' = OrchestratorState.roundHistory st"
        "OrchestratorState.currentRound st' = OrchestratorState.currentRound st"
      by simp_all
    from "1.prems"(2) show ?thesis
    proof
      assume "atStart st"
      with same show ?thesis by (simp add: atStart_def)
    next
      assume "roundsLocked st"
      with roundsLocked_same_rounds [OF same] show ?thesis by simp
    qed
  next
    case (failed e)
    from "1.prems"(2) show ?thesis
    proof
      assume "atStart st"
      from first_round_number [OF this failed(2)] show ?thesis by simp
    next
      assume "roundsLocked st"
      from later_round_locked [OF this failed(2)] show ?thesis by simp
    qed
  next
    case (decided roundResult st1)
    have "roundsLocked st1"
      using "1.prems"(2) first_round_locked [OF _ decided(2)] later_round_locked [OF _ decided(2)]
      by blast
    moreover from terminate_rounds [OF decided(4)] have
      "OrchestratorState.roundHistory st' = OrchestratorState.roundHistory st1"
      "OrchestratorState.currentRound st' = OrchestratorState.currentRound st1"
      by simp_all
    ultimately show ?thesis using roundsLocked_same_rounds by blast
  next
    case (continued roundResult st1 w1)
    have l: "roundsLocked st1"
      using "1.prems"(2) first_round_locked [OF _ continued(2)]
        later_round_locked [OF _ continued(2)]
      by blast
    from "1.IH" [OF continued(1) continued(2) [symmetric] refl refl continued(3) continued(4)] l
    show ?thesis by blast
  qed
qed

lemma executeLoop_bound:
  "executeLoop host config st w = (result, st', w') \<Longrightarrow>
   OrchestratorConfig.maxRounds config = of_int m \<Longrightarrow>
   number (OrchestratorState.currentRound st) < m \<Longrightarrow>
     number (OrchestratorState.currentRound st') \<le> m \<and> ExecutionResult.round result \<le> m"
proof (induction host config st w arbitrary: result st' w' rule: executeLoop.induct)
  case (1 host config st w)
  from "1.prems"(1) show ?case
  proof (cases rule: executeLoop_cases)
    case stopped
    from afterLoop_rounds [OF stopped(2)] "1.prems"(3) show ?thesis by simp
  next
    case (failed e)
    from executeRound_number [OF failed(2)] "1.prems"(3) failed(3) show ?thesis
      by (simp add: failureResult_def)
  next
    case (decided roundResult st1)
    from executeRound_number [OF decided(2)] executeRound_state(5) [OF decided(2) refl]
      terminate_rounds [OF decided(4)] "1.prems"(3)
    show ?thesis by simp
  next
    case (continued roundResult st1 w1)
    from executeRound_continue [OF continued(2) continued(3)] "1.prems"(2)
    have "number (OrchestratorState.currentRound st1) < m" by simp
    from "1.IH" [OF continued(1) continued(2) [symmetric] refl refl continued(3) continued(4)
        "1.prems"(2) this]
    show ?thesis .
  qed
qed

lemma numbered_after_round:
  assumes "atStart st \<or> roundsNumbered st" "executeRound host config st w = (r, st', w')"
  shows "roundsNumbered st'"
  using assms(1)
proof
  assume s: "atStart st"
  then have "roundsOf st' = [OrchestratorState.currentRound st']"
    using roundsOf_after_round [OF assms(2)] by (simp add: atStart_def)
  with first_round_number [OF s assms(2)] show ?thesis
    by (simp add: roundsNumbered_def)
next
  let ?n = "number (OrchestratorState.currentRound st)"
  assume n: "roundsNumbered st"
  have pos: "1 \<le> ?n"
  proof (rule ccontr)
    assume "\<not> 1 \<le> ?n"
    then have "[1..?n] = []" by simp
    with n show False by (simp add: roundsNumbered_def roundsOf_def)
  qed
  have "roundsOf st' = roundsOf st @ [OrchestratorState.currentRound st']"
    using roundsOf_after_round [OF assms(2)] pos by simp
  moreover have "[1..?n + 1] = [1..?n] @ [?n + 1]"
    using pos by (simp add: upto_rec2)
  ultimately show ?thesis
    using n executeRound_number [OF assms(2)] by (simp add: roundsNumbered_def)
qed

lemma roundsNumbered_same_rounds:
  "OrchestratorState.roundHistory st' = OrchestratorState.roundHistory st \<Longrightarrow>
   OrchestratorState.currentRound st' = OrchestratorState.currentRound st \<Longrightarrow>
   roundsNumbered st' = roundsNumbered st"
  by (simp add: roundsNumbered_def roundsOf_def)

lemma executeLoop_numbered:
  "executeLoop host config st w = (result, st', w') \<Longrightarrow>
   (atStart st \<and> isRunning st) \<or> roundsNumbered st \<Longrightarrow> roundsNumbered st'"
proof (induction host config st w arbitrary: result st' w' rule: executeLoop.induct)
  case (1 host config st w)
  from "1.prems"(2) have pre: "atStart st \<or> roundsNumbered st" by blast
  from "1.prems"(1) show ?case
  proof (cases rule: executeLoop_cases)
    case stopped
    with "1.prems"(2) have "roundsNumbered st" by blast
    moreover from afterLoop_rounds [OF stopped(2)] have
      "OrchestratorState.roundHistory st' = OrchestratorState.roundHistory st"
      "OrchestratorState.currentRound st' = OrchestratorState.currentRound st"
      by simp_all
    ultimately show ?thesis using roundsNumbered_same_rounds by blast
  next
    case (failed e)
    from numbered_after_round [OF pre failed(2)] show ?thesis .
  next
    case (decided roundResult st1)
    from numbered_after_round [OF pre decided(2)] have "roundsNumbered st1" .
    moreover from terminate_rounds [OF decided(4)] have
      "OrchestratorState.roundHistory st' = OrchestratorState.roundHistory st1"
      "OrchestratorState.currentRound st' = OrchestratorState.currentRound st1"
      by simp_all
    ultimately show ?thesis using roundsNumbered_same_rounds by blast
  next
    case (continued roundResult st1 w1)
    from numbered_after_round [OF pre continued(2)] have "roundsNumbered st1" .
    with "1.IH" [OF continued(1) continued(2) [symmetric] refl refl continued(3) continued(4)]
    show ?thesis by blast
  qed
qed

lemma executeLoop_number_mono:
  "executeLoop host config st w = (result, st', w') \<Longrightarrow>
     number (OrchestratorState.currentRound st) \<le> number (OrchestratorState.currentRound st')"
proof (induction host config st w arbitrary: result st' w' rule: executeLoop.induct)
  case (1 host config st w)
  from "1.prems"(1) show ?case
  proof (cases rule: executeLoop_cases)
    case stopped
    from afterLoop_rounds [OF stopped(2)] show ?thesis by simp
  next
    case (failed e)
    from executeRound_number [OF failed(2)] show ?thesis by simp
  next
    case (decided roundResult st1)
    from executeRound_number [OF decided(2)] terminate_rounds [OF decided(4)]
    show ?thesis by simp
  next
    case (continued roundResult st1 w1)
    from "1.IH" [OF continued(1) continued(2) [symmetric] refl refl continued(3) continued(4)]
      executeRound_number [OF continued(2)]
    show ?thesis by simp
  qed
qed

lemma executeLoop_number_running:
  assumes "executeLoop host config st w = (result, st', w')" "isRunning st"
  shows "number (OrchestratorState.currentRound st) + 1
           \<le> number (OrchestratorState.currentRound st')"
  using assms(1)
proof (cases rule: executeLoop_cases)
  case stopped
  with assms(2) show ?thesis by simp
next
  case (failed e)
  from executeRound_number [OF failed(2)] show ?thesis by simp
next
  case (decided roundResult st1)
  from executeRound_number [OF decided(2)] terminate_rounds [OF decided(4)]
  show ?thesis by simp
next
  case (continued roundResult st1 w1)
  from executeLoop_number_mono [OF continued(4)] executeRound_number [OF continued(2)]
  show ?thesis by simp
qed

lemma atStart_initial:
  "atStart (createInitialState\<lparr> goal := g, contextText := c, isRunning := True \<rparr>)"
  by (simp add: atStart_def createInitialState_def)

lemma terminate_at_maxRounds:
  "DecisionEngineConfig.maxRounds cfg \<le> of_int (number (DecisionContext.currentRound ctx))
     \<Longrightarrow> should_terminate (makeTerminationDecision ctx cfg)"
  using continue_below_maxRounds [of ctx cfg] by fastforce
subsection \<open>The sample run\<close>

lemma sampleAnswer_plan:
  "parsePlanResponse sampleNumstr sampleClock sampleAnswer = Inr samplePlanA"
  by code_simp

lemma sampleAnswer_evaluation:
  "parseBlindEvaluation sampleAnswer = Inr sampleMissing"
  by code_simp

lemma sample_generatePlan:
  "generatePlan constantHost (startNewRound sampleStart) () = (Inr samplePlanA, ())"
  by (simp add: generatePlan_def constantHost_def startNewRound_def sampleStart_def
      createInitialState_def Let_def createArchitectPrompt_def sampleAnswer_plan)

lemma sample_evaluatePlan:
  "evaluatePlan constantHost st p () = (Inr sampleMissing, ())"
  by (simp add: evaluatePlan_def constantHost_def sampleAnswer_evaluation)

text \<open>Round 1 of the sample run: nothing is contradicted, one item is missing, there is no
  previous plan; the overall stability is 0.65, below the threshold, and the round number
  is below \<open>maxRounds = 3\<close>.\<close>

lemma sample_first_convergence: "calculateGoalConvergence sampleMissing = 1 / 2"
proof -
  have 1: "js_mul (1 / 2) (3152519739159347 / 4503599627370496)
      = 3152519739159347 / 9007199254740992"
    unfolding js_mul_def
    using nearestDouble_below_one [of 2 "1 / 2 * (3152519739159347 / 4503599627370496)"]
    by (simp add: roundEven_def)
  have 2: "js_mul (1 / 2) (5404319552844595 / 18014398509481984)
      = 5404319552844595 / 36028797018963968"
    unfolding js_mul_def
    using nearestDouble_below_one [of 3 "1 / 2 * (5404319552844595 / 18014398509481984)"]
    by (simp add: roundEven_def)
  have 3: "js_add (3152519739159347 / 9007199254740992) (5404319552844595 / 36028797018963968)
      = 1 / 2"
    unfolding js_add_def
    using nearestDouble_below_one
      [of 2 "3152519739159347 / 9007199254740992 + 5404319552844595 / 36028797018963968"]
    by (simp add: roundEven_def)
  have "calculateGoalConvergence sampleMissing
      = js_add (js_mul (1 / 2) (3152519739159347 / 4503599627370496))
          (js_mul (1 / 2) (5404319552844595 / 18014398509481984))"
    by (simp add: calculateGoalConvergence_def sampleMissing_def vsGoalMap_def vsPreviousMap_def
        seven_tenths three_tenths)
  then show ?thesis by (simp only: 1 2 3)
qed

lemma sample_first_combined:
  "combinedStability (weights defaultStabilityConfig) 0 (1 / 2) (1 / 2) (1 / 2)
     = 5854679515581645 / 9007199254740992"
proof -
  have 1: "js_mul (js_sub 1 0) (5404319552844595 / 18014398509481984)
      = 5404319552844595 / 18014398509481984"
    unfolding js_mul_def js_sub_def
    using nearestDouble_below_one [of 2 "5404319552844595 / 18014398509481984"]
    by (simp add: roundEven_def exact_doubles)
  have 2: "js_mul (1 / 2) (1 / 4) = 1 / 8" by (simp add: js_mul_def exact_doubles)
  have 3: "js_mul (1 / 2) (3602879701896397 / 18014398509481984)
      = 3602879701896397 / 36028797018963968"
    unfolding js_mul_def
    using nearestDouble_below_one [of 4 "1 / 2 * (3602879701896397 / 18014398509481984)"]
    by (simp add: roundEven_def)
  have 4: "js_add (5404319552844595 / 18014398509481984) (1 / 8)
      = 7656119366529843 / 18014398509481984"
    unfolding js_add_def
    using nearestDouble_below_one [of 2 "5404319552844595 / 18014398509481984 + 1 / 8"]
    by (simp add: roundEven_def)
  have 5: "js_add (7656119366529843 / 18014398509481984) (1 / 8)
      = 2476979795053773 / 4503599627370496"
    unfolding js_add_def
    using nearestDouble_below_one [of 1 "7656119366529843 / 18014398509481984 + 1 / 8"]
    by (simp add: roundEven_def)
  have 6: "js_add (2476979795053773 / 4503599627370496) (3602879701896397 / 36028797018963968)
      = 5854679515581645 / 9007199254740992"
    unfolding js_add_def
    using nearestDouble_below_one
      [of 1 "2476979795053773 / 4503599627370496 + 3602879701896397 / 36028797018963968"]
    by (simp add: roundEven_def)
  have "combinedStability (weights defaultStabilityConfig) 0 (1 / 2) (1 / 2) (1 / 2)
      = js_add
          (js_add
             (js_add (js_mul (js_sub 1 0) (5404319552844595 / 18014398509481984))
                (js_mul (1 / 2) (1 / 4)))
             (js_mul (1 / 2) (1 / 4)))
          (js_mul (1 / 2) (3602879701896397 / 18014398509481984))"
    by (simp add: combinedStability_def default_weights)
  then show ?thesis by (simp only: 1 2 3 4 5 6)
qed

lemma sample_first_overall:
  "overall_stability (calculateStability cur None sampleMissing defaultStabilityConfig)
     = nearestDouble (65 / 100)"
proof -
  have c: "min (js_div (real (length (contradictions sampleMissing))) 5) 1 = 0"
    by (simp add: sampleMissing_def js_div_def exact_doubles)
  have d: "calculateDecisionReuseRate (RoundState.plan cur) None = 1 / 2"
    by (simp add: calculateDecisionReuseRate_def split: option.splits)
  have s: "calculatePlanSimilarity (RoundState.plan cur) None = 1 / 2"
    by (simp add: calculatePlanSimilarity_def split: option.splits)
  have p: "js_mul (5854679515581645 / 9007199254740992) 100 = 65"
    unfolding js_mul_def
    using nearestDouble_above_one [of 6 "5854679515581645 / 9007199254740992 * 100"]
    by (simp add: roundEven_def)
  have r: "Math_round 65 = 65" by (simp add: Math_round_def)
  have "overall_stability (calculateStability cur None sampleMissing defaultStabilityConfig)
      = js_div (Math_round (js_mul (combinedStability (weights defaultStabilityConfig)
                                      0 (1 / 2) (1 / 2) (1 / 2)) 100)) 100"
    unfolding calculateStability_fields by (simp add: c d s sample_first_convergence)
  then show ?thesis by (simp add: sample_first_combined p r js_div_def)
qed

lemma sample_below_threshold:
  "\<not> nearestDouble (85 / 100) \<le> nearestDouble (65 / 100)"
proof -
  have "nearestDouble (65 / 100) \<le> 3 / 4"
    using nearestDouble_le [of "3 / 4" "65 / 100"] small_doubles by simp
  moreover have "13 / 16 \<le> nearestDouble (85 / 100)"
    using nearestDouble_ge [of "13 / 16" "85 / 100"] small_doubles by simp
  ultimately show ?thesis by simp
qed

lemma sample_first_decision:
  "decideRound defaultOrchestratorConfig
      (setEvaluation sampleMissing
         (setLockedStructure l (setPlan samplePlanA (startNewRound sampleStart))))
      samplePlanA sampleMissing = (r, st) \<Longrightarrow> \<not> should_terminate (decision r)"
proof -
  define st0 where "st0 = setEvaluation sampleMissing
         (setLockedStructure l (setPlan samplePlanA (startNewRound sampleStart)))"
  assume "decideRound defaultOrchestratorConfig
      (setEvaluation sampleMissing
         (setLockedStructure l (setPlan samplePlanA (startNewRound sampleStart))))
      samplePlanA sampleMissing = (r, st)"
  then have d: "decideRound defaultOrchestratorConfig st0 samplePlanA sampleMissing = (r, st)"
    by (simp add: st0_def)
  have h: "OrchestratorState.roundHistory st0 = []"
    and n: "number (OrchestratorState.currentRound st0) = 1"
    by (simp_all add: st0_def setEvaluation_def setLockedStructure_def setPlan_def
        startNewRound_def sampleStart_def createInitialState_def Let_def)
  have e: "RoundState.evaluation (OrchestratorState.currentRound st0) = Some sampleMissing"
    by (simp add: st0_def setEvaluation_def)
  define s where "s = calculateStability (OrchestratorState.currentRound st0) None sampleMissing
      defaultStabilityConfig"
  have o: "overall_stability s = nearestDouble (65 / 100)"
    unfolding s_def by (rule sample_first_overall)
  have "decision r =
      makeTerminationDecision
        \<lparr> DecisionContext.currentRound =
            (OrchestratorState.currentRound st0)\<lparr> RoundState.stability := Some s \<rparr>,
          DecisionContext.roundHistory = [],
          latestEvaluation = sampleMissing, latestStability = s \<rparr>
        \<lparr> DecisionEngineConfig.maxRounds = 3,
          DecisionEngineConfig.stabilityThreshold = nearestDouble (85 / 100),
          goalDivergenceLimit = 2 \<rparr>"
    using d
    by (auto simp add: decideRound_def Let_def setStability_def h lastRound_def s_def
        defaultOrchestratorConfig_def)
  then show ?thesis
    using sample_below_threshold
    by (simp add: makeTerminationDecision_def o n e sampleMissing_def
        countConsecutiveGoalDivergence_def evaluationsOf_def List.map_filter_simps
        isContradictionTrendUp_def)
qed

lemma sample_first_round:
  "\<exists>r st. executeRound constantHost defaultOrchestratorConfig sampleStart () = (Inr r, st, ())
     \<and> \<not> should_terminate (decision r)"
proof -
  have n: "number (OrchestratorState.currentRound (startNewRound sampleStart)) = 1"
    by (simp add: startNewRound_number sampleStart_def createInitialState_def)
  obtain r st where d: "decideRound defaultOrchestratorConfig
      (setEvaluation sampleMissing
         (setLockedStructure (createLockedStructure samplePlanA 1)
            (setPlan samplePlanA (startNewRound sampleStart))))
      samplePlanA sampleMissing = (r, st)"
    by fastforce
  have "executeRound constantHost defaultOrchestratorConfig sampleStart () = (Inr r, st, ())"
    by (simp add: executeRound_def Let_def sample_generatePlan sample_evaluatePlan n d)
  with sample_first_decision [OF d] show ?thesis by blast
qed

lemma sample_run_two_rounds:
  "2 \<le> number (OrchestratorState.currentRound
                  (fst (snd (execute constantHost defaultOrchestratorConfig ''g'' [] ()))))"
proof -
  let ?X = "execute constantHost defaultOrchestratorConfig ''g'' [] ()"
  from sample_first_round obtain r st where
    e: "executeRound constantHost defaultOrchestratorConfig sampleStart () = (Inr r, st, ())"
    and c: "\<not> should_terminate (decision r)"
    by blast
  have run: "isRunning sampleStart" by (simp add: sampleStart_def)
  have "?X = executeLoop constantHost defaultOrchestratorConfig sampleStart ()"
    by (simp add: execute_def sampleStart_def)
  also have "\<dots> = executeLoop constantHost defaultOrchestratorConfig st ()"
    using run e c
    by (simp add: executeLoop.simps [of constantHost defaultOrchestratorConfig sampleStart])
  finally have "executeLoop constantHost defaultOrchestratorConfig st () = ?X"
    by (rule sym)
  also have "?X = (fst ?X, fst (snd ?X), snd (snd ?X))"
    by (metis prod.collapse)
  finally have x: "executeLoop constantHost defaultOrchestratorConfig st ()
      = (fst ?X, fst (snd ?X), snd (snd ?X))" .
  have "isRunning st" using executeRound_state(6) [OF e] run by simp
  from executeLoop_number_running [OF x this] executeRound_number [OF e]
  show ?thesis by (simp add: sampleStart_def createInitialState_def)
qed


subsection \<open>The round bound\<close>

text \<open>
  Claim C3.  For every run of \<open>execute\<close> with a positive integer \<open>maxRounds\<close> (\<open>m\<close>), the
  number of executed rounds never exceeds \<open>maxRounds\<close>, whatever the model function
  answers: \<open>execute\<close> returns (the loop is a total function), the rounds of the final state
  are numbered 1 to the number of the current round, that number is at most \<open>m\<close>, and so
  is the round of the result.  Whenever the current round number is at least
  \<open>maxRounds\<close>, the decision of \<open>makeTerminationDecision\<close> has \<open>should_terminate = true\<close>.
\<close>

theorem execute_round_bound:
  assumes "OrchestratorConfig.maxRounds config = of_int m" and "1 \<le> m"
  shows "(case execute host config g c w of
            (result, st', w') \<Rightarrow>
              map number (roundsOf st') = [1..number (OrchestratorState.currentRound st')]
              \<and> number (OrchestratorState.currentRound st') \<le> m
              \<and> ExecutionResult.round result \<le> m)
         \<and> (DecisionEngineConfig.maxRounds cfg
               \<le> of_int (number (DecisionContext.currentRound ctx))
             \<longrightarrow> should_terminate (makeTerminationDecision ctx cfg))"
proof -
  let ?st = "createInitialState\<lparr> goal := g, contextText := c, isRunning := True \<rparr>"
  obtain result st' w' where x: "executeLoop host config ?st w = (result, st', w')"
    by (cases "executeLoop host config ?st w") auto
  have s: "atStart ?st \<and> isRunning ?st" by (simp add: atStart_initial)
  have n: "number (OrchestratorState.currentRound ?st) < m"
    using assms(2) by (simp add: createInitialState_def)
  from executeLoop_numbered [OF x] s have "roundsNumbered st'" by blast
  with executeLoop_bound [OF x assms(1) n] x terminate_at_maxRounds [of cfg ctx]
  show ?thesis
    by (simp add: execute_def roundsNumbered_def)
qed

text \<open>An instance of C3: the sample run under the default configuration, \<open>maxRounds = 3\<close>,
  and the decision in a third round that no other rule stops.\<close>

theorem execute_round_bound_witness:
  "OrchestratorConfig.maxRounds defaultOrchestratorConfig = of_int 3 \<and> (1 :: int) \<le> 3
   \<and> (case execute constantHost defaultOrchestratorConfig ''g'' [] () of
         (result, st', w') \<Rightarrow>
           map number (roundsOf st') = [1..number (OrchestratorState.currentRound st')]
           \<and> number (OrchestratorState.currentRound st') \<le> 3
           \<and> ExecutionResult.round result \<le> 3)
   \<and> DecisionEngineConfig.maxRounds (sampleConfig 3)
        \<le> of_int (number (DecisionContext.currentRound (sampleContext closer 1 1 1 1 (1 / 2))))
   \<and> should_terminate
        (makeTerminationDecision (sampleContext closer 1 1 1 1 (1 / 2)) (sampleConfig 3))"
proof -
  have h: "OrchestratorConfig.maxRounds defaultOrchestratorConfig = of_int 3"
    by (simp add: defaultOrchestratorConfig_def)
  have k: "DecisionEngineConfig.maxRounds (sampleConfig 3)
        \<le> of_int (number (DecisionContext.currentRound (sampleContext closer 1 1 1 1 (1 / 2))))"
    by (simp add: sampleConfig_def sampleContext_def sampleRound_def)
  from execute_round_bound [OF h, of constantHost "''g''" "[]" "()" "sampleConfig 3"
      "sampleContext closer 1 1 1 1 (1 / 2)"] h k
  show ?thesis by simp
qed


subsection \<open>The locked structure\<close>

text \<open>
  Claim C6.  For every run that reaches at least 2 rounds, the rounds of the final state
  are numbered from 1, the first of them holds the plan of round 1, and every round after
  the first has \<open>phase = REFINER\<close> and a \<open>locked_structure\<close> that is not null and equal by
  value to the structure locked from that plan: \<open>goals\<close> the goals of the round-1 plan,
  \<open>core_decisions\<close> its constraints, \<open>locked_at_round = 1\<close>.  \<open>startNewRound\<close> carries
  the locked structure of the current round into the next one, a refiner round, whenever
  the current round is not the initial one.
\<close>

theorem locked_structure_carried:
  assumes "execute host config g c w = (result, st', w')"
    and "2 \<le> number (OrchestratorState.currentRound st')"
  shows "(\<exists>p1. map number (roundsOf st') = [1..number (OrchestratorState.currentRound st')]
            \<and> RoundState.plan (hd (roundsOf st')) = Some p1
            \<and> createLockedStructure p1 1
                = \<lparr> goals = Plan.goals p1, core_decisions = constraints p1,
                    locked_at_round = 1 \<rparr>
            \<and> (\<forall>r \<in> set (tl (roundsOf st')).
                  RoundState.phase r = REFINER
                  \<and> locked_structure r = Some (createLockedStructure p1 1)))
         \<and> (0 < number (OrchestratorState.currentRound st0) \<longrightarrow>
              RoundState.phase (OrchestratorState.currentRound (startNewRound st0)) = REFINER
              \<and> locked_structure (OrchestratorState.currentRound (startNewRound st0))
                  = locked_structure (OrchestratorState.currentRound st0))"
proof -
  let ?st = "createInitialState\<lparr> goal := g, contextText := c, isRunning := True \<rparr>"
  from assms(1) have x: "executeLoop host config ?st w = (result, st', w')"
    by (simp add: execute_def)
  from executeLoop_locked [OF x] atStart_initial assms(2) have "roundsLocked st'" by blast
  then have "\<exists>p1. map number (roundsOf st') = [1..number (OrchestratorState.currentRound st')]
            \<and> RoundState.plan (hd (roundsOf st')) = Some p1
            \<and> createLockedStructure p1 1
                = \<lparr> goals = Plan.goals p1, core_decisions = constraints p1,
                    locked_at_round = 1 \<rparr>
            \<and> (\<forall>r \<in> set (tl (roundsOf st')).
                  RoundState.phase r = REFINER
                  \<and> locked_structure r = Some (createLockedStructure p1 1))"
    by (auto simp add: roundsLocked_def lockedFrom_def list_all_iff createLockedStructure_def)
  moreover have "0 < number (OrchestratorState.currentRound st0) \<longrightarrow>
              RoundState.phase (OrchestratorState.currentRound (startNewRound st0)) = REFINER
              \<and> locked_structure (OrchestratorState.currentRound (startNewRound st0))
                  = locked_structure (OrchestratorState.currentRound st0)"
    by (simp add: startNewRound_def Let_def)
  ultimately show ?thesis by blast
qed

text \<open>An instance of C6: the sample run, which goes beyond its first round; the state that
  \<open>startNewRound\<close> is applied to is its final state.\<close>

theorem locked_structure_carried_witness:
  "2 \<le> number (OrchestratorState.currentRound
                  (fst (snd (execute constantHost defaultOrchestratorConfig ''g'' [] ()))))
   \<and> (\<exists>p1. map number
              (roundsOf (fst (snd (execute constantHost defaultOrchestratorConfig ''g'' [] ()))))
            = [1..number (OrchestratorState.currentRound
                  (fst (snd (execute constantHost defaultOrchestratorConfig ''g'' [] ()))))]
          \<and> RoundState.plan
              (hd (roundsOf
                     (fst (snd (execute constantHost defaultOrchestratorConfig ''g'' [] ())))))
            = Some p1
          \<and> list_all
              (\<lambda>r. RoundState.phase r = REFINER
                    \<and> locked_structure r
                        = Some \<lparr> goals = Plan.goals p1, core_decisions = constraints p1,
                                 locked_at_round = 1 \<rparr>)
              (tl (roundsOf
                     (fst (snd (execute constantHost defaultOrchestratorConfig ''g'' [] ()))))))
   \<and> 0 < number (OrchestratorState.currentRound
                  (fst (snd (execute constantHost defaultOrchestratorConfig ''g'' [] ()))))
   \<and> RoundState.phase
        (OrchestratorState.currentRound
           (startNewRound
              (fst (snd (execute constantHost defaultOrchestratorConfig ''g'' [] ())))))
       = REFINER
   \<and> locked_structure
        (OrchestratorState.currentRound
           (startNewRound
              (fst (snd (execute constantHost defaultOrchestratorConfig ''g'' [] ())))))
       = locked_structure
           (OrchestratorState.currentRound
              (fst (snd (execute constantHost defaultOrchestratorConfig ''g'' [] ()))))"
proof -
  let ?X = "execute constantHost defaultOrchestratorConfig ''g'' [] ()"
  have x: "?X = (fst ?X, fst (snd ?X), snd (snd ?X))" by (metis prod.collapse)
  note two = sample_run_two_rounds
  from two have pos: "0 < number (OrchestratorState.currentRound (fst (snd ?X)))" by simp
  from locked_structure_carried [OF x two, of "fst (snd ?X)"] two pos
  show ?thesis by (auto simp add: list_all_iff)
qed


subsection \<open>A run that ends by an exception\<close>

text \<open>When a round throws, the \<open>catch\<close> clause answers with the failure result and leaves
  the state as the round left it: \<open>lastResult\<close> keeps its value and \<open>isRunning\<close> stays
  set.\<close>

lemma executeLoop_throw:
  assumes "isRunning st" "executeRound host config st w = (Inl e, st1, w1)"
  shows "executeLoop host config st w = (failureResult e st1, st1, w1)
         \<and> lastResult st1 = lastResult st \<and> isRunning st1"
  using assms executeRound_state(6,7) [OF assms(2)]
  by (simp add: executeLoop.simps [of host config st w])

text \<open>How a run ends: by \<open>terminate\<close>, which records the result and clears \<open>isRunning\<close>, or
  by the \<open>catch\<close> clause, in whichever round the exception is thrown, which does
  neither.\<close>

lemma executeLoop_outcome:
  "executeLoop host config st w = (result, st', w') \<Longrightarrow> isRunning st \<Longrightarrow>
   lastResult st = None \<Longrightarrow>
     (lastResult st' = Some result \<and> \<not> isRunning st'
        \<and> (\<exists>roundResult. outputText result = FinalOutput roundResult))
     \<or> (\<exists>e. result = failureResult e st' \<and> lastResult st' = None \<and> isRunning st')"
proof (induction host config st w arbitrary: result st' w' rule: executeLoop.induct)
  case (1 host config st w)
  from "1.prems"(1) show ?case
  proof (cases rule: executeLoop_cases)
    case stopped
    with "1.prems"(2) show ?thesis by simp
  next
    case (failed e)
    from executeRound_state(6,7) [OF failed(2)] "1.prems"(2,3) failed(3) show ?thesis by auto
  next
    case (decided roundResult st1)
    from terminate_rounds [OF decided(4)] decided(4) show ?thesis
      by (auto simp add: terminate_def Let_def)
  next
    case (continued roundResult st1 w1)
    from executeRound_state(6,7) [OF continued(2)] "1.prems"(2,3)
    have "isRunning st1" "lastResult st1 = None" by simp_all
    from "1.IH" [OF continued(1) continued(2) [symmetric] refl refl continued(3) continued(4)
        this]
    show ?thesis .
  qed
qed

lemma execute_outcome:
  assumes "execute host config g c w = (result, st', w')"
  shows "(lastResult st' = Some result \<and> \<not> isRunning st'
            \<and> (\<exists>roundResult. outputText result = FinalOutput roundResult))
         \<or> (\<exists>e. result = failureResult e st' \<and> lastResult st' = None \<and> isRunning st')"
  using assms executeLoop_outcome [of host config _ w result st' w']
  by (simp add: execute_def createInitialState_def)

lemma rejecting_first_round:
  "\<exists>st1. executeRound rejectingHost defaultOrchestratorConfig sampleStart ()
            = (Inl (Error ''boom''), st1, ())
          \<and> number (OrchestratorState.currentRound st1) = 1
          \<and> RoundState.stability (OrchestratorState.currentRound st1) = None"
  by (simp add: executeRound_def generatePlan_def rejectingHost_def Let_def
      createArchitectPrompt_def startNewRound_def sampleStart_def createInitialState_def)

text \<open>
  Claim C4.  The claim fails on the code in its last part.  With a model function that
  rejects its first call with \<open>new Error('boom')\<close>, \<open>execute\<close> returns the failure result
  the claim describes (\<open>success = false\<close>, \<open>terminated = true\<close>, reason
  max_rounds_reached, an output with the error message, stability 0, round 1), but the
  state's \<open>lastResult\<close> is still null and \<open>isRunning\<close> is still true; \<open>terminate\<close>, which
  ends every other run, records the result and clears \<open>isRunning\<close>.
\<close>

theorem execute_failure_not_recorded:
  "(case execute rejectingHost defaultOrchestratorConfig ''g'' [] () of
      (result, st', w') \<Rightarrow>
        result = \<lparr> success = False,
                   outputText = OutputText ''Orchestration failed: Error: boom'',
                   round = 1, stability = 0, terminated = True,
                   termination_reason = Some max_rounds_reached \<rparr>
        \<and> lastResult st' = None \<and> isRunning st')"
proof -
  from rejecting_first_round obtain st1 where
    e: "executeRound rejectingHost defaultOrchestratorConfig sampleStart ()
          = (Inl (Error ''boom''), st1, ())"
    and n: "number (OrchestratorState.currentRound st1) = 1"
    and s: "RoundState.stability (OrchestratorState.currentRound st1) = None"
    by blast
  have run: "isRunning sampleStart" and l: "lastResult sampleStart = None"
    by (simp_all add: sampleStart_def createInitialState_def)
  have "execute rejectingHost defaultOrchestratorConfig ''g'' [] ()
      = executeLoop rejectingHost defaultOrchestratorConfig sampleStart ()"
    by (simp add: execute_def sampleStart_def)
  with executeLoop_throw [OF run e] n s l show ?thesis
    by (simp add: failureResult_def)
qed

end
